theory Spec2Isabelle
  imports
    Main
    "HOL-Library.Multiset"
    "HOL-Library.Char_ord"
    "HOL-Library.List_Lexorder"
    "HOL-Library.Product_Lexorder"
begin

section \<open>The Python backend of quicktype (language/Python.ts)\<close>

subsection \<open>The type graph\<close>

text \<open>
  Modelled from the spec: Type.ts and TypeUtils.ts are not among the sources; the
  variants are the callbacks of \<open>matchType\<close> in Python.ts and the node kinds of
  the data model of the spec.
  The IR type nodes that \<open>matchType\<close> dispatches on. A class or an enum is
  an object of the graph with an identity; it is referred to by a number, and its
  properties, cases and name are looked up in the environment below, so that a class may
  have a property of its own type. A union holds its members in the iteration order of
  its member set (the order of discovery). A transformed string type holds its kind
  (\<open>date\<close>, \<open>time\<close>, \<open>date-time\<close>, \<open>integer-string\<close>).
\<close>

datatype ty =
    TAny | TNull | TBool | TInteger | TDouble | TString
  | TArray ty
  | TClass nat
  | TMap ty
  | TEnum nat
  | TUnion "ty list"
  | TTransformed string

text \<open>The \<open>kind\<close> property of a type, the string that the diagnostics print.\<close>

fun kind :: "ty \<Rightarrow> string" where
  "kind TAny = ''any''"
| "kind TNull = ''null''"
| "kind TBool = ''bool''"
| "kind TInteger = ''integer''"
| "kind TDouble = ''double''"
| "kind TString = ''string''"
| "kind (TArray _) = ''array''"
| "kind (TClass _) = ''class''"
| "kind (TMap _) = ''map''"
| "kind (TEnum _) = ''enum''"
| "kind (TUnion _) = ''union''"
| "kind (TTransformed k) = k"

datatype Declaration = Forward ty | Define ty

text \<open>
  What the renderer reads from the framework around it (ConvenienceRenderer and the type
  graph): the resolved name of a named type, the properties of a class as
  \<open>forEachClassProperty\<close> hands them over (name, JSON name, type), the cases of an
  enum (name, JSON name), the descriptions, the string escaping of the target, the
  declarations in their order, and the leading comments if the caller gave any.
\<close>

record env =
  nameForNamedType :: "ty \<Rightarrow> string"
  classProperties :: "nat \<Rightarrow> (string \<times> string \<times> ty) list"
  enumCases :: "nat \<Rightarrow> (string \<times> string) list"
  descriptionForType :: "ty \<Rightarrow> string list option"
  descriptionForClassProperty :: "nat \<Rightarrow> string \<Rightarrow> string list option"
  stringEscape :: "string \<Rightarrow> string"
  declarations :: "Declaration list"
  leadingComments :: "string list option"

subsection \<open>Source text\<close>

text \<open>
  A \<open>Sourcelike\<close> is a string, a name, or an array of them. \<open>serialize\<close> is
  the text it stands for.
\<close>

datatype sourcelike = Str string | Nm string | Arr "sourcelike list"

fun serialize :: "sourcelike \<Rightarrow> string" where
  "serialize (Str s) = s"
| "serialize (Nm n) = n"
| "serialize (Arr xs) = concat (map serialize xs)"

text \<open>\<open>arrayIntercalate\<close> of collection-utils: the separator between the elements.\<close>

fun arrayIntercalate :: "'a \<Rightarrow> 'a list \<Rightarrow> 'a list" where
  "arrayIntercalate sep [] = []"
| "arrayIntercalate sep [x] = [x]"
| "arrayIntercalate sep (x # y # ys) = x # sep # arrayIntercalate sep (y # ys)"

text \<open>
  Modelled from the spec: Source.ts is not among the sources. A \<open>MultiWord\<close> is a
  source with the flag that it needs parentheses when it is used as an operand;
  \<open>singleWord\<close> wraps its arguments without the flag, \<open>multiWord\<close> puts the
  separator between its words and sets the flag (one word alone is a single word), and
  \<open>parenIfNeeded\<close> adds the parentheses that the flag asks for.
\<close>

record MultiWord =
  source :: sourcelike
  needsParens :: bool

definition singleWord :: "sourcelike list \<Rightarrow> MultiWord" where
  "singleWord ws = \<lparr>source = Arr ws, needsParens = False\<rparr>"

definition multiWord :: "sourcelike \<Rightarrow> sourcelike list \<Rightarrow> MultiWord" where
  "multiWord sep ws =
     (if length ws = 1 then singleWord ws
      else \<lparr>source = Arr (arrayIntercalate sep ws), needsParens = True\<rparr>)"

definition parenIfNeeded :: "MultiWord \<Rightarrow> sourcelike" where
  "parenIfNeeded mw =
     (if needsParens mw then Arr [Str ''('', source mw, Str '')''] else source mw)"

subsection \<open>The state of a renderer\<close>

datatype DeserializerFunction =
    DF_none | DF_bool | DF_int | DF_float | DF_str | DF_list | DF_dict | DF_union
  | DF_date_time

fun dfName :: "DeserializerFunction \<Rightarrow> string" where
  "dfName DF_none = ''none''"
| "dfName DF_bool = ''bool''"
| "dfName DF_int = ''int''"
| "dfName DF_float = ''float''"
| "dfName DF_str = ''str''"
| "dfName DF_list = ''list''"
| "dfName DF_dict = ''dict''"
| "dfName DF_union = ''union''"
| "dfName DF_date_time = ''date-time''"

datatype error = Panic string

text \<open>An emitted line: its indentation and its source, or a blank line.\<close>

datatype srcline = Line nat sourcelike | Blank

text \<open>
  The fields of PythonRenderer and JSONPythonRenderer. A JavaScript \<open>Map\<close> and a
  \<open>Set\<close> iterate in insertion order: \<open>importMap\<close> (the field \<open>imports\<close>) is an association list whose
  values are lists without duplicates, \<open>deserializerFunctions\<close> a list without
  duplicates. \<open>emitted\<close> and \<open>indentation\<close> are the emit context of the
  framework: the lines written so far and the current indentation.
\<close>

record rstate =
  importMap :: "(string \<times> string list) list"
  declaredTypes :: "ty set"
  deserializerFunctions :: "DeserializerFunction list"
  emitted :: "srcline list"
  indentation :: nat

definition setAdd :: "'a \<Rightarrow> 'a list \<Rightarrow> 'a list" where
  "setAdd x xs = (if x \<in> set xs then xs else xs @ [x])"

fun mapUpdateInto :: "(string \<times> string list) list \<Rightarrow> string \<Rightarrow> string
    \<Rightarrow> (string \<times> string list) list" where
  "mapUpdateInto [] m n = [(m, [n])]"
| "mapUpdateInto ((m', ns) # rest) m n =
     (if m' = m then (m', setAdd n ns) # rest else (m', ns) # mapUpdateInto rest m n)"

definition withImport :: "string \<Rightarrow> string \<Rightarrow> rstate \<Rightarrow> sourcelike \<times> rstate" where
  "withImport m n st = (Str n, st\<lparr>importMap := mapUpdateInto (importMap st) m n\<rparr>)"

definition withTyping :: "string \<Rightarrow> rstate \<Rightarrow> sourcelike \<times> rstate" where
  "withTyping n st = withImport ''typing'' n st"

definition namedType :: "env \<Rightarrow> ty \<Rightarrow> rstate \<Rightarrow> sourcelike" where
  "namedType env t st =
     (let name = Nm (nameForNamedType env t) in
      if t \<in> declaredTypes st then name
      else Arr [Str [CHR 0x27], name, Str [CHR 0x27]])"

subsection \<open>Unions\<close>

text \<open>
  Modelled from the spec: Type.ts and TypeUtils.ts are not among the sources.
  \<open>sortedMembers\<close> is the members of a union in the stable order that the spec
  gives, by kind and then by name (a type that is neither a class nor an enum has no
  name). \<open>nullableFromUnion\<close> is the member \<open>T\<close> of a union that is exactly
  \<open>null\<close> and \<open>T\<close>, and nothing for every other union.
\<close>

definition memberSortKey :: "env \<Rightarrow> ty \<Rightarrow> string \<times> string" where
  "memberSortKey env t =
     (kind t,
      case t of TClass c \<Rightarrow> nameForNamedType env t
              | TEnum e \<Rightarrow> nameForNamedType env t
              | _ \<Rightarrow> [])"

definition sortedMembers :: "env \<Rightarrow> ty list \<Rightarrow> ty list" where
  "sortedMembers env ms = sort_key (memberSortKey env) ms"

definition nullableFromUnion :: "ty list \<Rightarrow> ty option" where
  "nullableFromUnion ms =
     (if TNull \<in> set ms
      then (case filter (\<lambda>m. m \<noteq> TNull) ms of [t] \<Rightarrow> Some t | _ \<Rightarrow> None)
      else None)"

lemma nullableFromUnion_member:
  assumes "nullableFromUnion ms = Some t"
  shows "t \<in> set ms"
proof -
  from assms have "filter (\<lambda>m. m \<noteq> TNull) ms = [t]"
    by (auto simp: nullableFromUnion_def split: if_splits list.splits)
  then have "t \<in> set (filter (\<lambda>m. m \<noteq> TNull) ms)" by simp
  then show ?thesis by simp
qed

lemma size_list_mset:
  assumes "mset xs = mset ys"
  shows "size_list f xs = size_list f ys"
proof -
  have "size_list f zs = sum_mset (image_mset f (mset zs)) + length zs" for zs
    by (induction zs) simp_all
  moreover from assms have "length xs = length ys"
    by (rule mset_eq_length)
  ultimately show ?thesis using assms by simp
qed

lemma member_size: "t \<in> set ms \<Longrightarrow> size t < Suc (size_list size ms)"
  by (induction ms) auto

lemma sortedMembers_mset: "mset (sortedMembers env ms) = mset ms"
  by (simp add: sortedMembers_def)

lemma sortedMembers_size: "size_list f (sortedMembers env ms) = size_list f ms"
  by (rule size_list_mset) (rule sortedMembers_mset)

subsection \<open>PythonRenderer.pythonType\<close>

text \<open>
  Modelled from the spec: \<open>panic\<close> (support/Support.ts) and
  \<open>followTargetType\<close> (Transformers.ts) are not among the sources; \<open>panic\<close>
  is the error result, \<open>followTargetType\<close> the identity.
  \<open>pythonType\<close> renders the annotation of a type and records the imports it uses.
  The arguments of an array literal are evaluated from left to right, so
  \<open>withTyping\<close> runs before the rendering of the items of an array or a map, and
  after the rendering of the members of a union. \<open>panic\<close> throws: the result is the
  error. The graph of the spec carries no transformers, on which \<open>followTargetType\<close>
  returns its argument.
\<close>

function (sequential)
  pythonType :: "env \<Rightarrow> ty \<Rightarrow> rstate \<Rightarrow> error + (sourcelike \<times> rstate)" and
  pythonTypes :: "env \<Rightarrow> ty list \<Rightarrow> rstate \<Rightarrow> error + (sourcelike list \<times> rstate)"
where
  "pythonType env TAny st = Inr (withTyping ''Any'' st)"
| "pythonType env TNull st = Inr (Str ''None'', st)"
| "pythonType env TBool st = Inr (Str ''bool'', st)"
| "pythonType env TInteger st = Inr (Str ''int'', st)"
| "pythonType env TDouble st = Inr (Str ''float'', st)"
| "pythonType env TString st = Inr (Str ''str'', st)"
| "pythonType env (TArray items) st =
     (case withTyping ''List'' st of (l, st1) \<Rightarrow>
        (case pythonType env items st1 of
           Inl e \<Rightarrow> Inl e
         | Inr (i, st2) \<Rightarrow> Inr (Arr [l, Str ''['', i, Str '']''], st2)))"
| "pythonType env (TClass c) st = Inr (namedType env (TClass c) st, st)"
| "pythonType env (TMap vals) st =
     (case withTyping ''Dict'' st of (d, st1) \<Rightarrow>
        (case pythonType env vals st1 of
           Inl e \<Rightarrow> Inl e
         | Inr (v, st2) \<Rightarrow> Inr (Arr [d, Str ''[str, '', v, Str '']''], st2)))"
| "pythonType env (TEnum c) st = Inr (namedType env (TEnum c) st, st)"
| "pythonType env (TUnion ms) st =
     (case nullableFromUnion ms of
        Some maybeNullable \<Rightarrow>
          (case withTyping ''Optional'' st of (opt, st1) \<Rightarrow>
             (case pythonType env maybeNullable st1 of
                Inl e \<Rightarrow> Inl e
              | Inr (n, st2) \<Rightarrow> Inr (Arr [opt, Str ''['', n, Str '']''], st2)))
      | None \<Rightarrow>
          (case pythonTypes env (sortedMembers env ms) st of
             Inl e \<Rightarrow> Inl e
           | Inr (memberTypes, st1) \<Rightarrow>
               (case withTyping ''Union'' st1 of (u, st2) \<Rightarrow>
                  Inr (Arr [u, Str ''['', Arr (arrayIntercalate (Str '', '') memberTypes),
                            Str '']''], st2))))"
| "pythonType env (TTransformed k) st =
     (if k = ''date-time'' then Inr (withImport ''datetime'' ''datetime'' st)
      else Inl (Panic (''Transformed type '' @ k @ '' not supported'')))"
| "pythonTypes env [] st = Inr ([], st)"
| "pythonTypes env (m # ms) st =
     (case pythonType env m st of
        Inl e \<Rightarrow> Inl e
      | Inr (a, st1) \<Rightarrow>
          (case pythonTypes env ms st1 of
             Inl e \<Rightarrow> Inl e
           | Inr (as, st2) \<Rightarrow> Inr (a # as, st2)))"
  by pat_completeness auto
termination
  by (relation "measure (\<lambda>x. case x of Inl (_, t, _) \<Rightarrow> size t
                                    | Inr (_, ts, _) \<Rightarrow> size_list size ts)")
     (auto simp: sortedMembers_size dest: nullableFromUnion_member member_size)

subsection \<open>JSONPythonRenderer.deserializerFn\<close>

text \<open>\<open>from\<close> records the deserializer function and returns the reference to it.\<close>

definition from_df :: "DeserializerFunction \<Rightarrow> rstate \<Rightarrow> sourcelike \<times> rstate" where
  "from_df df st =
     (Arr [Str ''from_'', Str (dfName df)],
      st\<lparr>deserializerFunctions := setAdd df (deserializerFunctions st)\<rparr>)"

fun
  deserializerFn :: "env \<Rightarrow> ty \<Rightarrow> rstate \<Rightarrow> error + (MultiWord \<times> rstate)" and
  deserializerFns :: "env \<Rightarrow> ty list \<Rightarrow> rstate \<Rightarrow> error + (sourcelike list \<times> rstate)"
where
  "deserializerFn env TAny st =
     Inr (multiWord (Str '' '') [Str ''lambda'', Str ''x:'', Str ''x''], st)"
| "deserializerFn env TNull st =
     (case from_df DF_none st of (f, st1) \<Rightarrow> Inr (singleWord [f], st1))"
| "deserializerFn env TBool st =
     (case from_df DF_bool st of (f, st1) \<Rightarrow> Inr (singleWord [f], st1))"
| "deserializerFn env TInteger st =
     (case from_df DF_int st of (f, st1) \<Rightarrow> Inr (singleWord [f], st1))"
| "deserializerFn env TDouble st =
     (case from_df DF_float st of (f, st1) \<Rightarrow> Inr (singleWord [f], st1))"
| "deserializerFn env TString st =
     (case from_df DF_str st of (f, st1) \<Rightarrow> Inr (singleWord [f], st1))"
| "deserializerFn env (TArray items) st =
     (case from_df DF_list st of (f, st1) \<Rightarrow>
        (case deserializerFn env items st1 of
           Inl e \<Rightarrow> Inl e
         | Inr (d, st2) \<Rightarrow>
             Inr (multiWord (Str '''')
                    [Str ''lambda x: '', f, Str ''('', parenIfNeeded d, Str '', x)''], st2)))"
| "deserializerFn env (TClass c) st =
     Inr (singleWord [Nm (nameForNamedType env (TClass c))], st)"
| "deserializerFn env (TMap vals) st =
     (case from_df DF_dict st of (f, st1) \<Rightarrow>
        (case deserializerFn env vals st1 of
           Inl e \<Rightarrow> Inl e
         | Inr (d, st2) \<Rightarrow>
             Inr (multiWord (Str '''')
                    [Str ''lambda x: '', f, Str ''('', parenIfNeeded d, Str '', x)''], st2)))"
| "deserializerFn env (TEnum c) st =
     Inr (singleWord [Nm (nameForNamedType env (TEnum c))], st)"
| "deserializerFn env (TUnion ms) st =
     (case deserializerFns env ms st of
        Inl e \<Rightarrow> Inl e
      | Inr (deserializers, st1) \<Rightarrow>
          (case from_df DF_union st1 of (f, st2) \<Rightarrow>
             Inr (multiWord (Str '''')
                    [Str ''lambda x: '', f, Str ''(['',
                     Arr (arrayIntercalate (Str '', '') deserializers), Str ''], x)''],
                  st2)))"
| "deserializerFn env (TTransformed k) st =
     (if k = ''date-time''
      then (case from_df DF_date_time st of (f, st1) \<Rightarrow> Inr (singleWord [f], st1))
      else Inl (Panic (''Transformed type '' @ k @ '' not supported'')))"
| "deserializerFns env [] st = Inr ([], st)"
| "deserializerFns env (m # ms) st =
     (case deserializerFn env m st of
        Inl e \<Rightarrow> Inl e
      | Inr (d, st1) \<Rightarrow>
          (case deserializerFns env ms st1 of
             Inl e \<Rightarrow> Inl e
           | Inr (ds, st2) \<Rightarrow> Inr (source d # ds, st2)))"

definition deserializer :: "env \<Rightarrow> sourcelike \<Rightarrow> ty \<Rightarrow> rstate \<Rightarrow> error + (sourcelike \<times> rstate)" where
  "deserializer env v t st =
     (case deserializerFn env t st of
        Inl e \<Rightarrow> Inl e
      | Inr (mw, st1) \<Rightarrow> Inr (Arr [parenIfNeeded mw, Str ''('', v, Str '')''], st1))"

subsection \<open>Emitting lines\<close>

text \<open>
  Modelled from the spec: Renderer.ts and ConvenienceRenderer.ts are not among the
  sources. \<open>emitLine\<close> appends one line at the current indentation,
  \<open>ensureBlankLine\<close> appends a blank line unless the output is empty or ends with
  one, \<open>indent\<close> runs its argument one level deeper, \<open>gatherSource\<close> runs its
  argument on an empty output and hands the lines back, \<open>emitGatheredSource\<close>
  appends such lines, \<open>emitMultiline\<close> emits the lines of a text,
  \<open>emitCommentLines\<close> emits an optional line before, the lines with their line
  start (the first one with its own) and an optional line after, and
  \<open>emitDescription\<close> emits the description block of a description that is there.
  \<open>forEach\<close> is a loop that an exception leaves; \<open>forEachInterposing\<close> keeps a
  blank line between the elements.
\<close>

definition emitLine :: "sourcelike list \<Rightarrow> rstate \<Rightarrow> rstate" where
  "emitLine parts st = st\<lparr>emitted := emitted st @ [Line (indentation st) (Arr parts)]\<rparr>"

definition ensureBlankLine :: "rstate \<Rightarrow> rstate" where
  "ensureBlankLine st =
     (if emitted st = [] \<or> last (emitted st) = Blank then st
      else st\<lparr>emitted := emitted st @ [Blank]\<rparr>)"

definition indent :: "(rstate \<Rightarrow> error + rstate) \<Rightarrow> rstate \<Rightarrow> error + rstate" where
  "indent f st =
     (case f (st\<lparr>indentation := Suc (indentation st)\<rparr>) of
        Inl e \<Rightarrow> Inl e
      | Inr st1 \<Rightarrow> Inr (st1\<lparr>indentation := indentation st\<rparr>))"

definition gatherSource ::
    "(rstate \<Rightarrow> error + rstate) \<Rightarrow> rstate \<Rightarrow> error + (srcline list \<times> rstate)" where
  "gatherSource f st =
     (case f (st\<lparr>emitted := []\<rparr>) of
        Inl e \<Rightarrow> Inl e
      | Inr st1 \<Rightarrow> Inr (emitted st1, st1\<lparr>emitted := emitted st\<rparr>))"

definition emitGatheredSource :: "srcline list \<Rightarrow> rstate \<Rightarrow> rstate" where
  "emitGatheredSource ls st = st\<lparr>emitted := emitted st @ ls\<rparr>"

definition emitMultiline :: "string list \<Rightarrow> rstate \<Rightarrow> rstate" where
  "emitMultiline ls st = fold (\<lambda>l. emitLine [Str l]) ls st"

definition commentLineStart :: string where
  "commentLineStart = ''# ''"

definition emitCommentLines ::
    "string list \<Rightarrow> string option \<Rightarrow> string option \<Rightarrow> string option \<Rightarrow> string option
      \<Rightarrow> rstate \<Rightarrow> rstate" where
  "emitCommentLines ls lineStart beforeLine afterLine firstLineStart st =
     (let start = (case lineStart of None \<Rightarrow> commentLineStart | Some s \<Rightarrow> s);
          firstStart = (case firstLineStart of None \<Rightarrow> start | Some s \<Rightarrow> s);
          st1 = (case beforeLine of None \<Rightarrow> st | Some b \<Rightarrow> emitLine [Str b] st);
          st2 = (case ls of
                   [] \<Rightarrow> st1
                 | l # rest \<Rightarrow>
                     fold (\<lambda>l. emitLine [Str start, Str l]) rest
                       (emitLine [Str firstStart, Str l] st1))
      in (case afterLine of None \<Rightarrow> st2 | Some a \<Rightarrow> emitLine [Str a] st2))"

fun forEach :: "('a \<Rightarrow> rstate \<Rightarrow> error + rstate) \<Rightarrow> 'a list \<Rightarrow> rstate \<Rightarrow> error + rstate" where
  "forEach f [] st = Inr st"
| "forEach f (x # xs) st =
     (case f x st of Inl e \<Rightarrow> Inl e | Inr st1 \<Rightarrow> forEach f xs st1)"

fun forEachInterposing ::
    "('a \<Rightarrow> rstate \<Rightarrow> error + rstate) \<Rightarrow> 'a list \<Rightarrow> rstate \<Rightarrow> error + rstate" where
  "forEachInterposing f [] st = Inr st"
| "forEachInterposing f [x] st = f x st"
| "forEachInterposing f (x # y # ys) st =
     (case f x st of
        Inl e \<Rightarrow> Inl e
      | Inr st1 \<Rightarrow> forEachInterposing f (y # ys) (ensureBlankLine st1))"

subsection \<open>PythonRenderer: declarations\<close>

definition emitDescriptionBlock :: "string list \<Rightarrow> rstate \<Rightarrow> rstate" where
  \<open>emitDescriptionBlock ls st =
     (if length ls = 1 then emitLine [Str ''"""'', Str (ls ! 0), Str ''"""''] st
      else emitCommentLines ls (Some []) None (Some ''"""'') (Some ''"""'') st)\<close>

definition emitDescription :: "string list option \<Rightarrow> rstate \<Rightarrow> rstate" where
  "emitDescription description st =
     (case description of None \<Rightarrow> st | Some ls \<Rightarrow> emitDescriptionBlock ls st)"

definition emitBlock ::
    "sourcelike \<Rightarrow> (rstate \<Rightarrow> error + rstate) \<Rightarrow> rstate \<Rightarrow> error + rstate" where
  "emitBlock line f st = indent f (emitLine [line] st)"

definition declarationLine :: "env \<Rightarrow> ty \<Rightarrow> rstate \<Rightarrow> error + (sourcelike \<times> rstate)" where
  "declarationLine env t st =
     (case t of
        TClass c \<Rightarrow> Inr (Arr [Str ''class '', Nm (nameForNamedType env t), Str '':''], st)
      | TEnum c \<Rightarrow>
          (case withImport ''enum'' ''Enum'' st of (en, st1) \<Rightarrow>
             Inr (Arr [Str ''class '', Nm (nameForNamedType env t), Str ''('', en,
                       Str ''):''], st1))
      | _ \<Rightarrow> Inl (Panic (''Can't declare type '' @ kind t)))"

definition declareType ::
    "env \<Rightarrow> ty \<Rightarrow> (rstate \<Rightarrow> error + rstate) \<Rightarrow> rstate \<Rightarrow> error + rstate" where
  "declareType env t emitter st =
     (let st1 = emitDescription (descriptionForType env t) st in
      case declarationLine env t st1 of
        Inl e \<Rightarrow> Inl e
      | Inr (line, st2) \<Rightarrow>
          (case emitBlock line emitter st2 of
             Inl e \<Rightarrow> Inl e
           | Inr st3 \<Rightarrow> Inr (st3\<lparr>declaredTypes := insert t (declaredTypes st3)\<rparr>)))"

text \<open>
  \<open>emitClassMembers\<close> is the one of JSONPythonRenderer, the renderer that
  \<open>makeRenderer\<close> creates: the constructor that deserializes every property.
  The functions that the source passes to \<open>forEachClassProperty\<close> and
  \<open>forEachEnumCase\<close> have names here: \<open>emitPropertyDeserializer\<close>,
  \<open>emitClassProperty\<close> and \<open>emitEnumCase\<close>.
\<close>

fun emitPropertyDeserializer :: "env \<Rightarrow> string \<times> string \<times> ty \<Rightarrow> rstate \<Rightarrow> error + rstate" where
  \<open>emitPropertyDeserializer env (name, jsonName, t) st =
     (let property = Arr [Str ''obj["'', Str (stringEscape env jsonName), Str ''"]'']
      in case deserializer env property t st of
           Inl e \<Rightarrow> Inl e
         | Inr (d, st1) \<Rightarrow> Inr (emitLine [Str ''self.'', Nm name, Str '' = '', d] st1))\<close>

definition emitClassMembers :: "env \<Rightarrow> nat \<Rightarrow> rstate \<Rightarrow> error + rstate" where
  "emitClassMembers env c st =
     emitBlock (Str ''def __init__(self, obj):'')
       (\<lambda>st. forEach (emitPropertyDeserializer env) (classProperties env c)
          (emitLine [Str ''assert isinstance(obj, dict)''] st))
       st"

fun emitClassProperty ::
    "env \<Rightarrow> nat \<Rightarrow> string \<times> string \<times> ty \<Rightarrow> rstate \<Rightarrow> error + rstate" where
  "emitClassProperty env c (name, jsonName, t) st =
     (let st1 = emitDescription (descriptionForClassProperty env c jsonName) st
      in case pythonType env t st1 of
           Inl e \<Rightarrow> Inl e
         | Inr (a, st2) \<Rightarrow> Inr (emitLine [Nm name, Str '': '', a] st2))"

definition emitClass :: "env \<Rightarrow> nat \<Rightarrow> rstate \<Rightarrow> error + rstate" where
  "emitClass env c st =
     declareType env (TClass c)
       (\<lambda>st. if classProperties env c = [] then Inr (emitLine [Str ''pass''] st)
          else (case forEach (emitClassProperty env c) (classProperties env c) st of
                  Inl e \<Rightarrow> Inl e
                | Inr st1 \<Rightarrow> emitClassMembers env c (ensureBlankLine st1)))
       st"

fun emitEnumCase :: "env \<Rightarrow> string \<times> string \<Rightarrow> rstate \<Rightarrow> error + rstate" where
  \<open>emitEnumCase env (name, jsonName) st =
     Inr (emitLine [Arr [Nm name, Str '' = "'', Str (stringEscape env jsonName), Str ''"'']] st)\<close>

definition emitEnum :: "env \<Rightarrow> nat \<Rightarrow> rstate \<Rightarrow> error + rstate" where
  "emitEnum env c st =
     declareType env (TEnum c) (\<lambda>st. forEach (emitEnumCase env) (enumCases env c) st) st"

definition emitDeclaration :: "env \<Rightarrow> Declaration \<Rightarrow> rstate \<Rightarrow> error + rstate" where
  "emitDeclaration env decl st =
     (case decl of
        Forward _ \<Rightarrow> Inr st
      | Define t \<Rightarrow>
          (case t of
             TClass c \<Rightarrow> emitClass env c st
           | TEnum c \<Rightarrow> emitEnum env c st
           | TUnion _ \<Rightarrow> Inr st
           | _ \<Rightarrow> Inl (Panic (''Cannot declare type '' @ kind t))))"

definition emitImports :: "rstate \<Rightarrow> rstate" where
  "emitImports st =
     fold (\<lambda>(m, names).
             emitLine [Str ''from '', Str m, Str '' import '',
                       Str (concat (arrayIntercalate '', '' names))])
       (importMap st) st"

definition emitDefaultLeadingComments :: "rstate \<Rightarrow> rstate" where
  "emitDefaultLeadingComments st =
     emitCommentLines
       [''Only Python >=3.6 right now, and no (de)serializers yet.'',
        ''More features coming soon!''] None None None None st"

subsection \<open>JSONPythonRenderer: support code\<close>

text \<open>
  The Python text of every deserializer function, as the lines that
  \<open>emitMultiline\<close> emits.
\<close>

fun deserializerFunctionCodes :: "DeserializerFunction \<Rightarrow> string list" where
  "deserializerFunctionCodes DF_none =
     [''def from_none(x):'',
      ''    assert x is None'',
      ''    return x'']"
| "deserializerFunctionCodes DF_bool =
     [''def from_bool(x):'',
      ''    assert isinstance(x, bool)'',
      ''    return x'']"
| "deserializerFunctionCodes DF_int =
     [''def from_int(x):'',
      ''    assert isinstance(x, int)'',
      ''    return x'']"
| "deserializerFunctionCodes DF_float =
     [''def from_float(x):'',
      ''    assert isinstance(x, (float, int))'',
      ''    return float(x)'']"
| "deserializerFunctionCodes DF_str =
     [''def from_str(x):'',
      ''    assert isinstance(x, str)'',
      ''    return x'']"
| "deserializerFunctionCodes DF_list =
     [''def from_list(f, x):'',
      ''    assert isinstance(x, list)'',
      ''    return [f(y) for y in x]'']"
| "deserializerFunctionCodes DF_dict =
     [''def from_dict(f, x):'',
      ''    assert isinstance(x, dict)'',
      ''    return { k: f(v) for (k, v) in x.items() }'']"
| "deserializerFunctionCodes DF_union =
     [''def from_union(fs, x):'',
      ''    for f in fs:'',
      ''        try:'',
      ''            return f(x)'',
      ''        except AssertionError:'',
      ''            pass'',
      ''    assert False'']"
| \<open>deserializerFunctionCodes DF_date_time =
     [''def from_datetime(x):'',
      ''    # This is not correct.  Python <3.7 doesn't support ISO date-time'',
      ''    # parsing in the standard library.  This is a kludge until we have'',
      ''    # that.'',
      ''    return datetime.strptime(x, "%Y-%m-%dT%H:%M:%S.%fZ")'']\<close>

definition emitSupportCode :: "rstate \<Rightarrow> rstate" where
  "emitSupportCode st =
     fold (\<lambda>df st. ensureBlankLine (emitMultiline (deserializerFunctionCodes df) st))
       (deserializerFunctions st) st"

definition emitSourceStructure :: "env \<Rightarrow> rstate \<Rightarrow> error + rstate" where
  "emitSourceStructure env st =
     (case gatherSource (forEachInterposing (emitDeclaration env) (declarations env)) st of
        Inl e \<Rightarrow> Inl e
      | Inr (declarationLines, st1) \<Rightarrow>
          (case gatherSource (\<lambda>s. Inr (emitSupportCode s)) st1 of
             Inl e \<Rightarrow> Inl e
           | Inr (supportLines, st2) \<Rightarrow>
               (let st3 = (case leadingComments env of
                             Some ls \<Rightarrow> emitCommentLines ls None None None None st2
                           | None \<Rightarrow> emitDefaultLeadingComments st2);
                    st4 = ensureBlankLine st3;
                    st5 = emitImports st4;
                    st6 = ensureBlankLine st5;
                    st7 = emitGatheredSource supportLines st6;
                    st8 = ensureBlankLine st7
                in Inr (emitGatheredSource declarationLines st8))))"

text \<open>The renderer before it has rendered anything.\<close>

definition initialState :: rstate where
  "initialState =
     \<lparr>importMap = [], declaredTypes = {}, deserializerFunctions = [], emitted = [],
      indentation = 0\<rparr>"

subsection \<open>PythonTargetLanguage.stringTypeMapping\<close>

definition stringTypeMapping :: "(string \<times> string) list" where
  "stringTypeMapping =
     (let dateTimeType = ''string'' in
      [(''date'', dateTimeType), (''time'', dateTimeType), (''date-time'', dateTimeType),
       (''integer-string'', ''integer-string'')])"

text \<open>
  Modelled from the spec: TypeBuilder.ts, which applies the mapping of the target
  language when the graph is built, is not among the sources. A transformed string type
  whose kind the mapping sends to \<open>string\<close> is presented as the plain string type,
  one whose kind is kept stays as it is.
\<close>

fun applyStringTypeMapping :: "(string \<times> string) list \<Rightarrow> ty \<Rightarrow> ty" where
  "applyStringTypeMapping m (TArray items) = TArray (applyStringTypeMapping m items)"
| "applyStringTypeMapping m (TMap vals) = TMap (applyStringTypeMapping m vals)"
| "applyStringTypeMapping m (TUnion ms) = TUnion (map (applyStringTypeMapping m) ms)"
| "applyStringTypeMapping m (TTransformed k) =
     (case map_of m k of
        None \<Rightarrow> TTransformed k
      | Some k' \<Rightarrow> if k' = ''string'' then TString else TTransformed k')"
| "applyStringTypeMapping m t = t"

subsection \<open>Identifier characters\<close>

text \<open>
  The two functions of the Unicode library are parameters: \<open>cat\<close> is
  \<open>unicode.getCategory\<close> and \<open>nfkc\<close> gives the UTF-16 units of
  \<open>String.fromCharCode(u).normalize("NFKC")\<close>. \<open>isNormalizedPartCharacter\<close>
  calls \<open>isStartCharacter\<close>, which normalizes again and calls it back: the recursion
  ends when the units of a normalized text normalize to themselves, which the functions
  cannot know, so they count their calls down and answer \<open>None\<close> when the count is
  used up.
\<close>

definition isNormalizedStartCharacter :: "(nat \<Rightarrow> string) \<Rightarrow> nat \<Rightarrow> bool" where
  "isNormalizedStartCharacter cat utf16Unit =
     (if utf16Unit = 0x5f then True
      else cat utf16Unit \<in> set [''Lu'', ''Ll'', ''Lt'', ''Lm'', ''Lo'', ''Nl''])"

text \<open>The loops over the units: the first unit that fails ends them.\<close>

fun allUnits :: "(nat \<Rightarrow> bool option) \<Rightarrow> nat list \<Rightarrow> bool option" where
  "allUnits p [] = Some True"
| "allUnits p (c # cs) =
     (case p c of
        None \<Rightarrow> None
      | Some False \<Rightarrow> Some False
      | Some True \<Rightarrow> allUnits p cs)"

fun
  isStartCharacter :: "(nat \<Rightarrow> string) \<Rightarrow> (nat \<Rightarrow> nat list) \<Rightarrow> nat \<Rightarrow> nat \<Rightarrow> bool option" and
  isNormalizedPartCharacter ::
    "(nat \<Rightarrow> string) \<Rightarrow> (nat \<Rightarrow> nat list) \<Rightarrow> nat \<Rightarrow> nat \<Rightarrow> bool option"
where
  "isStartCharacter cat nfkc 0 utf16Unit = None"
| "isStartCharacter cat nfkc (Suc fuel) utf16Unit =
     (case nfkc utf16Unit of
        [] \<Rightarrow> Some False
      | c # cs \<Rightarrow>
          if \<not> isNormalizedStartCharacter cat c then Some False
          else allUnits (\<lambda>d. isNormalizedPartCharacter cat nfkc fuel d) cs)"
| "isNormalizedPartCharacter cat nfkc fuel utf16Unit =
     (case isStartCharacter cat nfkc fuel utf16Unit of
        None \<Rightarrow> None
      | Some True \<Rightarrow> Some True
      | Some False \<Rightarrow> Some (cat utf16Unit \<in> set [''Mn'', ''Mc'', ''Nd'', ''Pc'']))"

definition isPartCharacter ::
    "(nat \<Rightarrow> string) \<Rightarrow> (nat \<Rightarrow> nat list) \<Rightarrow> nat \<Rightarrow> nat \<Rightarrow> bool option" where
  "isPartCharacter cat nfkc fuel utf16Unit =
     allUnits (\<lambda>d. isNormalizedPartCharacter cat nfkc fuel d) (nfkc utf16Unit)"

subsection \<open>Reading results, and an example graph\<close>

text \<open>The text of a rendered annotation, or the error.\<close>

definition rendered :: "error + (sourcelike \<times> rstate) \<Rightarrow> error + string" where
  "rendered r = map_sum id (\<lambda>(a, st). serialize a) r"

text \<open>
  An example graph: the class \<open>Person\<close> with a name and an age that may be null,
  the class \<open>Node\<close> with a property of its own type, and the enum \<open>Color\<close>.
\<close>

definition exampleEnv :: env where
  "exampleEnv =
     \<lparr>nameForNamedType = (\<lambda>t. case t of TClass c \<Rightarrow> (if c = 0 then ''Person'' else ''Node'')
                                  | TEnum c \<Rightarrow> ''Color'' | _ \<Rightarrow> []),
      classProperties = (\<lambda>c. if c = 0 then [(''name'', ''name'', TString),
                                            (''age'', ''age'', TUnion [TInteger, TNull])]
                             else [(''next'', ''next'', TClass 1)]),
      enumCases = (\<lambda>c. [(''RED'', ''red'')]),
      descriptionForType = (\<lambda>t. None),
      descriptionForClassProperty = (\<lambda>c j. None),
      stringEscape = (\<lambda>s. s),
      declarations = [Define (TClass 0), Define (TClass 1), Define (TEnum 0)],
      leadingComments = None\<rparr>"

subsection \<open>Reading the text of the support code\<close>




subsection \<open>Transformed string types inside a type\<close>

text \<open>A type that holds, in its arrays, maps and unions, a transformed string type of kind \<open>k\<close>.\<close>

fun hasTransformed :: "string \<Rightarrow> ty \<Rightarrow> bool" where
  "hasTransformed k (TArray items) = hasTransformed k items"
| "hasTransformed k (TMap vals) = hasTransformed k vals"
| "hasTransformed k (TUnion ms) = (\<exists>m \<in> set ms. hasTransformed k m)"
| "hasTransformed k (TTransformed k') = (k' = k)"
| "hasTransformed k t = False"

subsection \<open>An excerpt of the Unicode tables\<close>

text \<open>
  The categories and the NFKC normalizations of the lower-case letters and digits of
  ASCII, of the ligature U+FB01 (which normalizes to the letters f and i), of the
  superscript two U+00B2 (which normalizes to the digit 2) and of the fullwidth low line
  U+FF3F (which normalizes to the underscore); every other unit stands for a space.
\<close>

definition exampleCategory :: "nat \<Rightarrow> string" where
  "exampleCategory u =
     (if 0x61 \<le> u \<and> u \<le> 0x7a then ''Ll''
      else if 0x30 \<le> u \<and> u \<le> 0x39 then ''Nd''
      else if u = 0xFB01 then ''Ll''
      else if u = 0xB2 then ''No''
      else if u = 0x5f \<or> u = 0xFF3F then ''Pc''
      else ''Zs'')"

definition exampleNFKC :: "nat \<Rightarrow> nat list" where
  "exampleNFKC u =
     (if u = 0xFB01 then [0x66, 0x69]
      else if u = 0xB2 then [0x32]
      else if u = 0xFF3F then [0x5f]
      else [u])"

text \<open>The text of a synthesized deserializer, or the error.\<close>

definition synthesized :: "error + (MultiWord \<times> rstate) \<Rightarrow> error + string" where
  "synthesized r = map_sum id (\<lambda>(mw, st). serialize (source mw)) r"

subsection \<open>References to deserializer functions in the emitted source\<close>

text \<open>
  The references that \<open>from\<close> returns are the arrays \<open>["from_", df]\<close>.
  \<open>fromRefs\<close> collects the deserializer functions that a source refers to,
  \<open>lineRefs\<close> and \<open>linesRefs\<close> those of emitted lines.
\<close>

definition allDeserializerFunctions :: "DeserializerFunction list" where
  "allDeserializerFunctions =
     [DF_none, DF_bool, DF_int, DF_float, DF_str, DF_list, DF_dict, DF_union, DF_date_time]"

definition refOf :: "sourcelike list \<Rightarrow> DeserializerFunction option" where
  "refOf xs =
     (case xs of
        [Str a, Str n] \<Rightarrow>
          if a = ''from_'' then List.find (\<lambda>df. dfName df = n) allDeserializerFunctions
          else None
      | _ \<Rightarrow> None)"

fun fromRefs :: "sourcelike \<Rightarrow> DeserializerFunction set" where
  "fromRefs (Str s) = {}"
| "fromRefs (Nm n) = {}"
| "fromRefs (Arr xs) =
     (case refOf xs of Some df \<Rightarrow> {df} | None \<Rightarrow> (\<Union>x \<in> set xs. fromRefs x))"

fun lineRefs :: "srcline \<Rightarrow> DeserializerFunction set" where
  "lineRefs (Line n s) = fromRefs s"
| "lineRefs Blank = {}"

definition linesRefs :: "srcline list \<Rightarrow> DeserializerFunction set" where
  "linesRefs ls = (\<Union>l \<in> set ls. lineRefs l)"

subsection \<open>The lines of the support code\<close>

text \<open>
  The lines that \<open>emitSupportCode\<close> emits for one deserializer function: the
  lines of its text, and the blank line after them.
\<close>

definition supportBlock :: "nat \<Rightarrow> DeserializerFunction \<Rightarrow> srcline list" where
  "supportBlock i df = map (\<lambda>l. Line i (Arr [Str l])) (deserializerFunctionCodes df) @ [Blank]"



text \<open>The text of the lines of an artifact; no lines when the run has failed.\<close>

fun lineText :: "srcline \<Rightarrow> string" where
  "lineText Blank = []"
| "lineText (Line n s) = replicate (4 * n) (CHR '' '') @ serialize s"

definition artifactLines :: "error + rstate \<Rightarrow> string list" where
  "artifactLines r = (case r of Inl e \<Rightarrow> [] | Inr st \<Rightarrow> map lineText (emitted st))"

subsection \<open>Types that need no deserializer function\<close>

text \<open>
  The type \<open>any\<close> and the references to classes and enums: \<open>deserializerFn\<close>
  calls \<open>from\<close> for every other type. \<open>anyEnv\<close> is a graph of one class whose
  properties are of this kind.
\<close>

fun needsNoFunction :: "ty \<Rightarrow> bool" where
  "needsNoFunction TAny = True"
| "needsNoFunction (TClass c) = True"
| "needsNoFunction (TEnum c) = True"
| "needsNoFunction t = False"

definition anyEnv :: env where
  "anyEnv =
     exampleEnv\<lparr>classProperties := (\<lambda>c. [(''x'', ''x'', TAny), (''y'', ''y'', TAny)]),
                declarations := [Define (TClass 0)]\<rparr>"

subsection \<open>Unsupported kinds inside a type\<close>





subsection \<open>The deserializer functions of a type\<close>

text \<open>
  \<open>usedFunctions t\<close>: the deserializer functions that \<open>deserializerFn\<close> calls
  \<open>from\<close> for on the type \<open>t\<close>. \<open>onlyAny t\<close>: the only primitive type
  that \<open>t\<close> holds is \<open>any\<close>. \<open>declaredPropertyTypes env\<close>: the types of the
  properties of the classes that the declarations define. \<open>arrayAnyEnv\<close> is a graph
  of one class with one property, an array of \<open>any\<close>.
\<close>

fun usedFunctions :: "ty \<Rightarrow> DeserializerFunction set" where
  "usedFunctions TAny = {}"
| "usedFunctions TNull = {DF_none}"
| "usedFunctions TBool = {DF_bool}"
| "usedFunctions TInteger = {DF_int}"
| "usedFunctions TDouble = {DF_float}"
| "usedFunctions TString = {DF_str}"
| "usedFunctions (TArray items) = insert DF_list (usedFunctions items)"
| "usedFunctions (TClass c) = {}"
| "usedFunctions (TMap vals) = insert DF_dict (usedFunctions vals)"
| "usedFunctions (TEnum c) = {}"
| "usedFunctions (TUnion ms) = insert DF_union (\<Union>m \<in> set ms. usedFunctions m)"
| "usedFunctions (TTransformed k) = {DF_date_time}"

fun onlyAny :: "ty \<Rightarrow> bool" where
  "onlyAny TAny = True"
| "onlyAny (TArray items) = onlyAny items"
| "onlyAny (TClass c) = True"
| "onlyAny (TMap vals) = onlyAny vals"
| "onlyAny (TEnum c) = True"
| "onlyAny (TUnion ms) = (\<forall>m \<in> set ms. onlyAny m)"
| "onlyAny t = False"

fun propertyTypes :: "env \<Rightarrow> Declaration \<Rightarrow> ty list" where
  "propertyTypes env (Define (TClass c)) = map (\<lambda>x. snd (snd x)) (classProperties env c)"
| "propertyTypes env d = []"

definition declaredPropertyTypes :: "env \<Rightarrow> ty list" where
  "declaredPropertyTypes env = concat (map (propertyTypes env) (declarations env))"

definition arrayAnyEnv :: env where
  "arrayAnyEnv =
     exampleEnv\<lparr>classProperties := (\<lambda>c. [(''xs'', ''xs'', TArray TAny)]),
                declarations := [Define (TClass 0)]\<rparr>"

subsection \<open>Two classes that refer to each other\<close>

text \<open>
  Two classes that refer to each other: \<open>A\<close> has a property of the type \<open>B\<close>,
  \<open>B\<close> one of the type \<open>A\<close>, and \<open>A\<close> is declared first.
\<close>

definition mutualEnv :: env where
  "mutualEnv =
     exampleEnv\<lparr>nameForNamedType := (\<lambda>t. case t of TClass c \<Rightarrow> (if c = 0 then ''A'' else ''B'')
                                             | _ \<Rightarrow> []),
                classProperties := (\<lambda>c. if c = 0 then [(''other'', ''other'', TClass 1)]
                                        else [(''other'', ''other'', TClass 0)]),
                declarations := [Define (TClass 0), Define (TClass 1)]\<rparr>"

subsection \<open>Relations between the state before and the state after\<close>

text \<open>
  \<open>hasImport m n st\<close>: the name \<open>n\<close> is imported from the module \<open>m\<close>.
  \<open>importsOnly st st'\<close>: from \<open>st\<close> to \<open>st'\<close> imports have been added and
  nothing else has changed. \<open>usesOnly st refs st'\<close>: the deserializer functions
  \<open>refs\<close> have been added to the set, which keeps its elements apart, and nothing
  else has changed.
\<close>

definition hasImport :: "string \<Rightarrow> string \<Rightarrow> rstate \<Rightarrow> bool" where
  "hasImport m n st =
     (case map_of (importMap st) m of None \<Rightarrow> False | Some ns \<Rightarrow> n \<in> set ns)"

definition importsOnly :: "rstate \<Rightarrow> rstate \<Rightarrow> bool" where
  "importsOnly st st' \<longleftrightarrow>
     declaredTypes st' = declaredTypes st \<and>
     deserializerFunctions st' = deserializerFunctions st \<and>
     emitted st' = emitted st \<and> indentation st' = indentation st \<and>
     (\<forall>m n. hasImport m n st \<longrightarrow> hasImport m n st')"

definition usesOnly :: "rstate \<Rightarrow> DeserializerFunction set \<Rightarrow> rstate \<Rightarrow> bool" where
  "usesOnly st refs st' \<longleftrightarrow>
     importMap st' = importMap st \<and> declaredTypes st' = declaredTypes st \<and>
     emitted st' = emitted st \<and> indentation st' = indentation st \<and>
     set (deserializerFunctions st') = set (deserializerFunctions st) \<union> refs \<and>
     (distinct (deserializerFunctions st) \<longrightarrow> distinct (deserializerFunctions st'))"

text \<open>
  A relation that the steps of the emission of a declaration keep: it is reflexive and
  transitive, and it holds when the imports alone change, when a line without references
  is emitted, when a blank line is ensured and when the indentation changes.
  \<open>deserializerLines R env c\<close>: it holds for the line that deserializes a property
  of the class \<open>c\<close>.
\<close>

definition stepRelation :: "(rstate \<Rightarrow> rstate \<Rightarrow> bool) \<Rightarrow> bool" where
  "stepRelation R \<longleftrightarrow>
     (\<forall>s. R s s) \<and>
     (\<forall>a b c. R a b \<longrightarrow> R b c \<longrightarrow> R a c) \<and>
     (\<forall>s s'. importsOnly s s' \<longrightarrow> R s s') \<and>
     (\<forall>s parts. fromRefs (Arr parts) = {} \<longrightarrow> R s (emitLine parts s)) \<and>
     (\<forall>s. R s (ensureBlankLine s)) \<and>
     (\<forall>s n. R s (s\<lparr>indentation := n\<rparr>))"

definition deserializerLines :: "(rstate \<Rightarrow> rstate \<Rightarrow> bool) \<Rightarrow> env \<Rightarrow> nat \<Rightarrow> bool" where
  "deserializerLines R env c \<longleftrightarrow>
     (\<forall>x s s'. x \<in> set (classProperties env c) \<longrightarrow>
        emitPropertyDeserializer env x s = Inr s' \<longrightarrow> R s s')"



definition sameUsed :: "rstate \<Rightarrow> rstate \<Rightarrow> bool" where
  "sameUsed st st' \<longleftrightarrow> deserializerFunctions st' = deserializerFunctions st"

definition bodyStep :: "rstate \<Rightarrow> rstate \<Rightarrow> bool" where
  "bodyStep st st' \<longleftrightarrow>
     declaredTypes st' = declaredTypes st \<and> (\<exists>ls. emitted st' = emitted st @ ls)"

definition declaredGrow :: "rstate \<Rightarrow> rstate \<Rightarrow> bool" where
  "declaredGrow st st' \<longleftrightarrow> declaredTypes st \<subseteq> declaredTypes st'"

section \<open>Properties of the annotation renderer\<close>

subsection \<open>What \<open>pythonType\<close> changes and what it reads\<close>

lemma set_setAdd [simp]: "set (setAdd x xs) = insert x (set xs)"
  by (auto simp: setAdd_def)

lemma map_of_mapUpdateInto:
  "map_of (mapUpdateInto l m n) m' =
     (if m' = m then Some (setAdd n (case map_of l m of None \<Rightarrow> [] | Some ns \<Rightarrow> ns))
      else map_of l m')"
  by (induction l m n rule: mapUpdateInto.induct) (auto simp: setAdd_def)

lemma hasImport_withImport: "withImport m n st = (x, st') \<Longrightarrow> hasImport m n st'"
  by (auto simp: hasImport_def withImport_def map_of_mapUpdateInto)

lemma hasImport_withImport_mono:
  "hasImport m n st \<Longrightarrow> withImport m' n' st = (x, st') \<Longrightarrow> hasImport m n st'"
  by (auto simp: hasImport_def withImport_def map_of_mapUpdateInto
      split: option.splits if_splits)

lemma hasImport_withTyping: "withTyping n st = (x, st') \<Longrightarrow> hasImport ''typing'' n st'"
  unfolding withTyping_def by (rule hasImport_withImport)

lemma importsOnly_refl [simp]: "importsOnly st st"
  by (simp add: importsOnly_def)

lemma importsOnly_trans: "importsOnly a b \<Longrightarrow> importsOnly b c \<Longrightarrow> importsOnly a c"
  by (simp add: importsOnly_def)

lemma importsOnly_hasImport: "importsOnly st st' \<Longrightarrow> hasImport m n st \<Longrightarrow> hasImport m n st'"
  by (simp add: importsOnly_def)

lemma withImport_importsOnly: "withImport m n st = (x, st') \<Longrightarrow> importsOnly st st'"
proof -
  assume w: "withImport m n st = (x, st')"
  then have "st' = st\<lparr>importMap := mapUpdateInto (importMap st) m n\<rparr>"
    by (auto simp: withImport_def)
  then have "declaredTypes st' = declaredTypes st"
    "deserializerFunctions st' = deserializerFunctions st"
    "emitted st' = emitted st" "indentation st' = indentation st"
    by simp_all
  moreover have "\<forall>m' n'. hasImport m' n' st \<longrightarrow> hasImport m' n' st'"
    using w by (blast intro: hasImport_withImport_mono)
  ultimately show ?thesis
    unfolding importsOnly_def by blast
qed

lemma withTyping_importsOnly: "withTyping n st = (x, st') \<Longrightarrow> importsOnly st st'"
  unfolding withTyping_def by (rule withImport_importsOnly)

lemma pythonType_importsOnly_aux:
  "(\<forall>a st'. pythonType env t st = Inr (a, st') \<longrightarrow> importsOnly st st')"
  "(\<forall>as st'. pythonTypes env ts st = Inr (as, st') \<longrightarrow> importsOnly st st')"
proof (induction env t st and env ts st rule: pythonType_pythonTypes.induct)
  case (1 env st)
  show ?case by (auto dest: withTyping_importsOnly)
next
  case (7 env items st)
  obtain l st1 where w: "withTyping ''List'' st = (l, st1)" by fastforce
  from w have "importsOnly st st1" by (rule withTyping_importsOnly)
  with 7[OF w[symmetric]] w show ?case
    by (auto split: sum.splits intro: importsOnly_trans)
next
  case (9 env vals st)
  obtain l st1 where w: "withTyping ''Dict'' st = (l, st1)" by fastforce
  from w have "importsOnly st st1" by (rule withTyping_importsOnly)
  with 9[OF w[symmetric]] w show ?case
    by (auto split: sum.splits intro: importsOnly_trans)
next
  case (11 env ms st)
  show ?case
  proof (cases "nullableFromUnion ms")
    case None
    with 11 show ?thesis
      by (auto split: sum.splits prod.splits
          dest!: withTyping_importsOnly intro: importsOnly_trans)
  next
    case (Some t)
    obtain l st1 where w: "withTyping ''Optional'' st = (l, st1)" by fastforce
    from w have "importsOnly st st1" by (rule withTyping_importsOnly)
    from 11 Some w have "\<forall>a st'. pythonType env t st1 = Inr (a, st') \<longrightarrow> importsOnly st1 st'"
      by metis
    with \<open>importsOnly st st1\<close> w Some show ?thesis
      by (auto split: sum.splits intro: importsOnly_trans)
  qed
next
  case (12 env k st)
  then show ?case
    by (auto split: if_splits dest: withImport_importsOnly)
next
  case (14 env m ms st)
  then show ?case
    by (auto split: sum.splits prod.splits intro: importsOnly_trans)
qed auto

lemma pythonType_importsOnly: "pythonType env t st = Inr (a, st') \<Longrightarrow> importsOnly st st'"
  using pythonType_importsOnly_aux(1) by blast

lemma pythonTypes_importsOnly: "pythonTypes env ts st = Inr (as, st') \<Longrightarrow> importsOnly st st'"
  using pythonType_importsOnly_aux(2) by blast

lemma importsOnly_declared: "importsOnly st st' \<Longrightarrow> declaredTypes st' = declaredTypes st"
  by (simp add: importsOnly_def)

lemma withTyping_declared: "withTyping n st = (l, st1) \<Longrightarrow> declaredTypes st1 = declaredTypes st"
  by (auto simp: withTyping_def withImport_def)

lemma withTyping_fst: "withTyping n st = (l, st1) \<Longrightarrow> l = Str n"
  by (auto simp: withTyping_def withImport_def)

lemma output_wrap:
  assumes "map_sum id fst r2 = map_sum id fst r"
  shows "map_sum id fst (case r2 of Inl e \<Rightarrow> Inl e | Inr (i, s) \<Rightarrow> Inr (f i, s))
       = map_sum id fst (case r of Inl e \<Rightarrow> Inl e | Inr (i, s) \<Rightarrow> Inr (f i, s))"
  using assms by (cases r; cases r2) auto

lemma pythonType_output_aux:
  "(\<forall>st2::rstate. declaredTypes st2 = declaredTypes st \<longrightarrow>
      map_sum id fst (pythonType env t st2) = map_sum id fst (pythonType env t st))"
  "(\<forall>st2::rstate. declaredTypes st2 = declaredTypes st \<longrightarrow>
      map_sum id fst (pythonTypes env ts st2) = map_sum id fst (pythonTypes env ts st))"
proof (induction env t st and env ts st rule: pythonType_pythonTypes.induct)
  case (7 env items st)
  show ?case
  proof (intro allI impI)
    fix st2 :: rstate assume d: "declaredTypes st2 = declaredTypes st"
    obtain l st1 where w1: "withTyping ''List'' st = (l, st1)" by fastforce
    obtain l2 st1' where w2: "withTyping ''List'' st2 = (l2, st1')" by fastforce
    have l: "l2 = l" by (simp only: withTyping_fst[OF w1] withTyping_fst[OF w2])
    have "declaredTypes st1' = declaredTypes st1"
      by (simp only: withTyping_declared[OF w1] withTyping_declared[OF w2] d)
    with 7[OF w1[symmetric]]
    have "map_sum id fst (pythonType env items st1') = map_sum id fst (pythonType env items st1)"
      by blast
    then show "map_sum id fst (pythonType env (TArray items) st2) =
               map_sum id fst (pythonType env (TArray items) st)"
      unfolding pythonType.simps w1 w2 l prod.case by (rule output_wrap)
  qed
next
  case (9 env vals st)
  show ?case
  proof (intro allI impI)
    fix st2 :: rstate assume d: "declaredTypes st2 = declaredTypes st"
    obtain l st1 where w1: "withTyping ''Dict'' st = (l, st1)" by fastforce
    obtain l2 st1' where w2: "withTyping ''Dict'' st2 = (l2, st1')" by fastforce
    have l: "l2 = l" by (simp only: withTyping_fst[OF w1] withTyping_fst[OF w2])
    have "declaredTypes st1' = declaredTypes st1"
      by (simp only: withTyping_declared[OF w1] withTyping_declared[OF w2] d)
    with 9[OF w1[symmetric]]
    have "map_sum id fst (pythonType env vals st1') = map_sum id fst (pythonType env vals st1)"
      by blast
    then show "map_sum id fst (pythonType env (TMap vals) st2) =
               map_sum id fst (pythonType env (TMap vals) st)"
      unfolding pythonType.simps w1 w2 l prod.case by (rule output_wrap)
  qed
next
  case (11 env ms st)
  show ?case
  proof (intro allI impI)
    fix st2 :: rstate assume d: "declaredTypes st2 = declaredTypes st"
    show "map_sum id fst (pythonType env (TUnion ms) st2) =
          map_sum id fst (pythonType env (TUnion ms) st)"
    proof (cases "nullableFromUnion ms")
      case None
      with 11 d have eq: "map_sum id fst (pythonTypes env (sortedMembers env ms) st2) =
          map_sum id fst (pythonTypes env (sortedMembers env ms) st)"
        by blast
      show ?thesis
      proof (cases "pythonTypes env (sortedMembers env ms) st")
        case (Inl e)
        with eq have "pythonTypes env (sortedMembers env ms) st2 = Inl e"
          by (cases "pythonTypes env (sortedMembers env ms) st2") auto
        with Inl None show ?thesis by simp
      next
        case (Inr r)
        obtain as st1 where r: "r = (as, st1)" by (cases r)
        with Inr eq obtain st1' where "pythonTypes env (sortedMembers env ms) st2 = Inr (as, st1')"
          by (cases "pythonTypes env (sortedMembers env ms) st2") auto
        with Inr r None show ?thesis
          by (auto split: prod.splits dest: withTyping_fst)
      qed
    next
      case (Some t)
      obtain l st1 where w1: "withTyping ''Optional'' st = (l, st1)" by fastforce
      obtain l2 st1' where w2: "withTyping ''Optional'' st2 = (l2, st1')" by fastforce
      have l: "l2 = l" by (simp only: withTyping_fst[OF w1] withTyping_fst[OF w2])
      have dd: "declaredTypes st1' = declaredTypes st1"
        by (simp only: withTyping_declared[OF w1] withTyping_declared[OF w2] d)
      from 11 Some w1 have "\<forall>st2::rstate. declaredTypes st2 = declaredTypes st1 \<longrightarrow>
          map_sum id fst (pythonType env t st2) = map_sum id fst (pythonType env t st1)"
        by metis
      with dd have "map_sum id fst (pythonType env t st1') = map_sum id fst (pythonType env t st1)"
        by blast
      then show ?thesis
        unfolding pythonType.simps Some option.case w1 w2 l prod.case by (rule output_wrap)
    qed
  qed
next
  case (14 env m ms st)
  show ?case
  proof (intro allI impI)
    fix st2 :: rstate assume d: "declaredTypes st2 = declaredTypes st"
    with 14(1) have eq: "map_sum id fst (pythonType env m st2) = map_sum id fst (pythonType env m st)"
      by blast
    show "map_sum id fst (pythonTypes env (m # ms) st2) =
          map_sum id fst (pythonTypes env (m # ms) st)"
    proof (cases "pythonType env m st")
      case (Inl e)
      with eq have "pythonType env m st2 = Inl e"
        by (cases "pythonType env m st2") auto
      with Inl show ?thesis by simp
    next
      case (Inr r)
      obtain a st1 where r: "r = (a, st1)" by (cases r)
      with Inr eq obtain st1' where p2: "pythonType env m st2 = Inr (a, st1')"
        by (cases "pythonType env m st2") auto
      have "declaredTypes st1' = declaredTypes st1"
        by (simp only: importsOnly_declared[OF pythonType_importsOnly[OF p2]]
              importsOnly_declared[OF pythonType_importsOnly[OF Inr[unfolded r]]] d)
      with 14(2)[OF Inr[unfolded r] refl]
      have "map_sum id fst (pythonTypes env ms st1') = map_sum id fst (pythonTypes env ms st1)"
        by blast
      then show ?thesis
        unfolding pythonTypes.simps Inr r p2 sum.case prod.case by (rule output_wrap)
    qed
  qed
qed (auto simp: withTyping_def withImport_def namedType_def)

lemma hasImport_pythonType:
  "hasImport m n st \<Longrightarrow> pythonType env t st = Inr (a, st') \<Longrightarrow> hasImport m n st'"
  by (blast dest: pythonType_importsOnly importsOnly_hasImport)

lemma rendered_pythonType_state:
  "declaredTypes st2 = declaredTypes st \<Longrightarrow>
   rendered (pythonType env t st2) = rendered (pythonType env t st)"
proof -
  assume "declaredTypes st2 = declaredTypes st"
  then have "map_sum id fst (pythonType env t st2) = map_sum id fst (pythonType env t st)"
    using pythonType_output_aux(1) by blast
  then show ?thesis
    by (cases "pythonType env t st2"; cases "pythonType env t st") (auto simp: rendered_def)
qed

subsection \<open>Primitive types and collections\<close>

text \<open>
  Claim C6. The annotation of \<open>any\<close> is \<open>Any\<close>, with the import from
  \<open>typing\<close>; the annotations of \<open>null\<close>, \<open>bool\<close>, \<open>int\<close>,
  \<open>double\<close> and \<open>string\<close> are \<open>None\<close>, \<open>bool\<close>, \<open>int\<close>,
  \<open>float\<close> and \<open>str\<close>, and the state stays as it is; the annotation of an
  array is \<open>List[\<close>, the annotation of its items, \<open>]\<close>, with the import of
  \<open>List\<close>; the annotation of a map is \<open>Dict[str, \<close>, the annotation of its
  values, \<open>]\<close>, with the import of \<open>Dict\<close>. An error in the items or the
  values is the error of the collection.
\<close>

theorem pythonType_primitives_and_collections:
  "rendered (pythonType env TAny st) = Inr ''Any''
   \<and> (\<forall>a st'. pythonType env TAny st = Inr (a, st') \<longrightarrow> hasImport ''typing'' ''Any'' st')
   \<and> pythonType env TNull st = Inr (Str ''None'', st)
   \<and> pythonType env TBool st = Inr (Str ''bool'', st)
   \<and> pythonType env TInteger st = Inr (Str ''int'', st)
   \<and> pythonType env TDouble st = Inr (Str ''float'', st)
   \<and> pythonType env TString st = Inr (Str ''str'', st)
   \<and> rendered (pythonType env (TArray items) st) =
       map_sum id (\<lambda>r. ''List['' @ r @ '']'') (rendered (pythonType env items st))
   \<and> (\<forall>a st'. pythonType env (TArray items) st = Inr (a, st') \<longrightarrow>
         hasImport ''typing'' ''List'' st')
   \<and> rendered (pythonType env (TMap vals) st) =
       map_sum id (\<lambda>r. ''Dict[str, '' @ r @ '']'') (rendered (pythonType env vals st))
   \<and> (\<forall>a st'. pythonType env (TMap vals) st = Inr (a, st') \<longrightarrow>
         hasImport ''typing'' ''Dict'' st')"
proof -
  have any: "rendered (pythonType env TAny st) = Inr ''Any''"
    by (simp add: rendered_def withTyping_def withImport_def)
  have anyI: "\<forall>a st'. pythonType env TAny st = Inr (a, st') \<longrightarrow> hasImport ''typing'' ''Any'' st'"
    by (auto dest: hasImport_withTyping)
  have coll: "rendered (case pythonType env t (snd (withTyping n st)) of
                 Inl e \<Rightarrow> Inl e
               | Inr (i, st2) \<Rightarrow> Inr (Arr [Str n, Str b, i, Str '']''], st2)) =
             map_sum id (\<lambda>r. n @ b @ r @ '']'') (rendered (pythonType env t st))
           \<and> (\<forall>a st'. (case pythonType env t (snd (withTyping n st)) of
                 Inl e \<Rightarrow> Inl e
               | Inr (i, st2) \<Rightarrow> Inr (Arr [Str n, Str b, i, Str '']''], st2)) = Inr (a, st') \<longrightarrow>
               hasImport ''typing'' n st')" for t n b
  proof -
    let ?st1 = "snd (withTyping n st)"
    have d: "declaredTypes ?st1 = declaredTypes st"
      by (simp add: withTyping_def withImport_def)
    have h: "hasImport ''typing'' n ?st1"
      by (rule hasImport_withTyping[of n st "fst (withTyping n st)"]) simp
    have "rendered (pythonType env t ?st1) = rendered (pythonType env t st)"
      using d by (rule rendered_pythonType_state)
    then have 1: "rendered (case pythonType env t ?st1 of
                 Inl e \<Rightarrow> Inl e
               | Inr (i, st2) \<Rightarrow> Inr (Arr [Str n, Str b, i, Str '']''], st2)) =
             map_sum id (\<lambda>r. n @ b @ r @ '']'') (rendered (pythonType env t st))"
      by (cases "pythonType env t ?st1"; cases "pythonType env t st")
         (auto simp: rendered_def)
    have 2: "\<forall>a st'. (case pythonType env t ?st1 of
                 Inl e \<Rightarrow> Inl e
               | Inr (i, st2) \<Rightarrow> Inr (Arr [Str n, Str b, i, Str '']''], st2)) = Inr (a, st') \<longrightarrow>
               hasImport ''typing'' n st'"
      using h by (auto split: sum.splits dest: hasImport_pythonType)
    from 1 2 show ?thesis by blast
  qed
  have w: "withTyping n st = (Str n, snd (withTyping n st))" for n
    by (simp add: withTyping_def withImport_def)
  have arr: "pythonType env (TArray items) st =
      (case pythonType env items (snd (withTyping ''List'' st)) of
         Inl e \<Rightarrow> Inl e
       | Inr (i, st2) \<Rightarrow> Inr (Arr [Str ''List'', Str ''['', i, Str '']''], st2))"
    by (subst pythonType.simps, subst w) simp
  have mp: "pythonType env (TMap vals) st =
      (case pythonType env vals (snd (withTyping ''Dict'' st)) of
         Inl e \<Rightarrow> Inl e
       | Inr (i, st2) \<Rightarrow> Inr (Arr [Str ''Dict'', Str ''[str, '', i, Str '']''], st2))"
    by (subst pythonType.simps, subst w) simp
  show ?thesis
    using any anyI coll[where t=items and n="''List''" and b="''[''"]
      coll[where t=vals and n="''Dict''" and b="''[str, ''"]
    unfolding arr mp by simp
qed

theorem pythonType_primitives_and_collections_witness:
  "rendered (pythonType exampleEnv (TArray (TMap TAny)) initialState) = Inr ''List[Dict[str, Any]]''
   \<and> hasImport ''typing'' ''List''
        (snd (projr (pythonType exampleEnv (TArray (TMap TAny)) initialState)))
   \<and> hasImport ''typing'' ''Dict''
        (snd (projr (pythonType exampleEnv (TMap TDouble) initialState)))
   \<and> hasImport ''typing'' ''Any''
        (snd (projr (pythonType exampleEnv TAny initialState)))"
proof -
  have a: "pythonType exampleEnv (TArray (TMap TAny)) initialState =
      Inr (Arr [Str ''List'', Str ''['', Arr [Str ''Dict'', Str ''[str, '', Str ''Any'', Str '']''],
                Str '']''],
           initialState\<lparr>importMap := [(''typing'', [''List'', ''Dict'', ''Any''])]\<rparr>)"
    by (simp add: withTyping_def withImport_def initialState_def setAdd_def)
  have b: "pythonType exampleEnv (TMap TDouble) initialState =
      Inr (Arr [Str ''Dict'', Str ''[str, '', Str ''float'', Str '']''],
           initialState\<lparr>importMap := [(''typing'', [''Dict''])]\<rparr>)"
    by (simp add: withTyping_def withImport_def initialState_def setAdd_def)
  have c: "pythonType exampleEnv TAny initialState =
      Inr (Str ''Any'', initialState\<lparr>importMap := [(''typing'', [''Any''])]\<rparr>)"
    by (simp add: withTyping_def withImport_def initialState_def setAdd_def)
  note t1 = pythonType_primitives_and_collections[of exampleEnv initialState "TMap TAny" TDouble]
  from t1 have "\<forall>a st'. pythonType exampleEnv (TArray (TMap TAny)) initialState = Inr (a, st') \<longrightarrow>
      hasImport ''typing'' ''List'' st'"
    by (elim conjE)
  with a have 1: "hasImport ''typing'' ''List''
      (initialState\<lparr>importMap := [(''typing'', [''List'', ''Dict'', ''Any''])]\<rparr>)"
    by blast
  from t1 have "\<forall>a st'. pythonType exampleEnv (TMap TDouble) initialState = Inr (a, st') \<longrightarrow>
      hasImport ''typing'' ''Dict'' st'"
    by (elim conjE)
  with b have 2: "hasImport ''typing'' ''Dict''
      (initialState\<lparr>importMap := [(''typing'', [''Dict''])]\<rparr>)"
    by blast
  from t1 have "\<forall>a st'. pythonType exampleEnv TAny initialState = Inr (a, st') \<longrightarrow>
      hasImport ''typing'' ''Any'' st'"
    by (elim conjE)
  with c have 3: "hasImport ''typing'' ''Any''
      (initialState\<lparr>importMap := [(''typing'', [''Any''])]\<rparr>)"
    by blast
  show ?thesis
    unfolding a b c rendered_def using 1 2 3 by simp
qed

section \<open>Properties of the support code\<close>

subsection \<open>The date-time function\<close>



section \<open>Properties of the string type mapping\<close>

lemma stringTypeMapping_eq:
  "stringTypeMapping =
     [(''date'', ''string''), (''time'', ''string''), (''date-time'', ''string''),
      (''integer-string'', ''integer-string'')]"
  by (simp add: stringTypeMapping_def Let_def)

lemma applyStringTypeMapping_no_date_time:
  "\<not> hasTransformed ''date-time'' (applyStringTypeMapping stringTypeMapping t)"
  by (induction t) (auto simp: stringTypeMapping_eq split: option.splits if_splits)

lemma set_sortedMembers [simp]: "set (sortedMembers env ms) = set ms"
  by (simp add: sortedMembers_def)

lemma pythonType_datetime_aux:
  "(\<forall>a st'. \<not> hasTransformed ''date-time'' t \<longrightarrow> pythonType env t st = Inr (a, st') \<longrightarrow>
      map_of (importMap st') ''datetime'' = map_of (importMap st) ''datetime'')"
  "(\<forall>as st'. (\<forall>t \<in> set ts. \<not> hasTransformed ''date-time'' t) \<longrightarrow>
      pythonTypes env ts st = Inr (as, st') \<longrightarrow>
      map_of (importMap st') ''datetime'' = map_of (importMap st) ''datetime'')"
proof (induction env t st and env ts st rule: pythonType_pythonTypes.induct)
  case (1 env st)
  show ?case by (auto simp: withTyping_def withImport_def map_of_mapUpdateInto)
next
  case (7 env items st)
  obtain l st1 where w: "withTyping ''List'' st = (l, st1)" by fastforce
  then have "map_of (importMap st1) ''datetime'' = map_of (importMap st) ''datetime''"
    by (auto simp: withTyping_def withImport_def map_of_mapUpdateInto)
  note e = this
  show ?case
  proof (intro allI impI)
    fix a st'
    assume nd: "\<not> hasTransformed ''date-time'' (TArray items)"
      and r: "pythonType env (TArray items) st = Inr (a, st')"
    from r w obtain i where "pythonType env items st1 = Inr (i, st')"
      by (auto split: sum.splits)
    with 7[OF w[symmetric]] nd
    have "map_of (importMap st') ''datetime'' = map_of (importMap st1) ''datetime''"
      by simp
    with e show "map_of (importMap st') ''datetime'' = map_of (importMap st) ''datetime''"
      by simp
  qed
next
  case (9 env vals st)
  obtain l st1 where w: "withTyping ''Dict'' st = (l, st1)" by fastforce
  then have "map_of (importMap st1) ''datetime'' = map_of (importMap st) ''datetime''"
    by (auto simp: withTyping_def withImport_def map_of_mapUpdateInto)
  note e = this
  show ?case
  proof (intro allI impI)
    fix a st'
    assume nd: "\<not> hasTransformed ''date-time'' (TMap vals)"
      and r: "pythonType env (TMap vals) st = Inr (a, st')"
    from r w obtain i where "pythonType env vals st1 = Inr (i, st')"
      by (auto split: sum.splits)
    with 9[OF w[symmetric]] nd
    have "map_of (importMap st') ''datetime'' = map_of (importMap st1) ''datetime''"
      by simp
    with e show "map_of (importMap st') ''datetime'' = map_of (importMap st) ''datetime''"
      by simp
  qed
next
  case (11 env ms st)
  show ?case
  proof (intro allI impI)
    fix a st'
    assume nd: "\<not> hasTransformed ''date-time'' (TUnion ms)"
      and r: "pythonType env (TUnion ms) st = Inr (a, st')"
    show "map_of (importMap st') ''datetime'' = map_of (importMap st) ''datetime''"
    proof (cases "nullableFromUnion ms")
      case None
      from r None obtain as st1 u where p: "pythonTypes env (sortedMembers env ms) st = Inr (as, st1)"
        and s: "withTyping ''Union'' st1 = (u, st')"
        by (auto split: sum.splits prod.splits)
      from nd have "\<forall>t \<in> set (sortedMembers env ms). \<not> hasTransformed ''date-time'' t"
        by simp
      with 11(1)[OF None] p
      have "map_of (importMap st1) ''datetime'' = map_of (importMap st) ''datetime''"
        by blast
      moreover from s have "map_of (importMap st') ''datetime'' = map_of (importMap st1) ''datetime''"
        by (auto simp: withTyping_def withImport_def map_of_mapUpdateInto)
      ultimately show ?thesis by simp
    next
      case (Some t)
      obtain l st1 where w: "withTyping ''Optional'' st = (l, st1)" by fastforce
      then have e: "map_of (importMap st1) ''datetime'' = map_of (importMap st) ''datetime''"
        by (auto simp: withTyping_def withImport_def map_of_mapUpdateInto)
      from Some have "t \<in> set ms" by (rule nullableFromUnion_member)
      with nd have nt: "\<not> hasTransformed ''date-time'' t" by auto
      from r Some w obtain n where "pythonType env t st1 = Inr (n, st')"
        by (auto split: sum.splits)
      with 11(2)[OF Some w[symmetric]] nt
      have "map_of (importMap st') ''datetime'' = map_of (importMap st1) ''datetime''"
        by blast
      with e show ?thesis by simp
    qed
  qed
next
  case (12 env k st)
  show ?case by auto
next
  case (14 env m ms st)
  show ?case
  proof (intro allI impI)
    fix as st'
    assume nd: "\<forall>t \<in> set (m # ms). \<not> hasTransformed ''date-time'' t"
      and r: "pythonTypes env (m # ms) st = Inr (as, st')"
    from r obtain a st1 as' where p1: "pythonType env m st = Inr (a, st1)"
      and p2: "pythonTypes env ms st1 = Inr (as', st')"
      by (auto split: sum.splits prod.splits)
    from 14(1) nd p1 have "map_of (importMap st1) ''datetime'' = map_of (importMap st) ''datetime''"
      by simp
    moreover from 14(2)[OF p1 refl] nd p2
    have "map_of (importMap st') ''datetime'' = map_of (importMap st1) ''datetime''"
      by simp
    ultimately show "map_of (importMap st') ''datetime'' = map_of (importMap st) ''datetime''"
      by simp
  qed
qed auto

lemma from_df_set:
  "from_df df st = (f, st') \<Longrightarrow> set (deserializerFunctions st') = insert df (set (deserializerFunctions st))"
  by (auto simp: from_df_def)

lemma deserializerFn_date_time_aux:
  "(\<forall>mw st'. \<not> hasTransformed ''date-time'' t \<longrightarrow> deserializerFn env t st = Inr (mw, st') \<longrightarrow>
      DF_date_time \<in> set (deserializerFunctions st') \<longrightarrow>
      DF_date_time \<in> set (deserializerFunctions st))"
  "(\<forall>ds st'. (\<forall>t \<in> set ts. \<not> hasTransformed ''date-time'' t) \<longrightarrow>
      deserializerFns env ts st = Inr (ds, st') \<longrightarrow>
      DF_date_time \<in> set (deserializerFunctions st') \<longrightarrow>
      DF_date_time \<in> set (deserializerFunctions st))"
proof (induction env t st and env ts st rule: deserializerFn_deserializerFns.induct)
  case (7 env items st)
  obtain f st1 where w: "from_df DF_list st = (f, st1)" by fastforce
  show ?case
  proof (intro allI impI)
    fix mw st'
    assume nd: "\<not> hasTransformed ''date-time'' (TArray items)"
      and r: "deserializerFn env (TArray items) st = Inr (mw, st')"
      and m: "DF_date_time \<in> set (deserializerFunctions st')"
    from r w obtain d where "deserializerFn env items st1 = Inr (d, st')"
      by (auto split: sum.splits)
    with 7[OF w[symmetric]] nd m have "DF_date_time \<in> set (deserializerFunctions st1)"
      by simp
    with from_df_set[OF w] show "DF_date_time \<in> set (deserializerFunctions st)"
      by simp
  qed
next
  case (9 env vals st)
  obtain f st1 where w: "from_df DF_dict st = (f, st1)" by fastforce
  show ?case
  proof (intro allI impI)
    fix mw st'
    assume nd: "\<not> hasTransformed ''date-time'' (TMap vals)"
      and r: "deserializerFn env (TMap vals) st = Inr (mw, st')"
      and m: "DF_date_time \<in> set (deserializerFunctions st')"
    from r w obtain d where "deserializerFn env vals st1 = Inr (d, st')"
      by (auto split: sum.splits)
    with 9[OF w[symmetric]] nd m have "DF_date_time \<in> set (deserializerFunctions st1)"
      by simp
    with from_df_set[OF w] show "DF_date_time \<in> set (deserializerFunctions st)"
      by simp
  qed
next
  case (11 env ms st)
  show ?case
  proof (intro allI impI)
    fix mw st'
    assume nd: "\<not> hasTransformed ''date-time'' (TUnion ms)"
      and r: "deserializerFn env (TUnion ms) st = Inr (mw, st')"
      and m: "DF_date_time \<in> set (deserializerFunctions st')"
    from r obtain ds st1 f where p: "deserializerFns env ms st = Inr (ds, st1)"
      and w: "from_df DF_union st1 = (f, st')"
      by (auto split: sum.splits prod.splits)
    from from_df_set[OF w] m have "DF_date_time \<in> set (deserializerFunctions st1)"
      by simp
    with 11 nd p show "DF_date_time \<in> set (deserializerFunctions st)"
      by simp
  qed
next
  case (14 env m ms st)
  show ?case
  proof (intro allI impI)
    fix ds st'
    assume nd: "\<forall>t \<in> set (m # ms). \<not> hasTransformed ''date-time'' t"
      and r: "deserializerFns env (m # ms) st = Inr (ds, st')"
      and mm: "DF_date_time \<in> set (deserializerFunctions st')"
    from r obtain d st1 ds' where p1: "deserializerFn env m st = Inr (d, st1)"
      and p2: "deserializerFns env ms st1 = Inr (ds', st')"
      by (auto split: sum.splits prod.splits)
    from 14(2)[OF p1 refl] nd p2 mm have "DF_date_time \<in> set (deserializerFunctions st1)"
      by simp
    with 14(1) nd p1 show "DF_date_time \<in> set (deserializerFunctions st)"
      by simp
  qed
qed (auto simp: from_df_def)

text \<open>
  Claim C9. The mapping of the Python target sends \<open>date\<close>, \<open>time\<close> and
  \<open>date-time\<close> to \<open>string\<close> and keeps \<open>integer-string\<close>; these are
  its four entries. A date-time type is presented as the string type, and on a type that
  the mapping has been applied to, \<open>pythonType\<close> leaves the imports of the module
  \<open>datetime\<close> as they are and \<open>deserializerFn\<close> does not add the date-time
  function to the deserializer functions.
\<close>

theorem stringTypeMapping_hides_date_time:
  "map_of stringTypeMapping ''date'' = Some ''string''
   \<and> map_of stringTypeMapping ''time'' = Some ''string''
   \<and> map_of stringTypeMapping ''date-time'' = Some ''string''
   \<and> map_of stringTypeMapping ''integer-string'' = Some ''integer-string''
   \<and> map fst stringTypeMapping = [''date'', ''time'', ''date-time'', ''integer-string'']
   \<and> applyStringTypeMapping stringTypeMapping (TTransformed ''date-time'') = TString
   \<and> (\<forall>a st'. pythonType env (applyStringTypeMapping stringTypeMapping t) st = Inr (a, st') \<longrightarrow>
         map_of (importMap st') ''datetime'' = map_of (importMap st) ''datetime'')
   \<and> (\<forall>mw st'. deserializerFn env (applyStringTypeMapping stringTypeMapping t) st = Inr (mw, st') \<longrightarrow>
         DF_date_time \<in> set (deserializerFunctions st') \<longrightarrow>
         DF_date_time \<in> set (deserializerFunctions st))"
proof -
  have "\<not> hasTransformed ''date-time'' (applyStringTypeMapping stringTypeMapping t)"
    by (rule applyStringTypeMapping_no_date_time)
  then have
    "\<forall>a st'. pythonType env (applyStringTypeMapping stringTypeMapping t) st = Inr (a, st') \<longrightarrow>
         map_of (importMap st') ''datetime'' = map_of (importMap st) ''datetime''"
    "\<forall>mw st'. deserializerFn env (applyStringTypeMapping stringTypeMapping t) st = Inr (mw, st') \<longrightarrow>
         DF_date_time \<in> set (deserializerFunctions st') \<longrightarrow>
         DF_date_time \<in> set (deserializerFunctions st)"
    using pythonType_datetime_aux(1) deserializerFn_date_time_aux(1) by blast+
  moreover have
    "map_of stringTypeMapping ''date'' = Some ''string''"
    "map_of stringTypeMapping ''time'' = Some ''string''"
    "map_of stringTypeMapping ''date-time'' = Some ''string''"
    "map_of stringTypeMapping ''integer-string'' = Some ''integer-string''"
    "map fst stringTypeMapping = [''date'', ''time'', ''date-time'', ''integer-string'']"
    "applyStringTypeMapping stringTypeMapping (TTransformed ''date-time'') = TString"
    by (simp_all add: stringTypeMapping_eq)
  ultimately show ?thesis
    by (intro conjI)
qed

theorem stringTypeMapping_hides_date_time_witness:
  "rendered (pythonType exampleEnv
      (applyStringTypeMapping stringTypeMapping (TArray (TTransformed ''date-time''))) initialState)
     = Inr ''List[str]''
   \<and> map_of (importMap (snd (projr (pythonType exampleEnv
      (applyStringTypeMapping stringTypeMapping (TArray (TTransformed ''date-time''))) initialState))))
      ''datetime'' = None
   \<and> deserializerFunctions (snd (projr (deserializerFn exampleEnv
      (applyStringTypeMapping stringTypeMapping (TArray (TTransformed ''date-time''))) initialState)))
     = [DF_list, DF_str]"
proof -
  let ?t = "applyStringTypeMapping stringTypeMapping (TArray (TTransformed ''date-time''))"
  have t: "?t = TArray TString"
    by (simp add: stringTypeMapping_eq)
  have a: "pythonType exampleEnv ?t initialState =
      Inr (Arr [Str ''List'', Str ''['', Str ''str'', Str '']''],
           initialState\<lparr>importMap := [(''typing'', [''List''])]\<rparr>)"
    unfolding t by (simp add: withTyping_def withImport_def initialState_def)
  have b: "deserializerFn exampleEnv ?t initialState =
      Inr (multiWord (Str [])
             [Str ''lambda x: '', Arr [Str ''from_'', Str ''list''], Str ''('',
              Arr [Arr [Str ''from_'', Str ''str'']], Str '', x)''],
           initialState\<lparr>deserializerFunctions := [DF_list, DF_str]\<rparr>)"
    unfolding t by (simp add: from_df_def initialState_def setAdd_def singleWord_def parenIfNeeded_def)
  note th = stringTypeMapping_hides_date_time[of exampleEnv "TArray (TTransformed ''date-time'')" initialState]
  from th have "\<forall>a st'. pythonType exampleEnv ?t initialState = Inr (a, st') \<longrightarrow>
         map_of (importMap st') ''datetime'' = map_of (importMap initialState) ''datetime''"
    by (elim conjE)
  with a have 1: "map_of (importMap (initialState\<lparr>importMap := [(''typing'', [''List''])]\<rparr>)) ''datetime''
      = map_of (importMap initialState) ''datetime''"
    by blast
  show ?thesis
    unfolding a b using 1 by (simp add: rendered_def initialState_def)
qed

section \<open>Properties of the identifier characters\<close>

lemma allUnits_all:
  "\<forall>d \<in> set cs. p d = Some (q d) \<Longrightarrow> allUnits p cs = Some (\<forall>d \<in> set cs. q d)"
  by (induction cs) (auto split: bool.splits)

lemma isStartCharacter_stable:
  "nfkc c = [c] \<Longrightarrow>
   isStartCharacter cat nfkc (Suc fuel) c = Some (isNormalizedStartCharacter cat c)"
  by simp

lemma isNormalizedPartCharacter_stable:
  "nfkc c = [c] \<Longrightarrow>
   isNormalizedPartCharacter cat nfkc (Suc fuel) c =
     Some (isNormalizedStartCharacter cat c \<or> cat c \<in> set [''Mn'', ''Mc'', ''Nd'', ''Pc''])"
  by (simp del: isStartCharacter.simps add: isStartCharacter_stable split: bool.splits)

text \<open>
  Claim C8. Let the units of the normalization of a character normalize to themselves,
  as the units of a normalized text do. Then, with the calls it needs, the character is
  accepted at the start exactly if its normalization is not empty, the first unit is the
  underscore or has a category among Lu, Ll, Lt, Lm, Lo, Nl, and every later unit passes
  the test of a continuation; it is accepted as a continuation exactly if every unit of
  its normalization is the underscore or has a category among these or among Mn, Mc, Nd,
  Pc. For a normalization of one unit the start test is the test of that unit.
\<close>

theorem identifier_characters:
  assumes stable: "\<forall>c \<in> set (nfkc u). nfkc c = [c]"
  shows
    "isStartCharacter cat nfkc (Suc (Suc fuel)) u =
       Some (case nfkc u of
               [] \<Rightarrow> False
             | c # cs \<Rightarrow>
                 (c = 0x5f \<or> cat c \<in> {''Lu'', ''Ll'', ''Lt'', ''Lm'', ''Lo'', ''Nl''}) \<and>
                 (\<forall>d \<in> set cs.
                    (d = 0x5f \<or> cat d \<in> {''Lu'', ''Ll'', ''Lt'', ''Lm'', ''Lo'', ''Nl''}) \<or>
                    cat d \<in> {''Mn'', ''Mc'', ''Nd'', ''Pc''}))
     \<and> isPartCharacter cat nfkc (Suc fuel) u =
       Some (\<forall>d \<in> set (nfkc u).
               (d = 0x5f \<or> cat d \<in> {''Lu'', ''Ll'', ''Lt'', ''Lm'', ''Lo'', ''Nl''}) \<or>
               cat d \<in> {''Mn'', ''Mc'', ''Nd'', ''Pc''})
     \<and> (\<forall>c. nfkc u = [c] \<longrightarrow>
          isStartCharacter cat nfkc (Suc (Suc fuel)) u =
            Some (c = 0x5f \<or> cat c \<in> {''Lu'', ''Ll'', ''Lt'', ''Lm'', ''Lo'', ''Nl''}))"
proof -
  let ?start = "\<lambda>c. c = 0x5f \<or> cat c \<in> {''Lu'', ''Ll'', ''Lt'', ''Lm'', ''Lo'', ''Nl''}"
  let ?part = "\<lambda>d. ?start d \<or> cat d \<in> {''Mn'', ''Mc'', ''Nd'', ''Pc''}"
  have ns: "isNormalizedStartCharacter cat c = ?start c" for c
    by (simp add: isNormalizedStartCharacter_def)
  have np: "isNormalizedPartCharacter cat nfkc (Suc n) d = Some (?part d)"
    if "nfkc d = [d]" for d n
    using isNormalizedPartCharacter_stable[where nfkc=nfkc and c=d and cat=cat and fuel=n] that
    by (simp add: ns)
  have allp: "allUnits (\<lambda>d. isNormalizedPartCharacter cat nfkc (Suc n) d) cs =
      Some (\<forall>d \<in> set cs. ?part d)" if "set cs \<subseteq> set (nfkc u)" for cs n
    by (rule allUnits_all) (use that stable np in blast)
  have start: "isStartCharacter cat nfkc (Suc (Suc fuel)) u =
       Some (case nfkc u of [] \<Rightarrow> False
             | c # cs \<Rightarrow> ?start c \<and> (\<forall>d \<in> set cs. ?part d))"
  proof (cases "nfkc u")
    case Nil
    then show ?thesis by simp
  next
    case (Cons c cs)
    then have "set cs \<subseteq> set (nfkc u)" by auto
    from allp[OF this, of fuel] Cons show ?thesis
      by (simp del: isNormalizedPartCharacter.simps add: ns)
  qed
  have part: "isPartCharacter cat nfkc (Suc fuel) u = Some (\<forall>d \<in> set (nfkc u). ?part d)"
    unfolding isPartCharacter_def by (rule allp) simp
  have single: "\<forall>c. nfkc u = [c] \<longrightarrow>
      isStartCharacter cat nfkc (Suc (Suc fuel)) u = Some (?start c)"
    using start by auto
  from start part single show ?thesis by (intro conjI)
qed

theorem identifier_characters_witness:
  "exampleNFKC 0xFB01 = [0x66, 0x69] \<and> exampleNFKC 0x66 = [0x66] \<and> exampleNFKC 0x69 = [0x69]
   \<and> isStartCharacter exampleCategory exampleNFKC (Suc (Suc 0)) 0xFB01 = Some True
   \<and> isPartCharacter exampleCategory exampleNFKC (Suc 0) 0xFB01 = Some True"
proof -
  have s: "\<forall>c \<in> set (exampleNFKC 0xFB01). exampleNFKC c = [c]"
    by (simp add: exampleNFKC_def)
  have n: "exampleNFKC 0xFB01 = [0x66, 0x69]"
    by (simp add: exampleNFKC_def)
  have c: "exampleCategory 0x66 = ''Ll''" "exampleCategory 0x69 = ''Ll''"
    by (simp_all add: exampleCategory_def)
  have m: "exampleNFKC 0x66 = [0x66]" "exampleNFKC 0x69 = [0x69]"
    by (simp_all add: exampleNFKC_def)
  from identifier_characters[OF s, of exampleCategory 0] show ?thesis
    by (simp del: isStartCharacter.simps isNormalizedPartCharacter.simps add: n c m)
qed

section \<open>Properties of the deserializer synthesis\<close>

subsection \<open>What \<open>deserializerFn\<close> changes and what it reads\<close>

text \<open>The expression that \<open>deserializerFn\<close> returns does not depend on the state.\<close>

lemma from_df_fst: "from_df df st = (f, st1) \<Longrightarrow> f = Arr [Str ''from_'', Str (dfName df)]"
  by (auto simp: from_df_def)

lemma deserializer_wrap:
  assumes "map_sum id fst r2 = map_sum id fst r"
  shows "map_sum id fst (case r2 of Inl e \<Rightarrow> Inl e | Inr (d, s) \<Rightarrow> Inr (f d, s))
       = map_sum id fst (case r of Inl e \<Rightarrow> Inl e | Inr (d, s) \<Rightarrow> Inr (f d, s))"
  using assms by (cases r; cases r2) auto

lemma deserializerFn_output_aux:
  "(\<forall>st2. map_sum id fst (deserializerFn env t st2) = map_sum id fst (deserializerFn env t st))"
  "(\<forall>st2. map_sum id fst (deserializerFns env ts st2) = map_sum id fst (deserializerFns env ts st))"
proof (induction env t st and env ts st rule: deserializerFn_deserializerFns.induct)
  case (7 env items st)
  show ?case
  proof
    fix st2
    obtain f st1 where w1: "from_df DF_list st = (f, st1)" by fastforce
    obtain f2 st1' where w2: "from_df DF_list st2 = (f2, st1')" by fastforce
    have f: "f2 = f" by (simp only: from_df_fst[OF w1] from_df_fst[OF w2])
    from 7[OF w1[symmetric]]
    have "map_sum id fst (deserializerFn env items st1') = map_sum id fst (deserializerFn env items st1)"
      by blast
    then show "map_sum id fst (deserializerFn env (TArray items) st2) =
               map_sum id fst (deserializerFn env (TArray items) st)"
      unfolding deserializerFn.simps w1 w2 f prod.case by (rule deserializer_wrap)
  qed
next
  case (9 env vals st)
  show ?case
  proof
    fix st2
    obtain f st1 where w1: "from_df DF_dict st = (f, st1)" by fastforce
    obtain f2 st1' where w2: "from_df DF_dict st2 = (f2, st1')" by fastforce
    have f: "f2 = f" by (simp only: from_df_fst[OF w1] from_df_fst[OF w2])
    from 9[OF w1[symmetric]]
    have "map_sum id fst (deserializerFn env vals st1') = map_sum id fst (deserializerFn env vals st1)"
      by blast
    then show "map_sum id fst (deserializerFn env (TMap vals) st2) =
               map_sum id fst (deserializerFn env (TMap vals) st)"
      unfolding deserializerFn.simps w1 w2 f prod.case by (rule deserializer_wrap)
  qed
next
  case (11 env ms st)
  show ?case
  proof
    fix st2
    from 11 have eq: "map_sum id fst (deserializerFns env ms st2) =
        map_sum id fst (deserializerFns env ms st)"
      by blast
    show "map_sum id fst (deserializerFn env (TUnion ms) st2) =
          map_sum id fst (deserializerFn env (TUnion ms) st)"
    proof (cases "deserializerFns env ms st")
      case (Inl e)
      with eq have "deserializerFns env ms st2 = Inl e"
        by (cases "deserializerFns env ms st2") auto
      with Inl show ?thesis by simp
    next
      case (Inr r)
      obtain ds st1 where r: "r = (ds, st1)" by (cases r)
      with Inr eq obtain st1' where "deserializerFns env ms st2 = Inr (ds, st1')"
        by (cases "deserializerFns env ms st2") auto
      with Inr r show ?thesis
        by (auto split: prod.splits dest: from_df_fst)
    qed
  qed
next
  case (14 env m ms st)
  show ?case
  proof
    fix st2
    from 14(1) have eq: "map_sum id fst (deserializerFn env m st2) =
        map_sum id fst (deserializerFn env m st)"
      by blast
    show "map_sum id fst (deserializerFns env (m # ms) st2) =
          map_sum id fst (deserializerFns env (m # ms) st)"
    proof (cases "deserializerFn env m st")
      case (Inl e)
      with eq have "deserializerFn env m st2 = Inl e"
        by (cases "deserializerFn env m st2") auto
      with Inl show ?thesis by simp
    next
      case (Inr r)
      obtain d st1 where r: "r = (d, st1)" by (cases r)
      with Inr eq obtain st1' where p2: "deserializerFn env m st2 = Inr (d, st1')"
        by (cases "deserializerFn env m st2") auto
      from 14(2)[OF Inr[unfolded r] refl]
      have "map_sum id fst (deserializerFns env ms st1') = map_sum id fst (deserializerFns env ms st1)"
        by blast
      then show ?thesis
        unfolding deserializerFns.simps Inr r p2 sum.case prod.case by (rule deserializer_wrap)
    qed
  qed
qed (auto simp: from_df_def)

lemma deserializerFn_output:
  "map_sum id fst (deserializerFn env t st2) = map_sum id fst (deserializerFn env t st)"
  using deserializerFn_output_aux(1) by blast

text \<open>The results of the two loops over the members, member by member.\<close>

lemma pythonTypes_members:
  "pythonTypes env ts st = Inr (as, st') \<Longrightarrow>
   map Inr as = map (\<lambda>m. map_sum id fst (pythonType env m st)) ts"
proof (induction ts arbitrary: st as)
  case Nil
  then show ?case by simp
next
  case (Cons m ms)
  from Cons.prems obtain a st1 as' where p1: "pythonType env m st = Inr (a, st1)"
    and p2: "pythonTypes env ms st1 = Inr (as', st')" and as: "as = a # as'"
    by (auto split: sum.splits prod.splits)
  from p1 have d: "declaredTypes st1 = declaredTypes st"
    by (auto dest!: pythonType_importsOnly importsOnly_declared)
  have "map Inr as' = map (\<lambda>m. map_sum id fst (pythonType env m st1)) ms"
    using p2 by (rule Cons.IH)
  also have "\<dots> = map (\<lambda>m. map_sum id fst (pythonType env m st)) ms"
    using pythonType_output_aux(1) d by (intro map_cong refl) blast
  finally show ?case using p1 as by (simp add: id_def)
qed

lemma deserializerFns_members:
  "deserializerFns env ts st = Inr (ds, st') \<Longrightarrow>
   map Inr ds = map (\<lambda>m. map_sum id (\<lambda>(mw, s). source mw) (deserializerFn env m st)) ts"
proof (induction ts arbitrary: st ds)
  case Nil
  then show ?case by simp
next
  case (Cons m ms)
  from Cons.prems obtain d st1 ds' where p1: "deserializerFn env m st = Inr (d, st1)"
    and p2: "deserializerFns env ms st1 = Inr (ds', st')" and ds: "ds = source d # ds'"
    by (auto split: sum.splits prod.splits)
  have o: "map_sum id (\<lambda>(mw, s). source mw) (deserializerFn env x st1) =
           map_sum id (\<lambda>(mw, s). source mw) (deserializerFn env x st)" for x
    using deserializerFn_output[of env x st1 st]
    by (cases "deserializerFn env x st1"; cases "deserializerFn env x st") auto
  have "map Inr ds' = map (\<lambda>m. map_sum id (\<lambda>(mw, s). source mw) (deserializerFn env m st1)) ms"
    using p2 by (rule Cons.IH)
  also have "\<dots> = map (\<lambda>m. map_sum id (\<lambda>(mw, s). source mw) (deserializerFn env m st)) ms"
    by (simp only: o)
  finally show ?case using p1 ds by (simp add: id_def)
qed

lemma sortedMembers_sorted:
  "sorted (map (memberSortKey env) ms) \<Longrightarrow> sortedMembers env ms = ms"
  unfolding sortedMembers_def by (rule sort_key_id_if_sorted)

lemma rendered_wrapped:
  "rendered (case pythonType env t (snd (withTyping n st)) of
               Inl e \<Rightarrow> Inl e
             | Inr (i, st2) \<Rightarrow> Inr (Arr [Str n, Str b, i, Str c], st2)) =
   map_sum id (\<lambda>r. n @ b @ r @ c) (rendered (pythonType env t st))"
proof -
  have "declaredTypes (snd (withTyping n st)) = declaredTypes st"
    by (simp add: withTyping_def withImport_def)
  then have "rendered (pythonType env t (snd (withTyping n st))) = rendered (pythonType env t st)"
    by (rule rendered_pythonType_state)
  then show ?thesis
    by (cases "pythonType env t (snd (withTyping n st))"; cases "pythonType env t st")
       (auto simp: rendered_def)
qed

subsection \<open>The order of the members of a union\<close>

text \<open>
  Claim C1, as the code has it. For a union that is not \<open>null\<close> and one other
  type, the annotation is \<open>Union[\<close>, the annotations of the members in the order of
  \<open>sortedMembers\<close> (by kind, then by name), \<open>]\<close>, and the deserializer is
  \<open>from_union\<close> on the deserializers of the members in the order of the member set
  itself. The two orders hold the same members, and they are equal when the member set
  is in sorted order already.
\<close>

theorem union_member_orders:
  assumes "nullableFromUnion ms = None"
    and "pythonType env (TUnion ms) st = Inr (a, st')"
    and "deserializerFn env (TUnion ms) st = Inr (mw, st'')"
  shows "\<exists>anns ds.
      a = Arr [Str ''Union'', Str ''['', Arr (arrayIntercalate (Str '', '') anns), Str '']'']
    \<and> mw = multiWord (Str [])
              [Str ''lambda x: '', Arr [Str ''from_'', Str ''union''], Str ''(['',
               Arr (arrayIntercalate (Str '', '') ds), Str ''], x)'']
    \<and> map Inr anns = map (\<lambda>m. map_sum id fst (pythonType env m st)) (sortedMembers env ms)
    \<and> map Inr ds = map (\<lambda>m. map_sum id (\<lambda>(mw, s). source mw) (deserializerFn env m st)) ms
    \<and> mset (sortedMembers env ms) = mset ms
    \<and> (sorted (map (memberSortKey env) ms) \<longrightarrow> sortedMembers env ms = ms)"
proof -
  from assms(1,2) obtain anns st1 u where
    p: "pythonTypes env (sortedMembers env ms) st = Inr (anns, st1)"
    and w: "withTyping ''Union'' st1 = (u, st')"
    and a: "a = Arr [u, Str ''['', Arr (arrayIntercalate (Str '', '') anns), Str '']'']"
    by (auto split: sum.splits prod.splits)
  from w have u: "u = Str ''Union''" by (rule withTyping_fst)
  from assms(3) obtain ds st2 f where
    d: "deserializerFns env ms st = Inr (ds, st2)"
    and fr: "from_df DF_union st2 = (f, st'')"
    and mw: "mw = multiWord (Str [])
              [Str ''lambda x: '', f, Str ''(['',
               Arr (arrayIntercalate (Str '', '') ds), Str ''], x)'']"
    by (auto split: sum.splits prod.splits)
  from fr have f: "f = Arr [Str ''from_'', Str ''union'']"
    by (auto dest: from_df_fst)
  have "a = Arr [Str ''Union'', Str ''['', Arr (arrayIntercalate (Str '', '') anns), Str '']'']"
    using a u by simp
  moreover have "mw = multiWord (Str [])
              [Str ''lambda x: '', Arr [Str ''from_'', Str ''union''], Str ''(['',
               Arr (arrayIntercalate (Str '', '') ds), Str ''], x)'']"
    using mw f by simp
  moreover have "map Inr anns =
      map (\<lambda>m. map_sum id fst (pythonType env m st)) (sortedMembers env ms)"
    using p by (rule pythonTypes_members)
  moreover have "map Inr ds =
      map (\<lambda>m. map_sum id (\<lambda>(mw, s). source mw) (deserializerFn env m st)) ms"
    using d by (rule deserializerFns_members)
  moreover have "mset (sortedMembers env ms) = mset ms"
    by (rule sortedMembers_mset)
  moreover have "sorted (map (memberSortKey env) ms) \<longrightarrow> sortedMembers env ms = ms"
    by (simp add: sortedMembers_sorted)
  ultimately show ?thesis by blast
qed

theorem union_member_orders_witness:
  "nullableFromUnion [TBool, TInteger] = None
   \<and> rendered (pythonType exampleEnv (TUnion [TBool, TInteger]) initialState) = Inr ''Union[bool, int]''
   \<and> synthesized (deserializerFn exampleEnv (TUnion [TBool, TInteger]) initialState) =
       Inr ''lambda x: from_union([from_bool, from_int], x)''
   \<and> mset (sortedMembers exampleEnv [TBool, TInteger]) = mset [TBool, TInteger]"
proof -
  have n: "nullableFromUnion [TBool, TInteger] = None"
    by (simp add: nullableFromUnion_def)
  have s: "sortedMembers exampleEnv [TBool, TInteger] = [TBool, TInteger]"
    by (simp add: sortedMembers_def memberSortKey_def)
  have a: "pythonType exampleEnv (TUnion [TBool, TInteger]) initialState =
      Inr (Arr [Str ''Union'', Str ''['', Arr [Str ''bool'', Str '', '', Str ''int''], Str '']''],
           initialState\<lparr>importMap := [(''typing'', [''Union''])]\<rparr>)"
    by (simp add: n s withTyping_def withImport_def initialState_def)
  have b: "deserializerFn exampleEnv (TUnion [TBool, TInteger]) initialState =
      Inr (multiWord (Str [])
             [Str ''lambda x: '', Arr [Str ''from_'', Str ''union''], Str ''(['',
              Arr [Arr [Arr [Str ''from_'', Str ''bool'']], Str '', '',
                   Arr [Arr [Str ''from_'', Str ''int'']]], Str ''], x)''],
           initialState\<lparr>deserializerFunctions := [DF_bool, DF_int, DF_union]\<rparr>)"
    by (simp add: from_df_def initialState_def setAdd_def singleWord_def)
  from union_member_orders[OF n a b]
  have "mset (sortedMembers exampleEnv [TBool, TInteger]) = mset [TBool, TInteger]"
    by blast
  then show ?thesis
    unfolding a b by (simp add: n rendered_def synthesized_def multiWord_def)
qed

theorem union_member_orders_counterexample:
  "rendered (pythonType exampleEnv (TUnion [TInteger, TBool]) initialState) = Inr ''Union[bool, int]''
   \<and> synthesized (deserializerFn exampleEnv (TUnion [TInteger, TBool]) initialState) =
       Inr ''lambda x: from_union([from_int, from_bool], x)''"
proof -
  have n: "nullableFromUnion [TInteger, TBool] = None"
    by (simp add: nullableFromUnion_def)
  have s: "sortedMembers exampleEnv [TInteger, TBool] = [TBool, TInteger]"
    by (simp add: sortedMembers_def memberSortKey_def)
  have a: "pythonType exampleEnv (TUnion [TInteger, TBool]) initialState =
      Inr (Arr [Str ''Union'', Str ''['', Arr [Str ''bool'', Str '', '', Str ''int''], Str '']''],
           initialState\<lparr>importMap := [(''typing'', [''Union''])]\<rparr>)"
    by (simp add: n s withTyping_def withImport_def initialState_def)
  have b: "deserializerFn exampleEnv (TUnion [TInteger, TBool]) initialState =
      Inr (multiWord (Str [])
             [Str ''lambda x: '', Arr [Str ''from_'', Str ''union''], Str ''(['',
              Arr [Arr [Arr [Str ''from_'', Str ''int'']], Str '', '',
                   Arr [Arr [Str ''from_'', Str ''bool'']]], Str ''], x)''],
           initialState\<lparr>deserializerFunctions := [DF_int, DF_bool, DF_union]\<rparr>)"
    by (simp add: from_df_def initialState_def setAdd_def singleWord_def)
  show ?thesis
    unfolding a b by (simp add: rendered_def synthesized_def multiWord_def)
qed

subsection \<open>The union of null and one other type\<close>

text \<open>
  Claim C2, as the code has it. For a union that is \<open>null\<close> and one other type
  \<open>T\<close>, the annotation is \<open>Optional[\<close>, the annotation of \<open>T\<close>,
  \<open>]\<close>. The deserializer is built as for every union: \<open>from_union\<close> on the
  deserializers of all the members, \<open>null\<close> among them, in the order of the member
  set, and the union function is added to the deserializer functions.
\<close>

theorem nullable_union:
  assumes "nullableFromUnion ms = Some t"
  shows "rendered (pythonType env (TUnion ms) st) =
           map_sum id (\<lambda>r. ''Optional['' @ r @ '']'') (rendered (pythonType env t st))
    \<and> (\<forall>mw st'. deserializerFn env (TUnion ms) st = Inr (mw, st') \<longrightarrow>
          (\<exists>ds. mw = multiWord (Str [])
                   [Str ''lambda x: '', Arr [Str ''from_'', Str ''union''], Str ''(['',
                    Arr (arrayIntercalate (Str '', '') ds), Str ''], x)'']
              \<and> map Inr ds =
                  map (\<lambda>m. map_sum id (\<lambda>(mw, s). source mw) (deserializerFn env m st)) ms)
          \<and> DF_union \<in> set (deserializerFunctions st'))"
proof (intro conjI allI impI)
  have w: "withTyping ''Optional'' st = (Str ''Optional'', snd (withTyping ''Optional'' st))"
    by (simp add: withTyping_def withImport_def)
  have e: "pythonType env (TUnion ms) st =
      (case pythonType env t (snd (withTyping ''Optional'' st)) of
         Inl e \<Rightarrow> Inl e
       | Inr (i, st2) \<Rightarrow> Inr (Arr [Str ''Optional'', Str ''['', i, Str '']''], st2))"
    by (subst pythonType.simps, subst w) (simp add: assms)
  show "rendered (pythonType env (TUnion ms) st) =
           map_sum id (\<lambda>r. ''Optional['' @ r @ '']'') (rendered (pythonType env t st))"
    unfolding e rendered_wrapped by simp
next
  fix mw st' assume r: "deserializerFn env (TUnion ms) st = Inr (mw, st')"
  then obtain ds st2 f where
    d: "deserializerFns env ms st = Inr (ds, st2)"
    and fr: "from_df DF_union st2 = (f, st')"
    and mw: "mw = multiWord (Str [])
              [Str ''lambda x: '', f, Str ''(['',
               Arr (arrayIntercalate (Str '', '') ds), Str ''], x)'']"
    by (auto split: sum.splits prod.splits)
  from fr have f: "f = Arr [Str ''from_'', Str ''union'']"
    by (auto dest: from_df_fst)
  from d have "map Inr ds =
      map (\<lambda>m. map_sum id (\<lambda>(mw, s). source mw) (deserializerFn env m st)) ms"
    by (rule deserializerFns_members)
  with mw f show "\<exists>ds. mw = multiWord (Str [])
                   [Str ''lambda x: '', Arr [Str ''from_'', Str ''union''], Str ''(['',
                    Arr (arrayIntercalate (Str '', '') ds), Str ''], x)'']
              \<and> map Inr ds =
                  map (\<lambda>m. map_sum id (\<lambda>(mw, s). source mw) (deserializerFn env m st)) ms"
    by blast
  from fr show "DF_union \<in> set (deserializerFunctions st')"
    by (auto simp: from_df_def)
qed

theorem nullable_union_witness:
  "nullableFromUnion [TInteger, TNull] = Some TInteger
   \<and> rendered (pythonType exampleEnv (TUnion [TInteger, TNull]) initialState) = Inr ''Optional[int]''
   \<and> synthesized (deserializerFn exampleEnv (TUnion [TInteger, TNull]) initialState) =
       Inr ''lambda x: from_union([from_int, from_none], x)''
   \<and> DF_union \<in> set [DF_int, DF_none, DF_union]"
proof -
  have n: "nullableFromUnion [TInteger, TNull] = Some TInteger"
    by (simp add: nullableFromUnion_def)
  have b: "deserializerFn exampleEnv (TUnion [TInteger, TNull]) initialState =
      Inr (multiWord (Str [])
             [Str ''lambda x: '', Arr [Str ''from_'', Str ''union''], Str ''(['',
              Arr [Arr [Arr [Str ''from_'', Str ''int'']], Str '', '',
                   Arr [Arr [Str ''from_'', Str ''none'']]], Str ''], x)''],
           initialState\<lparr>deserializerFunctions := [DF_int, DF_none, DF_union]\<rparr>)"
    by (simp add: from_df_def initialState_def setAdd_def singleWord_def)
  note th = nullable_union[OF n, of exampleEnv initialState]
  from th have 1: "rendered (pythonType exampleEnv (TUnion [TInteger, TNull]) initialState) =
      map_sum id (\<lambda>r. ''Optional['' @ r @ '']'') (rendered (pythonType exampleEnv TInteger initialState))"
    by (elim conjE)
  from th b have 2: "DF_union \<in> set (deserializerFunctions
      (initialState\<lparr>deserializerFunctions := [DF_int, DF_none, DF_union]\<rparr>))"
    by blast
  from 1 have "rendered (pythonType exampleEnv (TUnion [TInteger, TNull]) initialState) =
      Inr ''Optional[int]''"
    by (simp add: rendered_def)
  with 2 show ?thesis
    unfolding b by (simp add: n synthesized_def multiWord_def)
qed

theorem nullable_union_counterexample:
  "nullableFromUnion [TNull, TString] = Some TString
   \<and> rendered (pythonType exampleEnv (TUnion [TNull, TString]) initialState) = Inr ''Optional[str]''
   \<and> synthesized (deserializerFn exampleEnv (TUnion [TNull, TString]) initialState) =
       Inr ''lambda x: from_union([from_none, from_str], x)''
   \<and> deserializerFunctions
        (snd (projr (deserializerFn exampleEnv (TUnion [TNull, TString]) initialState))) =
       [DF_none, DF_str, DF_union]"
proof -
  have n: "nullableFromUnion [TNull, TString] = Some TString"
    by (simp add: nullableFromUnion_def)
  have a: "pythonType exampleEnv (TUnion [TNull, TString]) initialState =
      Inr (Arr [Str ''Optional'', Str ''['', Str ''str'', Str '']''],
           initialState\<lparr>importMap := [(''typing'', [''Optional''])]\<rparr>)"
    by (simp add: n withTyping_def withImport_def initialState_def)
  have b: "deserializerFn exampleEnv (TUnion [TNull, TString]) initialState =
      Inr (multiWord (Str [])
             [Str ''lambda x: '', Arr [Str ''from_'', Str ''union''], Str ''(['',
              Arr [Arr [Arr [Str ''from_'', Str ''none'']], Str '', '',
                   Arr [Arr [Str ''from_'', Str ''str'']]], Str ''], x)''],
           initialState\<lparr>deserializerFunctions := [DF_none, DF_str, DF_union]\<rparr>)"
    by (simp add: from_df_def initialState_def setAdd_def singleWord_def)
  show ?thesis
    unfolding a b by (simp add: n rendered_def synthesized_def multiWord_def)
qed

section \<open>Properties of the used deserializer functions\<close>

subsection \<open>References in a source\<close>

lemma refOf_from: "refOf [Str ''from_'', Str (dfName df)] = Some df"
  by (cases df) (simp_all add: refOf_def allDeserializerFunctions_def)

lemma refOf_length: "length xs \<noteq> 2 \<Longrightarrow> refOf xs = None"
  by (auto simp: refOf_def split: list.splits sourcelike.splits)

lemma refOf_not_Str: "xs = x # ys \<Longrightarrow> (\<forall>s. x \<noteq> Str s) \<Longrightarrow> refOf xs = None"
  by (auto simp: refOf_def split: list.splits sourcelike.splits)

lemma refOf_not_from: "refOf (Str a # ys) = None" if "a \<noteq> ''from_''"
  using that by (auto simp: refOf_def split: list.splits sourcelike.splits)

lemma fromRefs_from [simp]: "fromRefs (Arr [Str ''from_'', Str (dfName df)]) = {df}"
  by (simp add: refOf_from)

lemma fromRefs_Arr_length: "length xs \<noteq> 2 \<Longrightarrow> fromRefs (Arr xs) = (\<Union>x \<in> set xs. fromRefs x)"
  by (simp add: refOf_length)

lemma length_arrayIntercalate: "length (arrayIntercalate sep xs) = 2 * length xs - 1"
  by (induction sep xs rule: arrayIntercalate.induct) auto

lemma set_arrayIntercalate:
  "set (arrayIntercalate sep xs) = (if length xs < 2 then set xs else insert sep (set xs))"
  by (induction sep xs rule: arrayIntercalate.induct) auto

lemma fromRefs_intercalate:
  "fromRefs (Arr (arrayIntercalate (Str s) xs)) = (\<Union>x \<in> set xs. fromRefs x)"
proof -
  have "length (arrayIntercalate (Str s) xs) \<noteq> 2"
    by (simp add: length_arrayIntercalate) arith
  then have "fromRefs (Arr (arrayIntercalate (Str s) xs)) =
      (\<Union>x \<in> set (arrayIntercalate (Str s) xs). fromRefs x)"
    by (rule fromRefs_Arr_length)
  also have "\<dots> = (\<Union>x \<in> set xs. fromRefs x)"
    by (auto simp: set_arrayIntercalate split: if_splits)
  finally show ?thesis .
qed

lemma fromRefs_singleWord [simp]: "fromRefs (source (singleWord [x])) = fromRefs x"
  by (simp add: singleWord_def refOf_length)

lemma fromRefs_parenIfNeeded [simp]: "fromRefs (parenIfNeeded mw) = fromRefs (source mw)"
  by (simp add: parenIfNeeded_def refOf_length)

lemma fromRefs_multiWord5 [simp]:
  "fromRefs (source (multiWord (Str s) [a, b, c, d, e])) =
     fromRefs a \<union> fromRefs b \<union> fromRefs c \<union> fromRefs d \<union> fromRefs e"
  by (auto simp: multiWord_def refOf_length)

lemma fromRefs_multiWord3 [simp]:
  "fromRefs (source (multiWord (Str s) [a, b, c])) = fromRefs a \<union> fromRefs b \<union> fromRefs c"
  by (auto simp: multiWord_def refOf_length)

subsection \<open>What \<open>deserializerFn\<close> adds to the deserializer functions\<close>

lemma usesOnly_refl [simp]: "usesOnly st {} st"
  by (simp add: usesOnly_def)

lemma usesOnly_trans:
  "usesOnly a r1 b \<Longrightarrow> usesOnly b r2 c \<Longrightarrow> r = r1 \<union> r2 \<Longrightarrow> usesOnly a r c"
  by (auto simp: usesOnly_def)

lemma distinct_setAdd: "distinct xs \<Longrightarrow> distinct (setAdd x xs)"
  by (simp add: setAdd_def)

lemma from_df_uses:
  assumes "from_df df st = (f, st')"
  shows "usesOnly st {df} st'" and "fromRefs f = {df}"
proof -
  from assms have f: "f = Arr [Str ''from_'', Str (dfName df)]"
    and s: "st' = st\<lparr>deserializerFunctions := setAdd df (deserializerFunctions st)\<rparr>"
    by (auto simp: from_df_def)
  from s show "usesOnly st {df} st'"
    by (simp add: usesOnly_def distinct_setAdd)
  from f show "fromRefs f = {df}"
    by (simp only: fromRefs_from)
qed

lemma from_df_uses_refs:
  "from_df df st = (f, st1) \<Longrightarrow> usesOnly st (fromRefs f) st1"
  by (simp add: from_df_uses)

lemma deserializerFn_uses_aux:
  "(\<forall>mw st'. deserializerFn env t st = Inr (mw, st') \<longrightarrow>
      usesOnly st (fromRefs (source mw)) st')"
  "(\<forall>ds st'. deserializerFns env ts st = Inr (ds, st') \<longrightarrow>
      usesOnly st (\<Union>d \<in> set ds. fromRefs d) st')"
proof (induction env t st and env ts st rule: deserializerFn_deserializerFns.induct)
  case (1 env st)
  show ?case by simp
next
  case (2 env st)
  show ?case by (auto split: prod.splits intro: from_df_uses_refs)
next
  case (3 env st)
  show ?case by (auto split: prod.splits intro: from_df_uses_refs)
next
  case (4 env st)
  show ?case by (auto split: prod.splits intro: from_df_uses_refs)
next
  case (5 env st)
  show ?case by (auto split: prod.splits intro: from_df_uses_refs)
next
  case (6 env st)
  show ?case by (auto split: prod.splits intro: from_df_uses_refs)
next
  case (7 env items st)
  obtain f st1 where w: "from_df DF_list st = (f, st1)" by fastforce
  show ?case
  proof (intro allI impI)
    fix mw st' assume r: "deserializerFn env (TArray items) st = Inr (mw, st')"
    from r w obtain d where d: "deserializerFn env items st1 = Inr (d, st')"
      and mw: "mw = multiWord (Str []) [Str ''lambda x: '', f, Str ''('', parenIfNeeded d, Str '', x)'']"
      by (auto split: sum.splits)
    from 7[OF w[symmetric]] d have "usesOnly st1 (fromRefs (source d)) st'" by blast
    with from_df_uses(1)[OF w] have "usesOnly st ({DF_list} \<union> fromRefs (source d)) st'"
      by (rule usesOnly_trans) simp
    moreover have "fromRefs (source mw) = {DF_list} \<union> fromRefs (source d)"
      unfolding mw by (simp add: from_df_uses(2)[OF w])
    ultimately show "usesOnly st (fromRefs (source mw)) st'" by simp
  qed
next
  case (8 env c st)
  show ?case by (simp add: singleWord_def refOf_length)
next
  case (9 env vals st)
  obtain f st1 where w: "from_df DF_dict st = (f, st1)" by fastforce
  show ?case
  proof (intro allI impI)
    fix mw st' assume r: "deserializerFn env (TMap vals) st = Inr (mw, st')"
    from r w obtain d where d: "deserializerFn env vals st1 = Inr (d, st')"
      and mw: "mw = multiWord (Str []) [Str ''lambda x: '', f, Str ''('', parenIfNeeded d, Str '', x)'']"
      by (auto split: sum.splits)
    from 9[OF w[symmetric]] d have "usesOnly st1 (fromRefs (source d)) st'" by blast
    with from_df_uses(1)[OF w] have "usesOnly st ({DF_dict} \<union> fromRefs (source d)) st'"
      by (rule usesOnly_trans) simp
    moreover have "fromRefs (source mw) = {DF_dict} \<union> fromRefs (source d)"
      unfolding mw by (simp add: from_df_uses(2)[OF w])
    ultimately show "usesOnly st (fromRefs (source mw)) st'" by simp
  qed
next
  case (10 env c st)
  show ?case by (simp add: singleWord_def refOf_length)
next
  case (11 env ms st)
  show ?case
  proof (intro allI impI)
    fix mw st' assume r: "deserializerFn env (TUnion ms) st = Inr (mw, st')"
    then obtain ds st1 f where p: "deserializerFns env ms st = Inr (ds, st1)"
      and w: "from_df DF_union st1 = (f, st')"
      and mw: "mw = multiWord (Str []) [Str ''lambda x: '', f, Str ''(['',
                 Arr (arrayIntercalate (Str '', '') ds), Str ''], x)'']"
      by (auto split: sum.splits prod.splits)
    from 11 p have "usesOnly st (\<Union>d \<in> set ds. fromRefs d) st1" by blast
    from this from_df_uses(1)[OF w]
    have "usesOnly st ((\<Union>d \<in> set ds. fromRefs d) \<union> {DF_union}) st'"
      by (rule usesOnly_trans) simp
    moreover have "fromRefs (source mw) = (\<Union>d \<in> set ds. fromRefs d) \<union> {DF_union}"
      unfolding mw
      by (simp del: fromRefs.simps(3) add: from_df_uses(2)[OF w] fromRefs_intercalate Un_commute)
    ultimately show "usesOnly st (fromRefs (source mw)) st'" by simp
  qed
next
  case (12 env k st)
  show ?case by (auto split: prod.splits intro: from_df_uses_refs)
next
  case (13 env st)
  show ?case by simp
next
  case (14 env m ms st)
  show ?case
  proof (intro allI impI)
    fix ds st' assume r: "deserializerFns env (m # ms) st = Inr (ds, st')"
    then obtain d st1 ds' where p1: "deserializerFn env m st = Inr (d, st1)"
      and p2: "deserializerFns env ms st1 = Inr (ds', st')" and ds: "ds = source d # ds'"
      by (auto split: sum.splits prod.splits)
    from 14(1) p1 have "usesOnly st (fromRefs (source d)) st1" by blast
    moreover from 14(2)[OF p1 refl] p2 have "usesOnly st1 (\<Union>d \<in> set ds'. fromRefs d) st'"
      by blast
    ultimately show "usesOnly st (\<Union>d \<in> set ds. fromRefs d) st'"
      by (rule usesOnly_trans) (simp add: ds)
  qed
qed

lemma deserializerFn_uses:
  "deserializerFn env t st = Inr (mw, st') \<Longrightarrow> usesOnly st (fromRefs (source mw)) st'"
  using deserializerFn_uses_aux(1) by blast

section \<open>Properties of the emission of declarations\<close>

subsection \<open>Loops and blocks\<close>

text \<open>
  A relation between the state before and the state after that holds for every step of
  a loop or a block holds for the whole, when it is reflexive and transitive.
\<close>

lemma forEach_rel:
  assumes Rrefl: "\<And>s. R s s"
    and Rtrans: "\<And>a b c. R a b \<Longrightarrow> R b c \<Longrightarrow> R a c"
    and step: "\<And>x s s'. x \<in> set xs \<Longrightarrow> f x s = Inr s' \<Longrightarrow> R s s'"
    and run: "forEach f xs st = Inr st'"
  shows "R st st'"
  using step run
proof (induction xs arbitrary: st)
  case Nil
  then show ?case by (simp add: Rrefl)
next
  case (Cons x xs)
  from Cons.prems(2) obtain s1 where 1: "f x st = Inr s1" and 2: "forEach f xs s1 = Inr st'"
    by (auto split: sum.splits)
  from 1 have "R st s1" by (rule Cons.prems(1)[rotated]) simp
  moreover have "R s1 st'"
    by (rule Cons.IH[OF _ 2]) (rule Cons.prems(1), auto)
  ultimately show ?case by (rule Rtrans)
qed

lemma forEach_member:
  assumes Rrefl: "\<And>s. R s s"
    and Rtrans: "\<And>a b c. R a b \<Longrightarrow> R b c \<Longrightarrow> R a c"
    and step: "\<And>x s s'. x \<in> set xs \<Longrightarrow> f x s = Inr s' \<Longrightarrow> R s s'"
    and run: "forEach f xs st = Inr st'"
    and mem: "y \<in> set xs"
  shows "\<exists>s1 s2. R st s1 \<and> f y s1 = Inr s2 \<and> R s2 st'"
  using step run mem
proof (induction xs arbitrary: st)
  case Nil
  then show ?case by simp
next
  case (Cons x xs)
  from Cons.prems(2) obtain s1 where 1: "f x st = Inr s1" and 2: "forEach f xs s1 = Inr st'"
    by (auto split: sum.splits)
  have st: "\<And>z s s'. z \<in> set xs \<Longrightarrow> f z s = Inr s' \<Longrightarrow> R s s'"
    by (rule Cons.prems(1)) auto
  from 1 have r1: "R st s1" by (rule Cons.prems(1)[rotated]) simp
  show ?case
  proof (cases "y = x")
    case True
    have "R s1 st'" using Rrefl Rtrans st 2 by (rule forEach_rel)
    with 1 True Rrefl show ?thesis by blast
  next
    case False
    with Cons.prems(3) have "y \<in> set xs" by simp
    then have "\<exists>s2 s3. R s1 s2 \<and> f y s2 = Inr s3 \<and> R s3 st'"
      by (intro Cons.IH st 2)
    then obtain s2 s3 where "R s1 s2" "f y s2 = Inr s3" "R s3 st'"
      by blast
    with r1 Rtrans show ?thesis by blast
  qed
qed



lemma forEachInterposing_rel:
  assumes Rrefl: "\<And>s. R s s"
    and Rtrans: "\<And>a b c. R a b \<Longrightarrow> R b c \<Longrightarrow> R a c"
    and blank: "\<And>s. R s (ensureBlankLine s)"
    and step: "\<And>x s s'. x \<in> set xs \<Longrightarrow> f x s = Inr s' \<Longrightarrow> R s s'"
    and run: "forEachInterposing f xs st = Inr st'"
  shows "R st st'"
  using step run
proof (induction f xs st rule: forEachInterposing.induct)
  case (1 f st)
  then show ?case by (simp add: Rrefl)
next
  case (2 f x st)
  then show ?case by simp
next
  case (3 f x y ys st)
  from "3.prems"(2) obtain s1 where 1: "f x st = Inr s1"
    and 2: "forEachInterposing f (y # ys) (ensureBlankLine s1) = Inr st'"
    by (auto split: sum.splits)
  from 1 have "R st s1" by (rule "3.prems"(1)[rotated]) simp
  moreover have "R s1 (ensureBlankLine s1)" by (rule blank)
  moreover have "R (ensureBlankLine s1) st'"
    by (rule "3.IH"[OF 1 _ 2]) (rule "3.prems"(1), auto)
  ultimately show ?case by (blast intro: Rtrans)
qed



lemma indent_rel:
  assumes Rtrans: "\<And>a b c. R a b \<Longrightarrow> R b c \<Longrightarrow> R a c"
    and ind: "\<And>s n. R s (s\<lparr>indentation := n\<rparr>)"
    and body: "\<And>s s'. f s = Inr s' \<Longrightarrow> R s s'"
    and run: "indent f st = Inr st'"
  shows "R st st'"
proof -
  from run obtain s1 where 1: "f (st\<lparr>indentation := Suc (indentation st)\<rparr>) = Inr s1"
    and 2: "st' = s1\<lparr>indentation := indentation st\<rparr>"
    by (auto simp: indent_def split: sum.splits)
  have "R st (st\<lparr>indentation := Suc (indentation st)\<rparr>)" by (rule ind)
  moreover from 1 have "R (st\<lparr>indentation := Suc (indentation st)\<rparr>) s1" by (rule body)
  moreover have "R s1 st'" unfolding 2 by (rule ind)
  ultimately show ?thesis by (blast intro: Rtrans)
qed

lemma indent_indentation: "indent f st = Inr st' \<Longrightarrow> indentation st' = indentation st"
  by (auto simp: indent_def split: sum.splits)

subsection \<open>The annotations refer to no deserializer function\<close>

lemma fromRefs_namedType [simp]: "fromRefs (namedType env t st) = {}"
  by (simp add: namedType_def Let_def refOf_length)

lemma pythonType_norefs_aux:
  "(\<forall>a st'. pythonType env t st = Inr (a, st') \<longrightarrow> fromRefs a = {})"
  "(\<forall>as st'. pythonTypes env ts st = Inr (as, st') \<longrightarrow> (\<forall>a \<in> set as. fromRefs a = {}))"
proof (induction env t st and env ts st rule: pythonType_pythonTypes.induct)
  case (1 env st)
  show ?case by (auto dest: withTyping_fst)
next
  case (7 env items st)
  obtain l st1 where w: "withTyping ''List'' st = (l, st1)" by fastforce
  from w have "l = Str ''List''" by (rule withTyping_fst)
  with 7[OF w[symmetric]] w show ?case
    by (auto split: sum.splits simp: refOf_length)
next
  case (9 env vals st)
  obtain l st1 where w: "withTyping ''Dict'' st = (l, st1)" by fastforce
  from w have "l = Str ''Dict''" by (rule withTyping_fst)
  with 9[OF w[symmetric]] w show ?case
    by (auto split: sum.splits simp: refOf_length)
next
  case (11 env ms st)
  show ?case
  proof (intro allI impI)
    fix a st' assume r: "pythonType env (TUnion ms) st = Inr (a, st')"
    show "fromRefs a = {}"
    proof (cases "nullableFromUnion ms")
      case None
      from r None obtain as st1 u where p: "pythonTypes env (sortedMembers env ms) st = Inr (as, st1)"
        and w: "withTyping ''Union'' st1 = (u, st')"
        and a: "a = Arr [u, Str ''['', Arr (arrayIntercalate (Str '', '') as), Str '']'']"
        by (auto split: sum.splits prod.splits)
      from 11(1)[OF None] p have "\<forall>a \<in> set as. fromRefs a = {}" by blast
      then have "fromRefs (Arr (arrayIntercalate (Str '', '') as)) = {}"
        by (simp only: fromRefs_intercalate) simp
      moreover from w have "u = Str ''Union''" by (rule withTyping_fst)
      ultimately show ?thesis
        unfolding a by (simp del: fromRefs.simps(3) add: fromRefs_Arr_length)
    next
      case (Some t)
      obtain l st1 where w: "withTyping ''Optional'' st = (l, st1)" by fastforce
      from w have l: "l = Str ''Optional''" by (rule withTyping_fst)
      from r Some w obtain n where n: "pythonType env t st1 = Inr (n, st')"
        and a: "a = Arr [l, Str ''['', n, Str '']'']"
        by (auto split: sum.splits)
      from 11(2)[OF Some w[symmetric]] n have "fromRefs n = {}" by blast
      then show ?thesis unfolding a l by (simp add: refOf_length)
    qed
  qed
next
  case (12 env k st)
  show ?case by (auto simp: withImport_def)
next
  case (14 env m ms st)
  show ?case
  proof (intro allI impI)
    fix as st' assume r: "pythonTypes env (m # ms) st = Inr (as, st')"
    then obtain a st1 as' where p1: "pythonType env m st = Inr (a, st1)"
      and p2: "pythonTypes env ms st1 = Inr (as', st')" and as: "as = a # as'"
      by (auto split: sum.splits prod.splits)
    from 14(1) p1 have "fromRefs a = {}" by blast
    moreover from 14(2)[OF p1 refl] p2 have "\<forall>a \<in> set as'. fromRefs a = {}" by blast
    ultimately show "\<forall>a \<in> set as. fromRefs a = {}" by (simp add: as)
  qed
qed auto

lemma pythonType_norefs: "pythonType env t st = Inr (a, st') \<Longrightarrow> fromRefs a = {}"
  using pythonType_norefs_aux(1) by blast

subsection \<open>The emission of a declaration, step by step\<close>

text \<open>
  The lemmas of this subsection carry a relation \<open>R\<close> between states through the
  emission of a declaration. \<open>R\<close> is reflexive and transitive, holds when the
  imports alone change, when a line without references is emitted, when a blank line is
  ensured and when the indentation changes; what it says of the line that deserializes
  a property is an assumption of its own.
\<close>

lemma fold_rel:
  assumes Rrefl: "\<And>s. R s s"
    and Rtrans: "\<And>a b c. R a b \<Longrightarrow> R b c \<Longrightarrow> R a c"
    and step: "\<And>x s. x \<in> set xs \<Longrightarrow> R s (g x s)"
  shows "R st (fold g xs st)"
  using step
proof (induction xs arbitrary: st)
  case Nil
  show ?case by (simp add: Rrefl)
next
  case (Cons x xs)
  have "R st (g x st)" by (rule Cons.prems) simp
  moreover have "R (g x st) (fold g xs (g x st))"
    by (rule Cons.IH) (rule Cons.prems, simp)
  ultimately show ?case by (simp add: Rtrans)
qed

lemma emitCommentLines_rel:
  assumes Rrefl: "\<And>s. R s s"
    and Rtrans: "\<And>a b c. R a b \<Longrightarrow> R b c \<Longrightarrow> R a c"
    and line: "\<And>s parts. fromRefs (Arr parts) = {} \<Longrightarrow> R s (emitLine parts s)"
    and starts: "lineStart \<noteq> Some ''from_''" "firstLineStart \<noteq> Some ''from_''"
  shows "R st (emitCommentLines ls lineStart beforeLine afterLine firstLineStart st)"
proof -
  define start where "start = (case lineStart of None \<Rightarrow> commentLineStart | Some s \<Rightarrow> s)"
  define firstStart where "firstStart = (case firstLineStart of None \<Rightarrow> start | Some s \<Rightarrow> s)"
  define st1 where "st1 = (case beforeLine of None \<Rightarrow> st | Some b \<Rightarrow> emitLine [Str b] st)"
  define st2 where "st2 = (case ls of [] \<Rightarrow> st1
      | l # rest \<Rightarrow> fold (\<lambda>l. emitLine [Str start, Str l]) rest
                       (emitLine [Str firstStart, Str l] st1))"
  have s: "start \<noteq> ''from_''"
    using starts(1) by (auto simp: start_def commentLineStart_def split: option.splits)
  have fs: "firstStart \<noteq> ''from_''"
    using starts(2) s by (auto simp: firstStart_def split: option.splits)
  have one: "R x (emitLine [Str b] x)" for x b
    by (rule line) (simp add: refOf_length)
  have two: "R x (emitLine [Str a, Str l] x)" if "a \<noteq> ''from_''" for x a l
    by (rule line) (simp add: refOf_not_from[OF that])
  have 1: "R st st1"
    unfolding st1_def by (cases beforeLine) (simp_all add: Rrefl one)
  have 2: "R st1 st2"
  proof (cases ls)
    case Nil
    then show ?thesis by (simp add: st2_def Rrefl)
  next
    case (Cons l rest)
    have "R st1 (emitLine [Str firstStart, Str l] st1)" using fs by (rule two)
    moreover have "R (emitLine [Str firstStart, Str l] st1)
        (fold (\<lambda>l. emitLine [Str start, Str l]) rest (emitLine [Str firstStart, Str l] st1))"
    proof (rule fold_rel[where R=R])
      show "R x x" for x by (rule Rrefl)
      show "R a c" if "R a b" "R b c" for a b c using that by (rule Rtrans)
      show "R x (emitLine [Str start, Str l] x)" for x l by (rule two[OF s])
    qed
    ultimately show ?thesis unfolding st2_def Cons by (simp add: Rtrans)
  qed
  have 3: "R st2 (case afterLine of None \<Rightarrow> st2 | Some a \<Rightarrow> emitLine [Str a] st2)"
    by (cases afterLine) (simp_all add: Rrefl one)
  have "emitCommentLines ls lineStart beforeLine afterLine firstLineStart st =
      (case afterLine of None \<Rightarrow> st2 | Some a \<Rightarrow> emitLine [Str a] st2)"
    unfolding st2_def st1_def firstStart_def start_def emitCommentLines_def Let_def ..
  with 1 2 3 show ?thesis by (metis Rtrans)
qed

lemma emitDescription_rel:
  assumes Rrefl: "\<And>s. R s s"
    and Rtrans: "\<And>a b c. R a b \<Longrightarrow> R b c \<Longrightarrow> R a c"
    and line: "\<And>s parts. fromRefs (Arr parts) = {} \<Longrightarrow> R s (emitLine parts s)"
  shows "R st (emitDescription d st)"
proof (cases d)
  case None
  then show ?thesis by (simp add: emitDescription_def Rrefl)
next
  case (Some ls)
  show ?thesis
  proof (cases "length ls = 1")
    case True
    then show ?thesis
      unfolding emitDescription_def Some emitDescriptionBlock_def
      by (simp add: line refOf_length)
  next
    case False
    then show ?thesis
      unfolding emitDescription_def Some emitDescriptionBlock_def
      using emitCommentLines_rel[of R, OF Rrefl Rtrans line]
      by simp
  qed
qed

lemma stepRelationD:
  assumes "stepRelation R"
  shows "R s s"
    and "R a b \<Longrightarrow> R b c \<Longrightarrow> R a c"
    and "importsOnly s s' \<Longrightarrow> R s s'"
    and "fromRefs (Arr parts) = {} \<Longrightarrow> R s (emitLine parts s)"
    and "R s (ensureBlankLine s)"
    and "R s (s\<lparr>indentation := n\<rparr>)"
  using assms unfolding stepRelation_def by blast+

lemma emitDescription_step:
  assumes R: "stepRelation R"
  shows "R st (emitDescription d st)"
proof (rule emitDescription_rel[where R=R])
  show "R s s" for s by (rule stepRelationD(1)[OF R])
  show "R a c" if "R a b" "R b c" for a b c using that by (rule stepRelationD(2)[OF R])
  show "R s (emitLine parts s)" if "fromRefs (Arr parts) = {}" for s parts
    using that by (rule stepRelationD(4)[OF R])
qed

lemma declarationLine_effect:
  assumes "declarationLine env t st = Inr (l, st')"
  shows "importsOnly st st'" and "fromRefs l = {}"
proof -
  show "importsOnly st st'"
    using assms
    by (cases t) (auto simp: declarationLine_def split: prod.splits dest: withImport_importsOnly)
  show "fromRefs l = {}"
    using assms
    by (cases t) (auto simp: declarationLine_def withImport_def refOf_length split: prod.splits)
qed

lemma emitBlock_rel:
  assumes R: "stepRelation R"
    and l: "fromRefs line = {}"
    and body: "\<And>s s'. f s = Inr s' \<Longrightarrow> R s s'"
    and run: "emitBlock line f st = Inr st'"
  shows "R st st'"
proof -
  have "fromRefs (Arr [line]) = {}" using l by (simp add: refOf_length)
  then have "R st (emitLine [line] st)" by (rule stepRelationD(4)[OF R])
  moreover have "R (emitLine [line] st) st'"
  proof (rule indent_rel[where R=R and f=f])
    show "R a c" if "R a b" "R b c" for a b c using that by (rule stepRelationD(2)[OF R])
    show "R s (s\<lparr>indentation := n\<rparr>)" for s n by (rule stepRelationD(6)[OF R])
    show "R s s'" if "f s = Inr s'" for s s' using that by (rule body)
    show "indent f (emitLine [line] st) = Inr st'" using run by (simp add: emitBlock_def)
  qed
  ultimately show ?thesis by (rule stepRelationD(2)[OF R])
qed

lemma declareType_rel:
  assumes R: "stepRelation R"
    and body: "\<And>s s'. emitter s = Inr s' \<Longrightarrow> R s s'"
    and run: "declareType env t emitter st = Inr st'"
  shows "\<exists>st3. R st st3 \<and> st' = st3\<lparr>declaredTypes := insert t (declaredTypes st3)\<rparr>"
proof -
  define st1 where "st1 = emitDescription (descriptionForType env t) st"
  from run obtain line st2 st3 where d: "declarationLine env t st1 = Inr (line, st2)"
    and b: "emitBlock line emitter st2 = Inr st3"
    and s: "st' = st3\<lparr>declaredTypes := insert t (declaredTypes st3)\<rparr>"
    by (auto simp: declareType_def Let_def st1_def split: sum.splits prod.splits)
  have "R st st1"
    unfolding st1_def using R by (rule emitDescription_step)
  moreover have "R st1 st2"
    using declarationLine_effect(1)[OF d] by (rule stepRelationD(3)[OF R])
  moreover have "R st2 st3"
    using R declarationLine_effect(2)[OF d] body b by (rule emitBlock_rel)
  ultimately have "R st st3" by (blast intro: stepRelationD(2)[OF R])
  with s show ?thesis by blast
qed

lemma emitClassMembers_rel:
  assumes R: "stepRelation R"
    and des: "deserializerLines R env c"
    and run: "emitClassMembers env c st = Inr st'"
  shows "R st st'"
proof (rule emitBlock_rel[OF R _ _ run[unfolded emitClassMembers_def]])
  show "fromRefs (Str ''def __init__(self, obj):'') = {}" by simp
next
  fix s s'
  let ?s0 = "emitLine [Str ''assert isinstance(obj, dict)''] s"
  assume f: "forEach (emitPropertyDeserializer env) (classProperties env c) ?s0 = Inr s'"
  have "R s ?s0"
    by (rule stepRelationD(4)[OF R]) (simp add: refOf_length)
  moreover have "R ?s0 s'"
  proof (rule forEach_rel[where R=R, OF _ _ _ f])
    show "R x x" for x by (rule stepRelationD(1)[OF R])
    show "R a c" if "R a b" "R b c" for a b c using that by (rule stepRelationD(2)[OF R])
    show "R s1 s2" if "x \<in> set (classProperties env c)"
      "emitPropertyDeserializer env x s1 = Inr s2" for x s1 s2
      using des that unfolding deserializerLines_def by blast
  qed
  ultimately show "R s s'" by (rule stepRelationD(2)[OF R])
qed

lemma annotationLine_rel:
  assumes R: "stepRelation R"
    and p: "pythonType env t st1 = Inr (a, st2)"
  shows "R st1 (emitLine [Nm n, Str '': '', a] st2)"
proof -
  have "R st1 st2"
    using pythonType_importsOnly[OF p] by (rule stepRelationD(3)[OF R])
  moreover have "R st2 (emitLine [Nm n, Str '': '', a] st2)"
    by (rule stepRelationD(4)[OF R]) (simp add: refOf_length pythonType_norefs[OF p])
  ultimately show ?thesis by (rule stepRelationD(2)[OF R])
qed

lemma emitClassProperty_rel:
  assumes R: "stepRelation R"
    and run: "emitClassProperty env c x s = Inr s'"
  shows "R s s'"
proof -
  obtain n j t where x: "x = (n, j, t)" by (cases x)
  define s1 where "s1 = emitDescription (descriptionForClassProperty env c j) s"
  from run x obtain a s2 where p: "pythonType env t s1 = Inr (a, s2)"
    and s': "s' = emitLine [Nm n, Str '': '', a] s2"
    by (auto simp: Let_def s1_def split: sum.splits)
  have "R s s1"
    unfolding s1_def using R by (rule emitDescription_step)
  moreover have "R s1 s'"
    unfolding s' using R p by (rule annotationLine_rel)
  ultimately show ?thesis by (rule stepRelationD(2)[OF R])
qed

lemma emitClass_rel:
  assumes R: "stepRelation R"
    and des: "deserializerLines R env c"
    and run: "emitClass env c st = Inr st'"
  shows "\<exists>st3. R st st3 \<and> st' = st3\<lparr>declaredTypes := insert (TClass c) (declaredTypes st3)\<rparr>"
proof (rule declareType_rel[OF R _ run[unfolded emitClass_def]])
  fix s s'
  assume b: "(if classProperties env c = [] then Inr (emitLine [Str ''pass''] s)
     else case forEach (emitClassProperty env c) (classProperties env c) s of
          Inl e \<Rightarrow> Inl e
          | Inr st1 \<Rightarrow> emitClassMembers env c (ensureBlankLine st1)) = Inr s'"
  show "R s s'"
  proof (cases "classProperties env c = []")
    case True
    with b have "s' = emitLine [Str ''pass''] s" by simp
    then show ?thesis
      by (simp add: stepRelationD(4)[OF R] refOf_length)
  next
    case False
    with b obtain s1 where
      f: "forEach (emitClassProperty env c) (classProperties env c) s = Inr s1"
      and m: "emitClassMembers env c (ensureBlankLine s1) = Inr s'"
      by (auto split: sum.splits)
    have "R s s1"
    proof (rule forEach_rel[where R=R, OF _ _ _ f])
      show "R x x" for x by (rule stepRelationD(1)[OF R])
      show "R a c" if "R a b" "R b c" for a b c using that by (rule stepRelationD(2)[OF R])
      show "R u u'" if "emitClassProperty env c x u = Inr u'" for x u u'
        using R that by (rule emitClassProperty_rel)
    qed
    moreover have "R s1 (ensureBlankLine s1)" by (rule stepRelationD(5)[OF R])
    moreover have "R (ensureBlankLine s1) s'" using R des m by (rule emitClassMembers_rel)
    ultimately show ?thesis by (blast intro: stepRelationD(2)[OF R])
  qed
qed

lemma emitEnum_rel:
  assumes R: "stepRelation R"
    and run: "emitEnum env c st = Inr st'"
  shows "\<exists>st3. R st st3 \<and> st' = st3\<lparr>declaredTypes := insert (TEnum c) (declaredTypes st3)\<rparr>"
proof (rule declareType_rel[OF R _ run[unfolded emitEnum_def]])
  fix s s'
  assume f: "forEach (emitEnumCase env) (enumCases env c) s = Inr s'"
  show "R s s'"
  proof (rule forEach_rel[where R=R, OF _ _ _ f])
    show "R x x" for x by (rule stepRelationD(1)[OF R])
    show "R a c" if "R a b" "R b c" for a b c using that by (rule stepRelationD(2)[OF R])
  next
    fix x u u'
    assume "emitEnumCase env x u = Inr u'"
    then show "R u u'"
      by (cases x) (auto simp: stepRelationD(4)[OF R] refOf_length)
  qed
qed

lemma emitDeclaration_rel:
  assumes R: "stepRelation R"
    and des: "\<And>c. Define (TClass c) = decl \<Longrightarrow> deserializerLines R env c"
    and decl: "\<And>s t. R s (s\<lparr>declaredTypes := insert t (declaredTypes s)\<rparr>)"
    and run: "emitDeclaration env decl st = Inr st'"
  shows "R st st'"
proof (cases decl)
  case (Forward t)
  with run show ?thesis by (simp add: emitDeclaration_def stepRelationD(1)[OF R])
next
  case (Define t)
  show ?thesis
  proof (cases t)
    case (TClass c)
    with Define run have "emitClass env c st = Inr st'" by (simp add: emitDeclaration_def)
    from emitClass_rel[OF R des this] Define TClass obtain st3 where
      "R st st3" "st' = st3\<lparr>declaredTypes := insert (TClass c) (declaredTypes st3)\<rparr>"
      by blast
    with decl[of st3 "TClass c"] show ?thesis by (blast intro: stepRelationD(2)[OF R])
  next
    case (TEnum c)
    with Define run have "emitEnum env c st = Inr st'" by (simp add: emitDeclaration_def)
    from emitEnum_rel[OF R this] obtain st3 where
      "R st st3" "st' = st3\<lparr>declaredTypes := insert (TEnum c) (declaredTypes st3)\<rparr>"
      by blast
    with decl[of st3 "TEnum c"] show ?thesis by (blast intro: stepRelationD(2)[OF R])
  next
    case (TUnion ms)
    with Define run show ?thesis by (simp add: emitDeclaration_def stepRelationD(1)[OF R])
  qed (use Define run in \<open>simp_all add: emitDeclaration_def\<close>)
qed

section \<open>Properties of the support code in the artifact\<close>

subsection \<open>The used deserializer functions are those that the declarations refer to\<close>

lemma linesRefs_append [simp]: "linesRefs (xs @ ys) = linesRefs xs \<union> linesRefs ys"
  by (auto simp: linesRefs_def)

lemma linesRefs_Nil [simp]: "linesRefs [] = {}"
  by (simp add: linesRefs_def)

lemma linesRefs_single [simp]: "linesRefs [l] = lineRefs l"
  by (simp add: linesRefs_def)







subsection \<open>The indentation after a declaration\<close>

lemma emitLine_indentation [simp]: "indentation (emitLine parts s) = indentation s"
  by (simp add: emitLine_def)

lemma ensureBlankLine_indentation [simp]: "indentation (ensureBlankLine s) = indentation s"
  by (simp add: ensureBlankLine_def)

lemma emitDescription_indentation [simp]: "indentation (emitDescription d s) = indentation s"
  by (rule emitDescription_rel[where R="\<lambda>s s'. indentation s' = indentation s"]) simp_all

lemma importsOnly_indentation: "importsOnly s s' \<Longrightarrow> indentation s' = indentation s"
  by (simp add: importsOnly_def)

lemma declareType_indentation:
  assumes "declareType env t emitter st = Inr st'"
  shows "indentation st' = indentation st"
proof -
  define st1 where "st1 = emitDescription (descriptionForType env t) st"
  from assms obtain line st2 st3 where d: "declarationLine env t st1 = Inr (line, st2)"
    and b: "indent emitter (emitLine [line] st2) = Inr st3"
    and s: "st' = st3\<lparr>declaredTypes := insert t (declaredTypes st3)\<rparr>"
    by (auto simp: declareType_def Let_def st1_def emitBlock_def split: sum.splits prod.splits)
  have "indentation st3 = indentation st2"
    using indent_indentation[OF b] by simp
  moreover have "indentation st2 = indentation st1"
    using declarationLine_effect(1)[OF d] by (rule importsOnly_indentation)
  ultimately show ?thesis by (simp add: s st1_def)
qed

lemma emitDeclaration_indentation:
  assumes "emitDeclaration env decl st = Inr st'"
  shows "indentation st' = indentation st"
proof (cases decl)
  case (Forward t)
  with assms show ?thesis by (simp add: emitDeclaration_def)
next
  case (Define t)
  with assms show ?thesis
    by (cases t)
       (auto simp: emitDeclaration_def emitClass_def emitEnum_def dest: declareType_indentation)
qed

lemma emitDeclarations_indentation:
  assumes "forEachInterposing (emitDeclaration env) ds st = Inr st'"
  shows "indentation st' = indentation st"
  by (rule forEachInterposing_rel[where R="\<lambda>s s'. indentation s' = indentation s", OF _ _ _ _ assms])
     (auto dest: emitDeclaration_indentation)

subsection \<open>What \<open>emitSupportCode\<close> emits\<close>

lemma emitMultiline_eq:
  "emitMultiline ls st =
     st\<lparr>emitted := emitted st @ map (\<lambda>l. Line (indentation st) (Arr [Str l])) ls\<rparr>"
  unfolding emitMultiline_def
  by (induction ls arbitrary: st) (simp_all add: emitLine_def)

lemma deserializerFunctionCodes_nonempty: "deserializerFunctionCodes df \<noteq> []"
  by (cases df) simp_all

lemma emitSupportBlock_eq:
  "ensureBlankLine (emitMultiline (deserializerFunctionCodes df) st) =
     st\<lparr>emitted := emitted st @ supportBlock (indentation st) df\<rparr>"
proof -
  obtain l ls where c: "deserializerFunctionCodes df = ls @ [l]"
    using deserializerFunctionCodes_nonempty[of df] by (metis rev_exhaust)
  show ?thesis
    by (simp add: emitMultiline_eq ensureBlankLine_def supportBlock_def c)
qed

lemma fold_supportBlock:
  "fold (\<lambda>df st. ensureBlankLine (emitMultiline (deserializerFunctionCodes df) st)) dfs st =
     st\<lparr>emitted := emitted st @ concat (map (supportBlock (indentation st)) dfs)\<rparr>"
  by (induction dfs arbitrary: st) (simp_all add: emitSupportBlock_eq)

lemma emitSupportCode_eq:
  "emitSupportCode st =
     st\<lparr>emitted := emitted st @
            concat (map (supportBlock (indentation st)) (deserializerFunctions st))\<rparr>"
  by (simp add: emitSupportCode_def fold_supportBlock)

lemma gather_emitSupportCode:
  "gatherSource (\<lambda>s. Inr (emitSupportCode s)) st =
     Inr (concat (map (supportBlock (indentation st)) (deserializerFunctions st)), st)"
  by (simp add: gatherSource_def emitSupportCode_eq)

subsection \<open>The lines before the support code\<close>









subsection \<open>The support code in the artifact\<close>


subsection \<open>The two example graphs, run\<close>











section \<open>Properties of the deserializer of \<open>any\<close>\<close>

lemma stepRelation_sameUsed: "stepRelation sameUsed"
  unfolding stepRelation_def sameUsed_def
  by (auto simp: importsOnly_def emitLine_def ensureBlankLine_def)

subsection \<open>The deserializer functions that a type and a run use\<close>

lemma deserializerFn_refs_aux:
  "(\<forall>mw st'. deserializerFn env t st = Inr (mw, st') \<longrightarrow>
      fromRefs (source mw) = usedFunctions t)"
  "(\<forall>ds st'. deserializerFns env ts st = Inr (ds, st') \<longrightarrow>
      (\<Union>d \<in> set ds. fromRefs d) = (\<Union>m \<in> set ts. usedFunctions m))"
proof (induction env t st and env ts st rule: deserializerFn_deserializerFns.induct)
  case (1 env st)
  show ?case by simp
next
  case (2 env st)
  show ?case by (auto split: prod.splits dest: from_df_uses(2))
next
  case (3 env st)
  show ?case by (auto split: prod.splits dest: from_df_uses(2))
next
  case (4 env st)
  show ?case by (auto split: prod.splits dest: from_df_uses(2))
next
  case (5 env st)
  show ?case by (auto split: prod.splits dest: from_df_uses(2))
next
  case (6 env st)
  show ?case by (auto split: prod.splits dest: from_df_uses(2))
next
  case (7 env items st)
  obtain f st1 where w: "from_df DF_list st = (f, st1)" by fastforce
  show ?case
  proof (intro allI impI)
    fix mw st' assume r: "deserializerFn env (TArray items) st = Inr (mw, st')"
    from r w obtain d where d: "deserializerFn env items st1 = Inr (d, st')"
      and mw: "mw = multiWord (Str []) [Str ''lambda x: '', f, Str ''('', parenIfNeeded d, Str '', x)'']"
      by (auto split: sum.splits)
    from 7[OF w[symmetric]] d have "fromRefs (source d) = usedFunctions items" by blast
    moreover have "fromRefs (source mw) = {DF_list} \<union> fromRefs (source d)"
      unfolding mw by (simp add: from_df_uses(2)[OF w])
    ultimately show "fromRefs (source mw) = usedFunctions (TArray items)" by simp
  qed
next
  case (8 env c st)
  show ?case by (simp add: singleWord_def refOf_length)
next
  case (9 env vals st)
  obtain f st1 where w: "from_df DF_dict st = (f, st1)" by fastforce
  show ?case
  proof (intro allI impI)
    fix mw st' assume r: "deserializerFn env (TMap vals) st = Inr (mw, st')"
    from r w obtain d where d: "deserializerFn env vals st1 = Inr (d, st')"
      and mw: "mw = multiWord (Str []) [Str ''lambda x: '', f, Str ''('', parenIfNeeded d, Str '', x)'']"
      by (auto split: sum.splits)
    from 9[OF w[symmetric]] d have "fromRefs (source d) = usedFunctions vals" by blast
    moreover have "fromRefs (source mw) = {DF_dict} \<union> fromRefs (source d)"
      unfolding mw by (simp add: from_df_uses(2)[OF w])
    ultimately show "fromRefs (source mw) = usedFunctions (TMap vals)" by simp
  qed
next
  case (10 env c st)
  show ?case by (simp add: singleWord_def refOf_length)
next
  case (11 env ms st)
  show ?case
  proof (intro allI impI)
    fix mw st' assume r: "deserializerFn env (TUnion ms) st = Inr (mw, st')"
    then obtain ds st1 f where p: "deserializerFns env ms st = Inr (ds, st1)"
      and w: "from_df DF_union st1 = (f, st')"
      and mw: "mw = multiWord (Str []) [Str ''lambda x: '', f, Str ''(['',
                 Arr (arrayIntercalate (Str '', '') ds), Str ''], x)'']"
      by (auto split: sum.splits prod.splits)
    from 11 p have "(\<Union>d \<in> set ds. fromRefs d) = (\<Union>m \<in> set ms. usedFunctions m)" by blast
    moreover have "fromRefs (source mw) = (\<Union>d \<in> set ds. fromRefs d) \<union> {DF_union}"
      unfolding mw
      by (simp del: fromRefs.simps(3) add: from_df_uses(2)[OF w] fromRefs_intercalate Un_commute)
    ultimately show "fromRefs (source mw) = usedFunctions (TUnion ms)" by simp
  qed
next
  case (12 env k st)
  show ?case by (auto split: prod.splits dest: from_df_uses(2))
next
  case (13 env st)
  show ?case by simp
next
  case (14 env m ms st)
  show ?case
  proof (intro allI impI)
    fix ds st' assume r: "deserializerFns env (m # ms) st = Inr (ds, st')"
    then obtain d st1 ds' where p1: "deserializerFn env m st = Inr (d, st1)"
      and p2: "deserializerFns env ms st1 = Inr (ds', st')" and ds: "ds = source d # ds'"
      by (auto split: sum.splits prod.splits)
    from 14(1) p1 have "fromRefs (source d) = usedFunctions m" by blast
    moreover from 14(2)[OF p1 refl] p2
    have "(\<Union>d \<in> set ds'. fromRefs d) = (\<Union>m \<in> set ms. usedFunctions m)"
      by blast
    ultimately show "(\<Union>d \<in> set ds. fromRefs d) = (\<Union>m \<in> set (m # ms). usedFunctions m)"
      by (simp add: ds)
  qed
qed

lemma deserializerFn_used:
  assumes "deserializerFn env t st = Inr (mw, st')"
  shows "set (deserializerFunctions st') = set (deserializerFunctions st) \<union> usedFunctions t"
proof -
  from deserializerFn_uses[OF assms]
  have "set (deserializerFunctions st') = set (deserializerFunctions st) \<union> fromRefs (source mw)"
    by (simp add: usesOnly_def)
  moreover from deserializerFn_refs_aux(1) assms have "fromRefs (source mw) = usedFunctions t"
    by blast
  ultimately show ?thesis by simp
qed

lemma usedFunctions_empty: "usedFunctions t = {} \<longleftrightarrow> needsNoFunction t"
  by (cases t) simp_all

lemma usedFunctions_onlyAny: "onlyAny t \<Longrightarrow> usedFunctions t \<subseteq> {DF_list, DF_dict, DF_union}"
  by (induction t) auto

lemma emitPropertyDeserializer_used:
  assumes "emitPropertyDeserializer env x s = Inr s'"
  shows "set (deserializerFunctions s') =
         set (deserializerFunctions s) \<union> usedFunctions (snd (snd x))"
proof -
  obtain n j t where x: "x = (n, j, t)" by (cases x)
  from assms x obtain mw s1 d where d: "deserializerFn env t s = Inr (mw, s1)"
    and s': "s' = emitLine [Str ''self.'', Nm n, Str '' = '', d] s1"
    by (auto simp: Let_def deserializer_def split: sum.splits)
  from deserializerFn_used[OF d] show ?thesis
    by (simp add: s' x emitLine_def)
qed

lemma forEach_deserializers_used:
  "forEach (emitPropertyDeserializer env) xs s = Inr s' \<Longrightarrow>
   set (deserializerFunctions s') =
     set (deserializerFunctions s) \<union> (\<Union>x \<in> set xs. usedFunctions (snd (snd x)))"
proof (induction xs arbitrary: s)
  case Nil
  then show ?case by simp
next
  case (Cons x xs)
  from Cons.prems obtain s1 where 1: "emitPropertyDeserializer env x s = Inr s1"
    and 2: "forEach (emitPropertyDeserializer env) xs s1 = Inr s'"
    by (auto split: sum.splits)
  from emitPropertyDeserializer_used[OF 1] Cons.IH[OF 2] show ?case by auto
qed

lemma emitClass_used:
  assumes run: "emitClass env c st = Inr st'"
  shows "set (deserializerFunctions st') =
         set (deserializerFunctions st) \<union>
         (\<Union>x \<in> set (classProperties env c). usedFunctions (snd (snd x)))"
proof (cases "classProperties env c = []")
  case True
  then have "deserializerLines sameUsed env c" by (simp add: deserializerLines_def)
  from emitClass_rel[OF stepRelation_sameUsed this run]
  have "deserializerFunctions st' = deserializerFunctions st"
    by (auto simp: sameUsed_def)
  with True show ?thesis by simp
next
  case False
  define st1 where "st1 = emitDescription (descriptionForType env (TClass c)) st"
  define line where "line = Arr [Str ''class '', Nm (nameForNamedType env (TClass c)), Str '':'']"
  define s0 where "s0 = (emitLine [line] st1)\<lparr>indentation := Suc (indentation st1)\<rparr>"
  from run False obtain s1 s2 where
    f: "forEach (emitClassProperty env c) (classProperties env c) s0 = Inr s1"
    and m: "emitClassMembers env c (ensureBlankLine s1) = Inr s2"
    and st': "st' = s2\<lparr>indentation := indentation st1,
                      declaredTypes := insert (TClass c) (declaredTypes s2)\<rparr>"
    by (auto simp: emitClass_def declareType_def declarationLine_def emitBlock_def indent_def
        Let_def st1_def line_def s0_def split: sum.splits)
  have "sameUsed st st1"
    unfolding st1_def using stepRelation_sameUsed by (rule emitDescription_step)
  then have 0: "deserializerFunctions s0 = deserializerFunctions st"
    by (simp add: s0_def sameUsed_def emitLine_def)
  have "sameUsed s0 s1"
  proof (rule forEach_rel[where R=sameUsed, OF _ _ _ f])
    show "sameUsed s s" for s by (simp add: sameUsed_def)
    show "sameUsed a c" if "sameUsed a b" "sameUsed b c" for a b c
      using that by (simp add: sameUsed_def)
    show "sameUsed s s'" if "emitClassProperty env c x s = Inr s'" for x s s'
      using stepRelation_sameUsed that by (rule emitClassProperty_rel)
  qed
  then have 1: "deserializerFunctions (ensureBlankLine s1) = deserializerFunctions s0"
    by (simp add: sameUsed_def ensureBlankLine_def)
  from m obtain s3 where
    g: "forEach (emitPropertyDeserializer env) (classProperties env c)
          (emitLine [Str ''assert isinstance(obj, dict)'']
             ((emitLine [Str ''def __init__(self, obj):''] (ensureBlankLine s1))
                \<lparr>indentation := Suc (indentation (ensureBlankLine s1))\<rparr>)) = Inr s3"
    and s2: "s2 = s3\<lparr>indentation := indentation (ensureBlankLine s1)\<rparr>"
    by (auto simp: emitClassMembers_def emitBlock_def indent_def emitLine_def split: sum.splits)
  from forEach_deserializers_used[OF g]
  have "set (deserializerFunctions s3) =
      set (deserializerFunctions (ensureBlankLine s1)) \<union>
      (\<Union>x \<in> set (classProperties env c). usedFunctions (snd (snd x)))"
    by (simp add: emitLine_def)
  then show ?thesis by (simp add: st' s2 0 1)
qed

lemma emitDeclaration_used:
  assumes run: "emitDeclaration env d st = Inr st'"
  shows "set (deserializerFunctions st') =
         set (deserializerFunctions st) \<union> (\<Union>t \<in> set (propertyTypes env d). usedFunctions t)"
proof (cases d)
  case (Forward t)
  with run show ?thesis by (simp add: emitDeclaration_def)
next
  case (Define t)
  show ?thesis
  proof (cases t)
    case (TClass c)
    with Define run have "emitClass env c st = Inr st'" by (simp add: emitDeclaration_def)
    from emitClass_used[OF this] Define TClass show ?thesis by simp
  next
    case (TEnum c)
    with Define run have "emitEnum env c st = Inr st'" by (simp add: emitDeclaration_def)
    from emitEnum_rel[OF stepRelation_sameUsed this]
    have "deserializerFunctions st' = deserializerFunctions st"
      by (auto simp: sameUsed_def)
    with Define TEnum show ?thesis by simp
  qed (use Define run in \<open>simp_all add: emitDeclaration_def\<close>)
qed

lemma forEachInterposing_used:
  assumes step: "\<And>x s s'. f x s = Inr s' \<Longrightarrow>
      set (deserializerFunctions s') = set (deserializerFunctions s) \<union> U x"
    and run: "forEachInterposing f xs st = Inr st'"
  shows "set (deserializerFunctions st') = set (deserializerFunctions st) \<union> (\<Union>x \<in> set xs. U x)"
  using step run
proof (induction f xs st rule: forEachInterposing.induct)
  case (1 f st)
  then show ?case by simp
next
  case (2 f x st)
  then show ?case by simp
next
  case (3 f x y ys st)
  from "3.prems"(2) obtain s1 where 1: "f x st = Inr s1"
    and 2: "forEachInterposing f (y # ys) (ensureBlankLine s1) = Inr st'"
    by (auto split: sum.splits)
  from "3.prems"(1)[OF 1]
  have a: "set (deserializerFunctions s1) = set (deserializerFunctions st) \<union> U x" .
  have b: "deserializerFunctions (ensureBlankLine s1) = deserializerFunctions s1"
    by (simp add: ensureBlankLine_def)
  have "set (deserializerFunctions st') =
      set (deserializerFunctions (ensureBlankLine s1)) \<union> (\<Union>x \<in> set (y # ys). U x)"
    by (rule "3.IH"[OF 1 _ 2]) (rule "3.prems"(1))
  with a b show ?case by auto
qed

lemma emitDeclarations_used:
  assumes "forEachInterposing (emitDeclaration env) ds st = Inr st'"
  shows "set (deserializerFunctions st') =
         set (deserializerFunctions st) \<union>
         (\<Union>t \<in> set (concat (map (propertyTypes env) ds)). usedFunctions t)"
proof -
  have "set (deserializerFunctions st') =
      set (deserializerFunctions st) \<union>
      (\<Union>d \<in> set ds. \<Union>t \<in> set (propertyTypes env d). usedFunctions t)"
    using emitDeclaration_used assms by (rule forEachInterposing_used)
  then show ?thesis by simp
qed

text \<open>
  Claim C10, as the code has it. The deserializer of \<open>any\<close> is the expression
  \<open>lambda x: x\<close>: it is returned for every state, without an error, it refers to no
  deserializer function, and the state stays as it is. The run of the declarations
  leaves, as the deserializer functions, those of the types of the properties of the
  declared classes, and \<open>emitSupportCode\<close> emits one block for each: there is no
  support code if and only if every such property is of the type \<open>any\<close> or refers
  to a class or an enum. When \<open>any\<close> is the only primitive type in these types, the
  deserializer functions are among those of lists, dictionaries and unions.
\<close>

theorem any_deserializer:
  "deserializerFn env TAny st =
     Inr (multiWord (Str '' '') [Str ''lambda'', Str ''x:'', Str ''x''], st)
   \<and> synthesized (deserializerFn env TAny st) = Inr ''lambda x: x''
   \<and> fromRefs (source (multiWord (Str '' '') [Str ''lambda'', Str ''x:'', Str ''x''])) = {}
   \<and> (\<forall>declarationLines st1.
         gatherSource (forEachInterposing (emitDeclaration env) (declarations env)) initialState
           = Inr (declarationLines, st1) \<longrightarrow>
         set (deserializerFunctions st1) =
           (\<Union>t \<in> set (declaredPropertyTypes env). usedFunctions t)
       \<and> gatherSource (\<lambda>s. Inr (emitSupportCode s)) st1 =
           Inr (concat (map (supportBlock 0) (deserializerFunctions st1)), st1)
       \<and> ((deserializerFunctions st1 = [] \<and>
            gatherSource (\<lambda>s. Inr (emitSupportCode s)) st1 = Inr ([], st1))
           \<longleftrightarrow> (\<forall>t \<in> set (declaredPropertyTypes env). needsNoFunction t))
       \<and> ((\<forall>t \<in> set (declaredPropertyTypes env). onlyAny t) \<longrightarrow>
            set (deserializerFunctions st1) \<subseteq> {DF_list, DF_dict, DF_union}))"
proof (intro conjI impI allI)
  show "deserializerFn env TAny st =
     Inr (multiWord (Str '' '') [Str ''lambda'', Str ''x:'', Str ''x''], st)"
    by simp
  show "synthesized (deserializerFn env TAny st) = Inr ''lambda x: x''"
    by (simp add: synthesized_def multiWord_def)
  show "fromRefs (source (multiWord (Str '' '') [Str ''lambda'', Str ''x:'', Str ''x''])) = {}"
    by simp
next
  fix declarationLines st1
  assume g: "gatherSource (forEachInterposing (emitDeclaration env) (declarations env)) initialState
             = Inr (declarationLines, st1)"
  from g obtain s1 where
    run: "forEachInterposing (emitDeclaration env) (declarations env)
            (initialState\<lparr>emitted := []\<rparr>) = Inr s1"
    and st1: "st1 = s1\<lparr>emitted := emitted initialState\<rparr>"
    by (auto simp: gatherSource_def split: sum.splits)
  from emitDeclarations_used[OF run]
  show u: "set (deserializerFunctions st1) =
      (\<Union>t \<in> set (declaredPropertyTypes env). usedFunctions t)"
    by (simp add: st1 initialState_def declaredPropertyTypes_def)
  have ind: "indentation st1 = 0"
    using emitDeclarations_indentation[OF run] by (simp add: st1 initialState_def)
  show s: "gatherSource (\<lambda>s. Inr (emitSupportCode s)) st1 =
      Inr (concat (map (supportBlock 0) (deserializerFunctions st1)), st1)"
    by (simp add: gather_emitSupportCode ind)
  have e: "deserializerFunctions st1 = [] \<longleftrightarrow>
      (\<forall>t \<in> set (declaredPropertyTypes env). needsNoFunction t)"
  proof -
    have "deserializerFunctions st1 = [] \<longleftrightarrow> set (deserializerFunctions st1) = {}" by simp
    also have "\<dots> \<longleftrightarrow> (\<forall>t \<in> set (declaredPropertyTypes env). usedFunctions t = {})"
      unfolding u by blast
    finally show ?thesis by (simp add: usedFunctions_empty)
  qed
  show "(deserializerFunctions st1 = [] \<and>
         gatherSource (\<lambda>s. Inr (emitSupportCode s)) st1 = Inr ([], st1))
        \<longleftrightarrow> (\<forall>t \<in> set (declaredPropertyTypes env). needsNoFunction t)"
    unfolding e[symmetric] s by auto
  show "set (deserializerFunctions st1) \<subseteq> {DF_list, DF_dict, DF_union}"
    if "\<forall>t \<in> set (declaredPropertyTypes env). onlyAny t"
    unfolding u using that usedFunctions_onlyAny by blast
qed

lemma anyEnv_class:
  \<open>emitClass anyEnv 0 s =
   Inr (s\<lparr>declaredTypes := insert (TClass 0) (declaredTypes s),
          importMap := mapUpdateInto (importMap s) ''typing'' ''Any'',
          emitted := emitted s @
          [Line (indentation s) (Arr [Arr [Str ''class '', Nm ''Person'', Str '':'']]),
           Line (Suc (indentation s)) (Arr [Nm ''x'', Str '': '', Str ''Any'']),
           Line (Suc (indentation s)) (Arr [Nm ''y'', Str '': '', Str ''Any'']),
           Blank,
           Line (Suc (indentation s)) (Arr [Str ''def __init__(self, obj):'']),
           Line (Suc (Suc (indentation s))) (Arr [Str ''assert isinstance(obj, dict)'']),
           Line (Suc (Suc (indentation s))) (Arr [Str ''self.'', Nm ''x'', Str '' = '',
             Arr [Arr [Str ''('', Arr [Str ''lambda'', Str '' '', Str ''x:'', Str '' '', Str ''x''],
                       Str '')''], Str ''('',
                  Arr [Str ''obj["'', Str ''x'', Str ''"]''], Str '')'']]),
           Line (Suc (Suc (indentation s))) (Arr [Str ''self.'', Nm ''y'', Str '' = '',
             Arr [Arr [Str ''('', Arr [Str ''lambda'', Str '' '', Str ''x:'', Str '' '', Str ''x''],
                       Str '')''], Str ''('',
                  Arr [Str ''obj["'', Str ''y'', Str ''"]''], Str '')'']])]\<rparr>)\<close>
proof -
  have p: "classProperties anyEnv 0 = [(''x'', ''x'', TAny), (''y'', ''y'', TAny)]"
    "descriptionForType anyEnv (TClass 0) = None"
    "descriptionForClassProperty anyEnv 0 j = None"
    "nameForNamedType anyEnv (TClass 0) = ''Person''"
    "stringEscape anyEnv j = j" for j
    by (simp_all add: anyEnv_def exampleEnv_def)
  have m: "mapUpdateInto (mapUpdateInto l ''typing'' ''Any'') ''typing'' ''Any'' =
      mapUpdateInto l ''typing'' ''Any''" for l
    by (induction l "''typing''" "''Any''" rule: mapUpdateInto.induct) (auto simp: setAdd_def)
  show ?thesis
    unfolding emitClass_def declareType_def emitClassMembers_def emitBlock_def indent_def
    by (simp add: p m declarationLine_def emitDescription_def emitLine_def ensureBlankLine_def
        deserializer_def multiWord_def parenIfNeeded_def withTyping_def withImport_def)
qed

theorem any_deserializer_witness:
  \<open>declaredPropertyTypes anyEnv = [TAny, TAny]
   \<and> needsNoFunction TAny \<and> onlyAny TAny
   \<and> classProperties anyEnv 0 = [(''x'', ''x'', TAny), (''y'', ''y'', TAny)]
   \<and> declarations anyEnv = [Define (TClass 0)]
   \<and> deserializerFunctions (snd (projr
        (gatherSource (forEachInterposing (emitDeclaration anyEnv) (declarations anyEnv))
           initialState))) = []
   \<and> map lineText (fst (projr
        (gatherSource (forEachInterposing (emitDeclaration anyEnv) (declarations anyEnv))
           initialState))) =
       [''class Person:'', ''    x: Any'', ''    y: Any'', [],
        ''    def __init__(self, obj):'', ''        assert isinstance(obj, dict)'',
        ''        self.x = (lambda x: x)(obj["x"])'',
        ''        self.y = (lambda x: x)(obj["y"])'']\<close>
proof -
  have d: "declarations anyEnv = [Define (TClass 0)]"
    and p: "classProperties anyEnv c = [(''x'', ''x'', TAny), (''y'', ''y'', TAny)]" for c
    by (simp_all add: anyEnv_def exampleEnv_def)
  have dp: "declaredPropertyTypes anyEnv = [TAny, TAny]"
    by (simp add: declaredPropertyTypes_def d p)
  obtain ls st1 where g: "gatherSource (forEachInterposing (emitDeclaration anyEnv)
      (declarations anyEnv)) initialState = Inr (ls, st1)"
    and ls: \<open>map lineText ls =
       [''class Person:'', ''    x: Any'', ''    y: Any'', [],
        ''    def __init__(self, obj):'', ''        assert isinstance(obj, dict)'',
        ''        self.x = (lambda x: x)(obj["x"])'',
        ''        self.y = (lambda x: x)(obj["y"])'']\<close>
    by (simp add: d gatherSource_def emitDeclaration_def anyEnv_class initialState_def
        eval_nat_numeral)
  have h: "\<forall>t \<in> set (declaredPropertyTypes anyEnv). needsNoFunction t"
    by (simp add: dp)
  from any_deserializer[of anyEnv] h g have "deserializerFunctions st1 = []"
    by blast
  then show ?thesis
    unfolding g by (simp add: ls p d dp)
qed

lemma arrayAnyEnv_class:
  \<open>emitClass arrayAnyEnv 0 s =
   Inr (s\<lparr>declaredTypes := insert (TClass 0) (declaredTypes s),
          importMap := mapUpdateInto (mapUpdateInto (importMap s) ''typing'' ''List'')
                         ''typing'' ''Any'',
          deserializerFunctions := setAdd DF_list (deserializerFunctions s),
          emitted := emitted s @
          [Line (indentation s) (Arr [Arr [Str ''class '', Nm ''Person'', Str '':'']]),
           Line (Suc (indentation s))
             (Arr [Nm ''xs'', Str '': '', Arr [Str ''List'', Str ''['', Str ''Any'', Str '']'']]),
           Blank,
           Line (Suc (indentation s)) (Arr [Str ''def __init__(self, obj):'']),
           Line (Suc (Suc (indentation s))) (Arr [Str ''assert isinstance(obj, dict)'']),
           Line (Suc (Suc (indentation s))) (Arr [Str ''self.'', Nm ''xs'', Str '' = '',
             Arr [Arr [Str ''('',
                    Arr [Str ''lambda x: '', Str [], Arr [Str ''from_'', Str ''list''], Str [],
                         Str ''('', Str [],
                         Arr [Str ''('',
                              Arr [Str ''lambda'', Str '' '', Str ''x:'', Str '' '', Str ''x''],
                              Str '')''],
                         Str [], Str '', x)''],
                    Str '')''], Str ''('',
                  Arr [Str ''obj["'', Str ''xs'', Str ''"]''], Str '')'']])]\<rparr>)\<close>
proof -
  have p: "classProperties arrayAnyEnv 0 = [(''xs'', ''xs'', TArray TAny)]"
    "descriptionForType arrayAnyEnv (TClass 0) = None"
    "descriptionForClassProperty arrayAnyEnv 0 j = None"
    "nameForNamedType arrayAnyEnv (TClass 0) = ''Person''"
    "stringEscape arrayAnyEnv j = j" for j
    by (simp_all add: arrayAnyEnv_def exampleEnv_def)
  show ?thesis
    unfolding emitClass_def declareType_def emitClassMembers_def emitBlock_def indent_def
    by (simp add: p declarationLine_def emitDescription_def emitLine_def ensureBlankLine_def
        deserializer_def multiWord_def parenIfNeeded_def withTyping_def withImport_def
        from_df_def)
qed

theorem any_deserializer_counterexample:
  \<open>declarations arrayAnyEnv = [Define (TClass 0)]
   \<and> classProperties arrayAnyEnv 0 = [(''xs'', ''xs'', TArray TAny)]
   \<and> onlyAny (TArray TAny)
   \<and> map_sum id deserializerFunctions (emitSourceStructure arrayAnyEnv initialState) =
       Inr [DF_list]
   \<and> artifactLines (emitSourceStructure arrayAnyEnv initialState) =
       [''# Only Python >=3.6 right now, and no (de)serializers yet.'',
        ''# More features coming soon!'', [],
        ''from typing import List, Any'', [],
        ''def from_list(f, x):'', ''    assert isinstance(x, list)'',
        ''    return [f(y) for y in x]'', [],
        ''class Person:'', ''    xs: List[Any]'', [],
        ''    def __init__(self, obj):'', ''        assert isinstance(obj, dict)'',
        ''        self.xs = (lambda x: from_list((lambda x: x), x))(obj["xs"])'']\<close>
proof -
  have d: "declarations arrayAnyEnv = [Define (TClass 0)]" "leadingComments arrayAnyEnv = None"
    "classProperties arrayAnyEnv 0 = [(''xs'', ''xs'', TArray TAny)]"
    by (simp_all add: arrayAnyEnv_def exampleEnv_def)
  have b: "last (supportBlock 0 df) = Blank" "supportBlock 0 df \<noteq> []" for df
    by (simp_all add: supportBlock_def)
  have a: \<open>emitSourceStructure arrayAnyEnv initialState =
   Inr \<lparr>importMap = [(''typing'', [''List'', ''Any''])], declaredTypes = {TClass 0},
        deserializerFunctions = [DF_list],
        emitted =
          [Line 0 (Arr [Str ''# '', Str ''Only Python >=3.6 right now, and no (de)serializers yet.'']),
           Line 0 (Arr [Str ''# '', Str ''More features coming soon!'']),
           Blank,
           Line 0 (Arr [Str ''from '', Str ''typing'', Str '' import '', Str ''List, Any'']),
           Blank] @
          supportBlock 0 DF_list @
          [Line 0 (Arr [Arr [Str ''class '', Nm ''Person'', Str '':'']]),
           Line 1
             (Arr [Nm ''xs'', Str '': '', Arr [Str ''List'', Str ''['', Str ''Any'', Str '']'']]),
           Blank,
           Line 1 (Arr [Str ''def __init__(self, obj):'']),
           Line 2 (Arr [Str ''assert isinstance(obj, dict)'']),
           Line 2 (Arr [Str ''self.'', Nm ''xs'', Str '' = '',
             Arr [Arr [Str ''('',
                    Arr [Str ''lambda x: '', Str [], Arr [Str ''from_'', Str ''list''], Str [],
                         Str ''('', Str [],
                         Arr [Str ''('',
                              Arr [Str ''lambda'', Str '' '', Str ''x:'', Str '' '', Str ''x''],
                              Str '')''],
                         Str [], Str '', x)''],
                    Str '')''], Str ''('',
                  Arr [Str ''obj["'', Str ''xs'', Str ''"]''], Str '')'']])],
        indentation = 0\<rparr>\<close>
    unfolding emitSourceStructure_def d
    by (simp add: gatherSource_def emitDeclaration_def arrayAnyEnv_class gather_emitSupportCode
        emitSupportCode_eq emitDefaultLeadingComments_def emitCommentLines_def
        commentLineStart_def emitImports_def emitGatheredSource_def ensureBlankLine_def
        emitLine_def setAdd_def initialState_def Let_def b)
  show ?thesis
    unfolding a by (simp add: d artifactLines_def supportBlock_def eval_nat_numeral)
qed

section \<open>Properties of the declaration state\<close>

subsection \<open>The body of a declaration leaves the declared types as they are\<close>

lemma bodyStep_refl: "bodyStep s s"
  by (simp add: bodyStep_def)

lemma bodyStep_trans: "bodyStep a b \<Longrightarrow> bodyStep b c \<Longrightarrow> bodyStep a c"
  by (auto simp: bodyStep_def)

lemma bodyStep_emitted: "bodyStep s s' \<Longrightarrow> l \<in> set (emitted s) \<Longrightarrow> l \<in> set (emitted s')"
  by (auto simp: bodyStep_def)

lemma bodyStep_declared: "bodyStep s s' \<Longrightarrow> declaredTypes s' = declaredTypes s"
  by (simp add: bodyStep_def)

lemma stepRelation_bodyStep: "stepRelation bodyStep"
  unfolding stepRelation_def bodyStep_def
  by (auto simp: importsOnly_def emitLine_def ensureBlankLine_def)

lemma deserializerLines_bodyStep: "deserializerLines bodyStep env c"
  unfolding deserializerLines_def
proof (intro allI impI)
  fix x s s'
  assume run: "emitPropertyDeserializer env x s = Inr s'"
  obtain n j t where x: "x = (n, j, t)" by (cases x)
  from run x obtain mw s1 d where d: "deserializerFn env t s = Inr (mw, s1)"
    and s': "s' = emitLine [Str ''self.'', Nm n, Str '' = '', d] s1"
    by (auto simp: Let_def deserializer_def split: sum.splits)
  from deserializerFn_uses[OF d] have "declaredTypes s1 = declaredTypes s" "emitted s1 = emitted s"
    by (simp_all add: usesOnly_def)
  then show "bodyStep s s'"
    by (simp add: bodyStep_def s' emitLine_def)
qed

lemma emitClass_declared:
  assumes "emitClass env c st = Inr st'"
  shows "declaredTypes st' = insert (TClass c) (declaredTypes st)"
    and "l \<in> set (emitted st) \<Longrightarrow> l \<in> set (emitted st')"
proof -
  from emitClass_rel[OF stepRelation_bodyStep deserializerLines_bodyStep assms]
  obtain st3 where b: "bodyStep st st3"
    and s: "st' = st3\<lparr>declaredTypes := insert (TClass c) (declaredTypes st3)\<rparr>"
    by blast
  from b s show "declaredTypes st' = insert (TClass c) (declaredTypes st)"
    by (simp add: bodyStep_def)
  from b s show "l \<in> set (emitted st) \<Longrightarrow> l \<in> set (emitted st')"
    by (auto simp: bodyStep_def)
qed

lemma emitEnum_declared:
  assumes "emitEnum env c st = Inr st'"
  shows "declaredTypes st' = insert (TEnum c) (declaredTypes st)"
proof -
  from emitEnum_rel[OF stepRelation_bodyStep assms]
  obtain st3 where b: "bodyStep st st3"
    and s: "st' = st3\<lparr>declaredTypes := insert (TEnum c) (declaredTypes st3)\<rparr>"
    by blast
  then show ?thesis by (simp add: bodyStep_def)
qed

text \<open>The line of a property holds the annotation under the declared types of the start.\<close>

lemma emitClassProperty_line:
  assumes "emitClassProperty env c (n, j, t) s = Inr s'"
  shows "\<exists>i a. Line i (Arr [Nm n, Str '': '', a]) \<in> set (emitted s')
           \<and> map_sum id fst (pythonType env t s) = Inr a"
proof -
  define s1 where "s1 = emitDescription (descriptionForClassProperty env c j) s"
  from assms obtain a s2 where p: "pythonType env t s1 = Inr (a, s2)"
    and s': "s' = emitLine [Nm n, Str '': '', a] s2"
    by (auto simp: Let_def s1_def split: sum.splits)
  have "bodyStep s s1"
    unfolding s1_def using stepRelation_bodyStep by (rule emitDescription_step)
  then have "declaredTypes s = declaredTypes s1" by (simp add: bodyStep_def)
  then have "map_sum id fst (pythonType env t s) = map_sum id fst (pythonType env t s1)"
    using pythonType_output_aux(1) by blast
  with p have "map_sum id fst (pythonType env t s) = Inr a" by simp
  moreover have "Line (indentation s2) (Arr [Nm n, Str '': '', a]) \<in> set (emitted s')"
    by (simp add: s' emitLine_def)
  ultimately show ?thesis by blast
qed

lemma emitClass_property_line:
  assumes run: "emitClass env c st = Inr st'"
    and mem: "(n, j, t) \<in> set (classProperties env c)"
  shows "\<exists>i a. Line i (Arr [Nm n, Str '': '', a]) \<in> set (emitted st')
           \<and> map_sum id fst (pythonType env t st) = Inr a"
proof -
  define st1 where "st1 = emitDescription (descriptionForType env (TClass c)) st"
  define line where "line = Arr [Str ''class '', Nm (nameForNamedType env (TClass c)), Str '':'']"
  define s0 where "s0 = (emitLine [line] st1)\<lparr>indentation := Suc (indentation st1)\<rparr>"
  from mem have ne: "classProperties env c \<noteq> []" by auto
  from run ne obtain s1 s2 where
    f: "forEach (emitClassProperty env c) (classProperties env c) s0 = Inr s1"
    and m: "emitClassMembers env c (ensureBlankLine s1) = Inr s2"
    and st': "st' = s2\<lparr>indentation := indentation st1,
                      declaredTypes := insert (TClass c) (declaredTypes s2)\<rparr>"
    by (auto simp: emitClass_def declareType_def declarationLine_def emitBlock_def indent_def
        Let_def st1_def line_def s0_def split: sum.splits)
  have "\<exists>u1 u2. bodyStep s0 u1 \<and> emitClassProperty env c (n, j, t) u1 = Inr u2 \<and> bodyStep u2 s1"
  proof (rule forEach_member[where R=bodyStep, OF _ _ _ f mem])
    show "bodyStep s s" for s by (rule bodyStep_refl)
    show "bodyStep a c" if "bodyStep a b" "bodyStep b c" for a b c
      using that by (rule bodyStep_trans)
    show "bodyStep s s'" if "emitClassProperty env c x s = Inr s'" for x s s'
      using stepRelation_bodyStep that by (rule emitClassProperty_rel)
  qed
  then obtain u1 u2 where b1: "bodyStep s0 u1"
    and e: "emitClassProperty env c (n, j, t) u1 = Inr u2" and b2: "bodyStep u2 s1"
    by blast
  from emitClassProperty_line[OF e] obtain i a where
    l: "Line i (Arr [Nm n, Str '': '', a]) \<in> set (emitted u2)"
    and a: "map_sum id fst (pythonType env t u1) = Inr a"
    by blast
  have "bodyStep st st1"
    unfolding st1_def using stepRelation_bodyStep by (rule emitDescription_step)
  then have "declaredTypes s0 = declaredTypes st"
    by (simp add: s0_def bodyStep_def emitLine_def)
  with b1 have "declaredTypes st = declaredTypes u1" by (simp add: bodyStep_def)
  then have "map_sum id fst (pythonType env t st) = map_sum id fst (pythonType env t u1)"
    using pythonType_output_aux(1) by blast
  with a have "map_sum id fst (pythonType env t st) = Inr a" by simp
  moreover have "Line i (Arr [Nm n, Str '': '', a]) \<in> set (emitted st')"
  proof -
    from b2 l have "Line i (Arr [Nm n, Str '': '', a]) \<in> set (emitted s1)"
      by (rule bodyStep_emitted)
    with stepRelationD(5)[OF stepRelation_bodyStep, of s1]
    have "Line i (Arr [Nm n, Str '': '', a]) \<in> set (emitted (ensureBlankLine s1))"
      by (rule bodyStep_emitted)
    with emitClassMembers_rel[OF stepRelation_bodyStep deserializerLines_bodyStep m]
    have "Line i (Arr [Nm n, Str '': '', a]) \<in> set (emitted s2)"
      by (rule bodyStep_emitted)
    then show ?thesis by (simp add: st')
  qed
  ultimately show ?thesis by blast
qed

subsection \<open>Declared types stay declared\<close>

lemma stepRelation_declaredGrow: "stepRelation declaredGrow"
  unfolding stepRelation_def declaredGrow_def
  by (auto simp: importsOnly_def emitLine_def ensureBlankLine_def)

lemma deserializerLines_declaredGrow: "deserializerLines declaredGrow env c"
  using deserializerLines_bodyStep[of env c]
  unfolding deserializerLines_def declaredGrow_def bodyStep_def by blast

lemma emitDeclarations_declared:
  assumes "forEachInterposing (emitDeclaration env) ds st = Inr st'"
  shows "declaredTypes st \<subseteq> declaredTypes st'"
proof -
  have "declaredGrow st st'"
  proof (rule forEachInterposing_rel[where R=declaredGrow, OF _ _ _ _ assms])
    show "declaredGrow s s" for s by (rule stepRelationD(1)[OF stepRelation_declaredGrow])
    show "declaredGrow a c" if "declaredGrow a b" "declaredGrow b c" for a b c
      using that by (rule stepRelationD(2)[OF stepRelation_declaredGrow])
    show "declaredGrow s (ensureBlankLine s)" for s
      by (rule stepRelationD(5)[OF stepRelation_declaredGrow])
    show "declaredGrow s s'" if "emitDeclaration env x s = Inr s'" for x s s'
    proof (rule emitDeclaration_rel[OF stepRelation_declaredGrow _ _ that])
      show "deserializerLines declaredGrow env c" for c by (rule deserializerLines_declaredGrow)
      show "declaredGrow u (u\<lparr>declaredTypes := insert t (declaredTypes u)\<rparr>)" for u t
        by (auto simp: declaredGrow_def)
    qed
  qed
  then show ?thesis by (simp add: declaredGrow_def)
qed

subsection \<open>References to classes and enums\<close>

text \<open>
  Claim C4. The annotation that \<open>pythonType\<close> renders for a reference to a class or
  an enum is the bare name when the type is among the declared types, and the name in
  quotes otherwise; the state stays as it is. \<open>emitClass\<close> and \<open>emitEnum\<close> add
  the type to the declared types after the body: the line of every property holds the
  annotation that \<open>pythonType\<close> gives under the declared types of the start, so a
  property of the type of its own class, not declared before, is annotated with the name
  in quotes. After the body, and after every run of further declarations,
  \<open>pythonType\<close> renders the reference as the bare name, and the line of a property
  of this type in a class that is declared then holds the bare name.
\<close>

theorem declaration_state:
  "pythonType env (TClass c) st =
     Inr (if TClass c \<in> declaredTypes st then Nm (nameForNamedType env (TClass c))
          else Arr [Str [CHR 0x27], Nm (nameForNamedType env (TClass c)), Str [CHR 0x27]], st)
   \<and> pythonType env (TEnum c) st =
     Inr (if TEnum c \<in> declaredTypes st then Nm (nameForNamedType env (TEnum c))
          else Arr [Str [CHR 0x27], Nm (nameForNamedType env (TEnum c)), Str [CHR 0x27]], st)
   \<and> namedType env t st =
     (if t \<in> declaredTypes st then Nm (nameForNamedType env t)
      else Arr [Str [CHR 0x27], Nm (nameForNamedType env t), Str [CHR 0x27]])
   \<and> (\<forall>st'. emitClass env c st = Inr st' \<longrightarrow>
          declaredTypes st' = insert (TClass c) (declaredTypes st)
        \<and> (\<forall>n j t. (n, j, t) \<in> set (classProperties env c) \<longrightarrow>
             (\<exists>i a. Line i (Arr [Nm n, Str '': '', a]) \<in> set (emitted st')
                  \<and> map_sum id fst (pythonType env t st) = Inr a))
        \<and> (\<forall>n j. (n, j, TClass c) \<in> set (classProperties env c) \<longrightarrow>
               TClass c \<notin> declaredTypes st \<longrightarrow>
             (\<exists>i. Line i (Arr [Nm n, Str '': '',
                     Arr [Str [CHR 0x27], Nm (nameForNamedType env (TClass c)), Str [CHR 0x27]]])
                  \<in> set (emitted st')))
        \<and> namedType env (TClass c) st' = Nm (nameForNamedType env (TClass c))
        \<and> pythonType env (TClass c) st' = Inr (Nm (nameForNamedType env (TClass c)), st')
        \<and> (\<forall>ds st''. forEachInterposing (emitDeclaration env) ds st' = Inr st'' \<longrightarrow>
              namedType env (TClass c) st'' = Nm (nameForNamedType env (TClass c))
            \<and> pythonType env (TClass c) st'' =
                Inr (Nm (nameForNamedType env (TClass c)), st'')
            \<and> (\<forall>c2 st3 n j. emitClass env c2 st'' = Inr st3 \<longrightarrow>
                  (n, j, TClass c) \<in> set (classProperties env c2) \<longrightarrow>
                  (\<exists>i. Line i (Arr [Nm n, Str '': '', Nm (nameForNamedType env (TClass c))])
                        \<in> set (emitted st3)))))
   \<and> (\<forall>st'. emitEnum env c st = Inr st' \<longrightarrow>
          declaredTypes st' = insert (TEnum c) (declaredTypes st)
        \<and> pythonType env (TEnum c) st' = Inr (Nm (nameForNamedType env (TEnum c)), st')
        \<and> (\<forall>ds st''. forEachInterposing (emitDeclaration env) ds st' = Inr st'' \<longrightarrow>
              namedType env (TEnum c) st'' = Nm (nameForNamedType env (TEnum c))
            \<and> pythonType env (TEnum c) st'' =
                Inr (Nm (nameForNamedType env (TEnum c)), st'')
            \<and> (\<forall>c2 st3 n j. emitClass env c2 st'' = Inr st3 \<longrightarrow>
                  (n, j, TEnum c) \<in> set (classProperties env c2) \<longrightarrow>
                  (\<exists>i. Line i (Arr [Nm n, Str '': '', Nm (nameForNamedType env (TEnum c))])
                        \<in> set (emitted st3)))))"
proof (intro conjI allI impI)
  show "pythonType env (TClass c) st =
     Inr (if TClass c \<in> declaredTypes st then Nm (nameForNamedType env (TClass c))
          else Arr [Str [CHR 0x27], Nm (nameForNamedType env (TClass c)), Str [CHR 0x27]], st)"
    by (simp add: namedType_def Let_def)
  show "pythonType env (TEnum c) st =
     Inr (if TEnum c \<in> declaredTypes st then Nm (nameForNamedType env (TEnum c))
          else Arr [Str [CHR 0x27], Nm (nameForNamedType env (TEnum c)), Str [CHR 0x27]], st)"
    by (simp add: namedType_def Let_def)
  show "namedType env t st =
     (if t \<in> declaredTypes st then Nm (nameForNamedType env t)
      else Arr [Str [CHR 0x27], Nm (nameForNamedType env t), Str [CHR 0x27]])"
    by (simp add: namedType_def Let_def)
next
  fix st' assume run: "emitClass env c st = Inr st'"
  show d: "declaredTypes st' = insert (TClass c) (declaredTypes st)"
    using run by (rule emitClass_declared(1))
  then show "namedType env (TClass c) st' = Nm (nameForNamedType env (TClass c))"
    by (simp add: namedType_def Let_def)
  from d show "pythonType env (TClass c) st' = Inr (Nm (nameForNamedType env (TClass c)), st')"
    by (simp add: namedType_def Let_def)
  show "\<exists>i a. Line i (Arr [Nm n, Str '': '', a]) \<in> set (emitted st')
          \<and> map_sum id fst (pythonType env t st) = Inr a"
    if "(n, j, t) \<in> set (classProperties env c)" for n j t
    using run that by (rule emitClass_property_line)
  show "\<exists>i. Line i (Arr [Nm n, Str '': '',
                Arr [Str [CHR 0x27], Nm (nameForNamedType env (TClass c)), Str [CHR 0x27]]])
             \<in> set (emitted st')"
    if "(n, j, TClass c) \<in> set (classProperties env c)" "TClass c \<notin> declaredTypes st" for n j
  proof -
    from emitClass_property_line[OF run that(1)] obtain i a where
      l: "Line i (Arr [Nm n, Str '': '', a]) \<in> set (emitted st')"
      and a: "map_sum id fst (pythonType env (TClass c) st) = Inr a"
      by blast
    from a that(2) have
      "a = Arr [Str [CHR 0x27], Nm (nameForNamedType env (TClass c)), Str [CHR 0x27]]"
      by (simp add: namedType_def Let_def)
    with l show ?thesis by blast
  qed
  fix ds st'' assume later: "forEachInterposing (emitDeclaration env) ds st' = Inr st''"
  from emitDeclarations_declared[OF later] d have in'': "TClass c \<in> declaredTypes st''" by auto
  then show "namedType env (TClass c) st'' = Nm (nameForNamedType env (TClass c))"
    by (simp add: namedType_def Let_def)
  from in'' show "pythonType env (TClass c) st'' =
      Inr (Nm (nameForNamedType env (TClass c)), st'')"
    by (simp add: namedType_def Let_def)
  show "\<exists>i. Line i (Arr [Nm n, Str '': '', Nm (nameForNamedType env (TClass c))])
          \<in> set (emitted st3)"
    if "emitClass env c2 st'' = Inr st3" "(n, j, TClass c) \<in> set (classProperties env c2)"
    for c2 st3 n j
  proof -
    from emitClass_property_line[OF that] obtain i a where
      l: "Line i (Arr [Nm n, Str '': '', a]) \<in> set (emitted st3)"
      and a: "map_sum id fst (pythonType env (TClass c) st'') = Inr a"
      by blast
    from a in'' have "a = Nm (nameForNamedType env (TClass c))"
      by (simp add: namedType_def Let_def)
    with l show ?thesis by blast
  qed
next
  fix st' assume run: "emitEnum env c st = Inr st'"
  show d: "declaredTypes st' = insert (TEnum c) (declaredTypes st)"
    using run by (rule emitEnum_declared)
  then show "pythonType env (TEnum c) st' = Inr (Nm (nameForNamedType env (TEnum c)), st')"
    by (simp add: namedType_def Let_def)
  fix ds st'' assume later: "forEachInterposing (emitDeclaration env) ds st' = Inr st''"
  from emitDeclarations_declared[OF later] d have in'': "TEnum c \<in> declaredTypes st''" by auto
  then show "namedType env (TEnum c) st'' = Nm (nameForNamedType env (TEnum c))"
    by (simp add: namedType_def Let_def)
  from in'' show "pythonType env (TEnum c) st'' =
      Inr (Nm (nameForNamedType env (TEnum c)), st'')"
    by (simp add: namedType_def Let_def)
  show "\<exists>i. Line i (Arr [Nm n, Str '': '', Nm (nameForNamedType env (TEnum c))])
          \<in> set (emitted st3)"
    if "emitClass env c2 st'' = Inr st3" "(n, j, TEnum c) \<in> set (classProperties env c2)"
    for c2 st3 n j
  proof -
    from emitClass_property_line[OF that] obtain i a where
      l: "Line i (Arr [Nm n, Str '': '', a]) \<in> set (emitted st3)"
      and a: "map_sum id fst (pythonType env (TEnum c) st'') = Inr a"
      by blast
    from a in'' have "a = Nm (nameForNamedType env (TEnum c))"
      by (simp add: namedType_def Let_def)
    with l show ?thesis by blast
  qed
qed

lemma exampleEnv_Node:
  \<open>emitClass exampleEnv 1 initialState =
   Inr (initialState\<lparr>declaredTypes := {TClass 1},
          emitted :=
          [Line 0 (Arr [Arr [Str ''class '', Nm ''Node'', Str '':'']]),
           Line 1 (Arr [Nm ''next'', Str '': '', Arr [Str [CHR 0x27], Nm ''Node'', Str [CHR 0x27]]]),
           Blank,
           Line 1 (Arr [Str ''def __init__(self, obj):'']),
           Line 2 (Arr [Str ''assert isinstance(obj, dict)'']),
           Line 2 (Arr [Str ''self.'', Nm ''next'', Str '' = '',
             Arr [Arr [Nm ''Node''], Str ''('',
                  Arr [Str ''obj["'', Str ''next'', Str ''"]''], Str '')'']])]\<rparr>)\<close>
proof -
  have p: "classProperties exampleEnv 1 = [(''next'', ''next'', TClass 1)]"
    "classProperties exampleEnv (Suc 0) = [(''next'', ''next'', TClass 1)]"
    "descriptionForType exampleEnv t = None"
    "descriptionForClassProperty exampleEnv c j = None"
    "nameForNamedType exampleEnv (TClass 1) = ''Node''"
    "nameForNamedType exampleEnv (TClass (Suc 0)) = ''Node''"
    "stringEscape exampleEnv j = j" for j t c
    by (simp_all add: exampleEnv_def)
  show ?thesis
    unfolding emitClass_def declareType_def emitClassMembers_def emitBlock_def indent_def
    by (simp add: p declarationLine_def emitDescription_def emitLine_def ensureBlankLine_def
        deserializer_def singleWord_def parenIfNeeded_def namedType_def initialState_def)
qed

lemma mutualEnv_A:
  \<open>emitClass mutualEnv 0 s =
   Inr (s\<lparr>declaredTypes := insert (TClass 0) (declaredTypes s),
          emitted := emitted s @
          [Line (indentation s) (Arr [Arr [Str ''class '', Nm ''A'', Str '':'']]),
           Line (Suc (indentation s))
             (Arr [Nm ''other'', Str '': '',
                   if TClass 1 \<in> declaredTypes s then Nm ''B''
                   else Arr [Str [CHR 0x27], Nm ''B'', Str [CHR 0x27]]]),
           Blank,
           Line (Suc (indentation s)) (Arr [Str ''def __init__(self, obj):'']),
           Line (Suc (Suc (indentation s))) (Arr [Str ''assert isinstance(obj, dict)'']),
           Line (Suc (Suc (indentation s))) (Arr [Str ''self.'', Nm ''other'', Str '' = '',
             Arr [Arr [Nm ''B''], Str ''('',
                  Arr [Str ''obj["'', Str ''other'', Str ''"]''], Str '')'']])]\<rparr>)\<close>
proof -
  have p: "classProperties mutualEnv 0 = [(''other'', ''other'', TClass 1)]"
    "descriptionForType mutualEnv t = None"
    "descriptionForClassProperty mutualEnv c j = None"
    "nameForNamedType mutualEnv (TClass 0) = ''A''"
    "nameForNamedType mutualEnv (TClass 1) = ''B''"
    "nameForNamedType mutualEnv (TClass (Suc 0)) = ''B''"
    "stringEscape mutualEnv j = j" for j t c
    by (simp_all add: mutualEnv_def exampleEnv_def)
  show ?thesis
    unfolding emitClass_def declareType_def emitClassMembers_def emitBlock_def indent_def
    by (simp add: p declarationLine_def emitDescription_def emitLine_def ensureBlankLine_def
        deserializer_def singleWord_def parenIfNeeded_def namedType_def)
qed

lemma mutualEnv_B:
  \<open>emitClass mutualEnv 1 s =
   Inr (s\<lparr>declaredTypes := insert (TClass 1) (declaredTypes s),
          emitted := emitted s @
          [Line (indentation s) (Arr [Arr [Str ''class '', Nm ''B'', Str '':'']]),
           Line (Suc (indentation s))
             (Arr [Nm ''other'', Str '': '',
                   if TClass 0 \<in> declaredTypes s then Nm ''A''
                   else Arr [Str [CHR 0x27], Nm ''A'', Str [CHR 0x27]]]),
           Blank,
           Line (Suc (indentation s)) (Arr [Str ''def __init__(self, obj):'']),
           Line (Suc (Suc (indentation s))) (Arr [Str ''assert isinstance(obj, dict)'']),
           Line (Suc (Suc (indentation s))) (Arr [Str ''self.'', Nm ''other'', Str '' = '',
             Arr [Arr [Nm ''A''], Str ''('',
                  Arr [Str ''obj["'', Str ''other'', Str ''"]''], Str '')'']])]\<rparr>)\<close>
proof -
  have p: "classProperties mutualEnv 1 = [(''other'', ''other'', TClass 0)]"
    "classProperties mutualEnv (Suc 0) = [(''other'', ''other'', TClass 0)]"
    "descriptionForType mutualEnv t = None"
    "descriptionForClassProperty mutualEnv c j = None"
    "nameForNamedType mutualEnv (TClass 0) = ''A''"
    "nameForNamedType mutualEnv (TClass 1) = ''B''"
    "nameForNamedType mutualEnv (TClass (Suc 0)) = ''B''"
    "stringEscape mutualEnv j = j" for j t c
    by (simp_all add: mutualEnv_def exampleEnv_def)
  show ?thesis
    unfolding emitClass_def declareType_def emitClassMembers_def emitBlock_def indent_def
    by (simp add: p declarationLine_def emitDescription_def emitLine_def ensureBlankLine_def
        deserializer_def singleWord_def parenIfNeeded_def namedType_def)
qed

theorem declaration_state_witness:
  \<open>classProperties exampleEnv 1 = [(''next'', ''next'', TClass 1)]
   \<and> declaredTypes initialState = {}
   \<and> declaredTypes (projr (emitClass exampleEnv 1 initialState)) = {TClass 1}
   \<and> emitted (projr (emitClass exampleEnv 1 initialState)) ! 1 =
       Line 1 (Arr [Nm ''next'', Str '': '', Arr [Str [CHR 0x27], Nm ''Node'', Str [CHR 0x27]]])
   \<and> namedType exampleEnv (TClass 1) (projr (emitClass exampleEnv 1 initialState)) = Nm ''Node''
   \<and> rendered (pythonType exampleEnv (TClass 1) initialState) = Inr [CHR 0x27, CHR ''N'', CHR ''o'', CHR ''d'', CHR ''e'', CHR 0x27]
   \<and> rendered (pythonType exampleEnv (TClass 1) (projr (emitClass exampleEnv 1 initialState))) =
       Inr ''Node''
   \<and> declarations mutualEnv = [Define (TClass 0), Define (TClass 1)]
   \<and> classProperties mutualEnv 0 = [(''other'', ''other'', TClass 1)]
   \<and> classProperties mutualEnv 1 = [(''other'', ''other'', TClass 0)]
   \<and> artifactLines (forEachInterposing (emitDeclaration mutualEnv) (declarations mutualEnv)
        initialState) =
       [''class A:'', [CHR '' '', CHR '' '', CHR '' '', CHR '' ''] @ ''other: '' @ [CHR 0x27, CHR ''B'', CHR 0x27], [],
        ''    def __init__(self, obj):'', ''        assert isinstance(obj, dict)'',
        ''        self.other = B(obj["other"])'', [],
        ''class B:'', ''    other: A'', [],
        ''    def __init__(self, obj):'', ''        assert isinstance(obj, dict)'',
        ''        self.other = A(obj["other"])'']
   \<and> (\<exists>i. Line i (Arr [Nm ''other'', Str '': '', Nm ''A''])
          \<in> set (emitted (projr (emitClass mutualEnv 1
                  (projr (emitClass mutualEnv 0 initialState))))))\<close>
proof -
  note th = declaration_state[of exampleEnv 1 initialState "TClass 1"]
  from th exampleEnv_Node
  have 1: "namedType exampleEnv (TClass 1) (projr (emitClass exampleEnv 1 initialState)) =
      Nm (nameForNamedType exampleEnv (TClass 1))"
    by (metis sum.sel(2))
  from th exampleEnv_Node
  have 2: "pythonType exampleEnv (TClass 1) (projr (emitClass exampleEnv 1 initialState)) =
      Inr (Nm (nameForNamedType exampleEnv (TClass 1)),
           projr (emitClass exampleEnv 1 initialState))"
    by (metis sum.sel(2))
  note tm = declaration_state[of mutualEnv 0 initialState "TClass 0"]
  obtain sA where A: "emitClass mutualEnv 0 initialState = Inr sA"
    using mutualEnv_A[of initialState] by blast
  obtain sB where B: "emitClass mutualEnv 1 sA = Inr sB"
    using mutualEnv_B[of sA] by blast
  have later: "forEachInterposing (emitDeclaration mutualEnv) [] sA = Inr sA" by simp
  have mem: "(''other'', ''other'', TClass 0) \<in> set (classProperties mutualEnv 1)"
    by (simp add: mutualEnv_def exampleEnv_def)
  have nA: "nameForNamedType mutualEnv (TClass 0) = ''A''"
    by (simp add: mutualEnv_def)
  from tm A later B mem
  have "\<exists>i. Line i (Arr [Nm ''other'', Str '': '', Nm (nameForNamedType mutualEnv (TClass 0))])
          \<in> set (emitted sB)"
    by blast
  then have 3: "\<exists>i. Line i (Arr [Nm ''other'', Str '': '', Nm ''A''])
          \<in> set (emitted (projr (emitClass mutualEnv 1
                  (projr (emitClass mutualEnv 0 initialState)))))"
    unfolding A sum.sel B nA .
  have 5: "declarations mutualEnv = [Define (TClass 0), Define (TClass 1)]"
    "classProperties mutualEnv 0 = [(''other'', ''other'', TClass 1)]"
    "classProperties mutualEnv 1 = [(''other'', ''other'', TClass 0)]"
    by (simp_all add: mutualEnv_def exampleEnv_def)
  have 4: \<open>artifactLines (forEachInterposing (emitDeclaration mutualEnv) (declarations mutualEnv)
        initialState) =
       [''class A:'', [CHR '' '', CHR '' '', CHR '' '', CHR '' ''] @ ''other: '' @ [CHR 0x27, CHR ''B'', CHR 0x27], [],
        ''    def __init__(self, obj):'', ''        assert isinstance(obj, dict)'',
        ''        self.other = B(obj["other"])'', [],
        ''class B:'', ''    other: A'', [],
        ''    def __init__(self, obj):'', ''        assert isinstance(obj, dict)'',
        ''        self.other = A(obj["other"])'']\<close>
    by (simp add: 5(1) emitDeclaration_def mutualEnv_A mutualEnv_B[unfolded One_nat_def]
        artifactLines_def ensureBlankLine_def initialState_def eval_nat_numeral)
  have 6: "rendered (pythonType exampleEnv (TClass 1) initialState) =
      Inr [CHR 0x27, CHR ''N'', CHR ''o'', CHR ''d'', CHR ''e'', CHR 0x27]"
    by (simp add: rendered_def namedType_def initialState_def exampleEnv_def)
  have 7: "classProperties exampleEnv 1 = [(''next'', ''next'', TClass 1)]
   \<and> declaredTypes initialState = {}
   \<and> declaredTypes (projr (emitClass exampleEnv 1 initialState)) = {TClass 1}
   \<and> emitted (projr (emitClass exampleEnv 1 initialState)) ! 1 =
       Line 1 (Arr [Nm ''next'', Str '': '', Arr [Str [CHR 0x27], Nm ''Node'', Str [CHR 0x27]]])"
    unfolding exampleEnv_Node by (simp add: exampleEnv_def initialState_def)
  have 8: "namedType exampleEnv (TClass 1) (projr (emitClass exampleEnv 1 initialState)) = Nm ''Node''"
    using 1 by (simp add: exampleEnv_def)
  have 9: "rendered (pythonType exampleEnv (TClass 1) (projr (emitClass exampleEnv 1 initialState))) =
       Inr ''Node''"
    unfolding 2 by (simp add: rendered_def exampleEnv_def)
  from 3 4 5 6 7 8 9 show ?thesis by blast
qed

section \<open>Properties of the failures\<close>

subsection \<open>The errors of \<open>pythonType\<close> and \<open>deserializerFn\<close>\<close>






subsection \<open>The errors of a run\<close>













subsection \<open>Unsupported kinds and declarations\<close>




end
